theory Spec2Isabelle
  imports Main "HOL-Library.Word"
begin

unbundle bit_operations_syntax

section \<open>JavaScript strings and byte arrays\<close>

text \<open>
  A JavaScript string is a sequence of UTF-16 code units, a \<open>Uint8Array\<close> a sequence of
  bytes.  The helpers \<open>stringToUint8Array\<close>, \<open>uint8ArrayToString\<close> and \<open>toHex\<close> are
  the ones repeated at the top of \<open>SecureStorage\<close>, \<open>AuthHelper\<close> and
  \<open>app/(tabs)/_layout.tsx\<close>.
\<close>

type_synonym jsstring = "16 word list"
type_synonym bytes = "8 word list"

definition js :: "string \<Rightarrow> jsstring" where
  "js s = map (\<lambda>c. of_nat (of_char c)) s"

definition stringToUint8Array :: "jsstring \<Rightarrow> bytes" where
  "stringToUint8Array str = map (\<lambda>c. ucast (c AND 0xFF)) str"

definition uint8ArrayToString :: "bytes \<Rightarrow> jsstring" where
  "uint8ArrayToString arr = map ucast arr"

definition startsWith :: "jsstring \<Rightarrow> jsstring \<Rightarrow> bool" where
  "startsWith s p = (take (length p) s = p)"

definition hexDigit :: "nat \<Rightarrow> 16 word" where
  "hexDigit n = (if n < 10 then of_nat (48 + n) else of_nat (87 + n))"

definition toHex :: "bytes \<Rightarrow> jsstring" where
  "toHex buffer = concat (map (\<lambda>x. [hexDigit (unat x div 16), hexDigit (unat x mod 16)]) buffer)"

text \<open>\<open>Number.prototype.toString()\<close> of an integer, and of \<open>NaN\<close> (\<open>None\<close>).\<close>

fun decDigits :: "nat \<Rightarrow> jsstring" where
  "decDigits n = (if n < 10 then [of_nat (48 + n)]
                  else decDigits (n div 10) @ [of_nat (48 + n mod 10)])"

declare decDigits.simps [simp del]

definition numToString :: "int option \<Rightarrow> jsstring" where
  "numToString v = (case v of
       None \<Rightarrow> js ''NaN''
     | Some n \<Rightarrow> (if n < 0 then js ''-'' @ decDigits (nat (- n)) else decDigits (nat n)))"

text \<open>
  \<open>parseInt(s, 16)\<close> as ECMAScript defines it: leading white space is skipped, then an
  optional sign, then an optional \<open>0x\<close>, then the longest run of hexadecimal digits;
  \<open>NaN\<close> (\<open>None\<close>) when that run is empty.
\<close>

definition isLineTerminator :: "16 word \<Rightarrow> bool" where
  "isLineTerminator c = (c = 0x0A \<or> c = 0x0D \<or> c = 0x2028 \<or> c = 0x2029)"

definition isStrWhiteSpace :: "16 word \<Rightarrow> bool" where
  "isStrWhiteSpace c = (isLineTerminator c \<or> c = 0x09 \<or> c = 0x0B \<or> c = 0x0C \<or> c = 0x20
      \<or> c = 0xA0 \<or> c = 0xFEFF \<or> c = 0x1680 \<or> (0x2000 \<le> c \<and> c \<le> 0x200A)
      \<or> c = 0x202F \<or> c = 0x205F \<or> c = 0x3000)"

definition hexValue :: "16 word \<Rightarrow> nat option" where
  "hexValue c = (if 0x30 \<le> c \<and> c \<le> 0x39 then Some (unat c - 48)
                 else if 0x61 \<le> c \<and> c \<le> 0x66 then Some (unat c - 87)
                 else if 0x41 \<le> c \<and> c \<le> 0x46 then Some (unat c - 55)
                 else None)"

definition isHexDigit :: "16 word \<Rightarrow> bool" where
  "isHexDigit c = (hexValue c \<noteq> None)"

definition hexNumber :: "jsstring \<Rightarrow> nat" where
  "hexNumber z = foldl (\<lambda>acc c. 16 * acc + (case hexValue c of Some v \<Rightarrow> v | None \<Rightarrow> 0)) 0 z"

definition parseInt16 :: "jsstring \<Rightarrow> int option" where
  "parseInt16 s =
     (let s1 = dropWhile isStrWhiteSpace s;
          neg = (take 1 s1 = js ''-'');
          s2 = (if take 1 s1 = js ''-'' \<or> take 1 s1 = js ''+'' then drop 1 s1 else s1);
          s3 = (if take 2 s2 = js ''0x'' \<or> take 2 s2 = js ''0X'' then drop 2 s2 else s2);
          z = takeWhile isHexDigit s3
      in if z = [] then None
         else Some ((if neg then - 1 else 1) * int (hexNumber z)))"

text \<open>
  \<open>hex.match(/.{1,2}/g)\<close>: the successive matches of one or two code units, where \<open>.\<close>
  does not match a line terminator; \<open>null\<close> (here the empty list) when nothing matches.
\<close>

fun matchPairs :: "jsstring \<Rightarrow> jsstring list" where
  "matchPairs [] = []"
| "matchPairs [a] = (if isLineTerminator a then [] else [[a]])"
| "matchPairs (a # b # r) =
     (if isLineTerminator a then matchPairs (b # r)
      else if isLineTerminator b then [a] # matchPairs r
      else [a, b] # matchPairs r)"

definition toUint8 :: "int option \<Rightarrow> 8 word" where
  "toUint8 v = (case v of None \<Rightarrow> 0 | Some n \<Rightarrow> word_of_int n)"

text \<open>
  \<open>fromHex\<close>: \<open>new Uint8Array(hex.match(/.{1,2}/g)!.map(byte => parseInt(byte, 16)))\<close>.
  \<open>None\<close> is the \<open>TypeError\<close> of calling \<open>map\<close> on \<open>null\<close>.
\<close>

definition fromHex :: "jsstring \<Rightarrow> bytes option" where
  "fromHex hex = (case matchPairs hex of
       [] \<Rightarrow> None
     | ps \<Rightarrow> Some (map (\<lambda>byte. toUint8 (parseInt16 byte)) ps))"

text \<open>\<open>String.prototype.split\<close> with a non-empty separator.\<close>

fun splitAux :: "jsstring \<Rightarrow> nat \<Rightarrow> jsstring \<Rightarrow> jsstring \<Rightarrow> jsstring list" where
  "splitAux sep k acc [] = [rev acc]"
| "splitAux sep k acc (c # cs) =
     (if 0 < k then splitAux sep (k - 1) acc cs
      else if take (length sep) (c # cs) = sep
        then rev acc # splitAux sep (length sep - 1) [] cs
      else splitAux sep 0 (c # acc) cs)"

definition splitStr :: "jsstring \<Rightarrow> jsstring \<Rightarrow> jsstring list" where
  "splitStr s sep = splitAux sep 0 [] s"

definition nth_opt :: "'a list \<Rightarrow> nat \<Rightarrow> 'a option" where
  "nth_opt xs i = (if i < length xs then Some (xs ! i) else None)"

section \<open>Parsed JSON values\<close>

text \<open>
  The result of \<open>JSON.parse\<close> on data that arrives from the network.  Numbers are
  integers here; a fractional number behaves like any non-zero number in every test the
  code makes on such data (truthiness and \<open>typeof\<close>).
\<close>

datatype json =
    JNull
  | JBool bool
  | JNum int
  | JStr jsstring
  | JArr "json list"
  | JObj "(jsstring \<times> json) list"

text \<open>Property read \<open>data.p\<close> on a non-null value; \<open>None\<close> is \<open>undefined\<close>.\<close>

definition getProp :: "json \<Rightarrow> jsstring \<Rightarrow> json option" where
  "getProp data p = (case data of JObj kvs \<Rightarrow> map_of kvs p | _ \<Rightarrow> None)"

definition truthy :: "json option \<Rightarrow> bool" where
  "truthy v = (case v of
       None \<Rightarrow> False
     | Some JNull \<Rightarrow> False
     | Some (JBool b) \<Rightarrow> b
     | Some (JNum n) \<Rightarrow> n \<noteq> 0
     | Some (JStr s) \<Rightarrow> s \<noteq> []
     | Some (JArr _) \<Rightarrow> True
     | Some (JObj _) \<Rightarrow> True)"

definition isObject :: "json \<Rightarrow> bool" where
  "isObject data = (case data of JArr _ \<Rightarrow> True | JObj _ \<Rightarrow> True | _ \<Rightarrow> False)"

section \<open>Library functions taken as parameters\<close>

text \<open>
  The packages the application imports are not part of the repository: \<open>base-64\<close>
  (\<open>encode\<close>, \<open>decode\<close>), \<open>tweetnacl\<close> (\<open>secretbox\<close>, \<open>secretbox.open\<close>, \<open>box.open\<close>),
  \<open>expo-crypto\<close> (\<open>digestStringAsync\<close> with SHA-256, hexadecimal output), and the
  built-ins \<open>JSON.parse\<close> and \<open>String.prototype.toLowerCase\<close>.  Every function of the
  model takes them as one record.  \<open>None\<close> stands for a thrown exception (\<open>encode\<close>,
  \<open>decode\<close>, \<open>JSON.parse\<close>) or for a failed authentication (\<open>open\<close>, which returns
  \<open>null\<close>, or throws on a key or nonce of the wrong size; every caller treats both alike).
\<close>

record jsenv =
  encodeBase64 :: "jsstring \<Rightarrow> jsstring option"
  decodeBase64 :: "jsstring \<Rightarrow> jsstring option"
  secretbox :: "bytes \<Rightarrow> bytes \<Rightarrow> bytes \<Rightarrow> bytes"
  secretbox_open :: "bytes \<Rightarrow> bytes \<Rightarrow> bytes \<Rightarrow> bytes option"
  box_open :: "bytes \<Rightarrow> bytes \<Rightarrow> bytes \<Rightarrow> bytes \<Rightarrow> bytes option"
  json_parse :: "jsstring \<Rightarrow> json option"
  toLowerCase :: "jsstring \<Rightarrow> jsstring"
  sha256 :: "jsstring \<Rightarrow> jsstring"

definition latin1 :: "jsstring \<Rightarrow> bool" where
  "latin1 s = list_all (\<lambda>c. c \<le> 0xFF) s"

text \<open>
  What the storage engine relies on: \<open>secretbox.open\<close> inverts \<open>secretbox\<close> under the same
  nonce and key, a box is 16 bytes (the authenticator) longer than its message, and
  \<open>decode\<close> inverts \<open>encode\<close>, which accepts every string of code units below 256 and
  gives a non-empty result for a non-empty one.
\<close>

definition storage_lib_ok :: "jsenv \<Rightarrow> bool" where
  "storage_lib_ok E =
     ((\<forall>m n k. secretbox_open E (secretbox E m n k) n k = Some m)
    \<and> (\<forall>m n k. length (secretbox E m n k) = length m + 16)
    \<and> (\<forall>s. latin1 s \<longrightarrow>
          (\<exists>e. encodeBase64 E s = Some e \<and> decodeBase64 E e = Some s \<and> (s \<noteq> [] \<longrightarrow> e \<noteq> []))))"

section \<open>Secure storage engine (\<open>utils/SecureStorage\<close>)\<close>

text \<open>
  The device holds the unencrypted key-value store (\<open>AsyncStorage\<close>), the protected
  store of the operating system (\<open>SecureStore\<close>) and the module-level caches of
  \<open>SecureStorage\<close> and \<open>AuthHelper\<close>.  Reads and writes of the two stores are taken to
  succeed.
\<close>

record device =
  asyncStorage :: "jsstring \<rightharpoonup> jsstring"
  secureStore :: "jsstring \<rightharpoonup> jsstring"
  cachedEncKey :: "bytes option"
  cachedSigningKeyPair :: "(bytes \<times> bytes) option"
  cachedMyID :: "jsstring option"
  cachedBoxSecretKey :: "bytes option"

datatype jserror = EncryptionKeyNotAvailable | TypeError | InvalidCharacterError

definition STORAGE_KEY :: jsstring where
  "STORAGE_KEY = js ''my_permanent_secret_key_v1''"

definition getEncryptionKey :: "jsenv \<Rightarrow> device \<Rightarrow> jserror + (bytes option \<times> device)" where
  "getEncryptionKey E d =
     (case cachedEncKey d of
        Some k \<Rightarrow> Inr (Some k, d)
      | None \<Rightarrow>
         (case secureStore d STORAGE_KEY of
            None \<Rightarrow> Inr (None, d)
          | Some stored \<Rightarrow>
             if stored = [] then Inr (None, d)
             else
               (let extractHex = sha256 E stored;
                    expandHex = sha256 E (js ''ghost:secure_storage:v1:'' @ extractHex)
                in case fromHex (take 64 expandHex) of
                     None \<Rightarrow> Inl TypeError
                   | Some k \<Rightarrow> Inr (Some k, d\<lparr>cachedEncKey := Some k\<rparr>))))"

definition clearSecureStorageCache :: "device \<Rightarrow> device" where
  "clearSecureStorageCache d = d\<lparr>cachedEncKey := None\<rparr>"

text \<open>
  \<open>nonce\<close> is the value of \<open>nacl.randomBytes(nacl.secretbox.nonceLength)\<close>; the nonce
  length is 24 and the overhead length 16.
\<close>

definition secureSet :: "jsenv \<Rightarrow> bytes \<Rightarrow> jsstring \<Rightarrow> jsstring \<Rightarrow> device \<Rightarrow> jserror + device" where
  "secureSet E nonce key val d =
     (case getEncryptionKey E d of
        Inl e \<Rightarrow> Inl e
      | Inr (None, d1) \<Rightarrow> Inl EncryptionKeyNotAvailable
      | Inr (Some encKey, d1) \<Rightarrow>
         (let messageBytes = stringToUint8Array val;
              encrypted = secretbox E messageBytes nonce encKey;
              fullMessage = nonce @ encrypted
          in case encodeBase64 E (uint8ArrayToString fullMessage) of
               None \<Rightarrow> Inl InvalidCharacterError
             | Some encoded \<Rightarrow> Inr (d1\<lparr>asyncStorage := (asyncStorage d1)(key \<mapsto> encoded)\<rparr>)))"

text \<open>
  \<open>migrateLegacyData\<close>: every exception inside its \<open>try\<close> (the \<open>JSON.parse\<close>, but also
  the encoding) ends in the \<open>catch\<close> that removes the item and returns \<open>null\<close>.
\<close>

definition migrateLegacyData ::
  "jsenv \<Rightarrow> bytes \<Rightarrow> jsstring \<Rightarrow> jsstring \<Rightarrow> bytes \<Rightarrow> device \<Rightarrow> jsstring option \<times> device" where
  "migrateLegacyData E nonce key raw encKey d =
     (case json_parse E raw of
        None \<Rightarrow> (None, d\<lparr>asyncStorage := (asyncStorage d)(key := None)\<rparr>)
      | Some _ \<Rightarrow>
         (let messageBytes = stringToUint8Array raw;
              encrypted = secretbox E messageBytes nonce encKey;
              fullMessage = nonce @ encrypted
          in case encodeBase64 E (uint8ArrayToString fullMessage) of
               None \<Rightarrow> (None, d\<lparr>asyncStorage := (asyncStorage d)(key := None)\<rparr>)
             | Some encoded \<Rightarrow>
                 (Some raw, d\<lparr>asyncStorage := (asyncStorage d)(key \<mapsto> encoded)\<rparr>)))"

definition secureGet ::
  "jsenv \<Rightarrow> bytes \<Rightarrow> jsstring \<Rightarrow> device \<Rightarrow> jserror + (jsstring option \<times> device)" where
  "secureGet E nonce key d =
     (case asyncStorage d key of
        None \<Rightarrow> Inr (None, d)
      | Some raw \<Rightarrow>
         if raw = [] then Inr (None, d)
         else
           (case getEncryptionKey E d of
              Inl e \<Rightarrow> Inl e
            | Inr (None, d1) \<Rightarrow> Inr (None, d1)
            | Inr (Some encKey, d1) \<Rightarrow>
               (case decodeBase64 E raw of
                  None \<Rightarrow> Inr (migrateLegacyData E nonce key raw encKey d1)
                | Some decoded \<Rightarrow>
                   (let fullMessage = stringToUint8Array decoded
                    in if length fullMessage < 24 + 16
                       then Inr (migrateLegacyData E nonce key raw encKey d1)
                       else
                         (case secretbox_open E (drop 24 fullMessage) (take 24 fullMessage) encKey of
                            None \<Rightarrow> Inr (migrateLegacyData E nonce key raw encKey d1)
                          | Some decrypted \<Rightarrow> Inr (Some (uint8ArrayToString decrypted), d1))))))"

definition secureClear :: "jsstring \<Rightarrow> device \<Rightarrow> device" where
  "secureClear key d = d\<lparr>asyncStorage := (asyncStorage d)(key := None)\<rparr>"

section \<open>Identity (\<open>utils/AuthHelper\<close>, \<open>app/(tabs)/index.tsx\<close>)\<close>

definition clearAuthCache :: "device \<Rightarrow> device" where
  "clearAuthCache d =
     d\<lparr>cachedSigningKeyPair := None, cachedMyID := None, cachedBoxSecretKey := None\<rparr>"

text \<open>
  \<open>keyPair\<close> is the value of \<open>nacl.box.keyPair()\<close>, a pair of public and secret key.
\<close>

definition generateNewIdentity :: "jsenv \<Rightarrow> bytes \<times> bytes \<Rightarrow> device \<Rightarrow> jserror + device" where
  "generateNewIdentity E keyPair d =
     (case encodeBase64 E (uint8ArrayToString (snd keyPair)) of
        None \<Rightarrow> Inl InvalidCharacterError
      | Some secretKeyB64 \<Rightarrow>
          Inr (clearAuthCache (d\<lparr>secureStore := (secureStore d)(STORAGE_KEY \<mapsto> secretKeyB64)\<rparr>)))"

text \<open>
  The storing half of \<open>setupIdentity\<close>: a key pair is generated and stored only when
  nothing is stored; an exception is caught and logged.
\<close>

definition setupIdentity :: "jsenv \<Rightarrow> bytes \<times> bytes \<Rightarrow> device \<Rightarrow> device" where
  "setupIdentity E keyPair d =
     (case secureStore d STORAGE_KEY of
        Some stored \<Rightarrow>
          if stored \<noteq> [] then d
          else (case encodeBase64 E (uint8ArrayToString (snd keyPair)) of
                  None \<Rightarrow> d
                | Some b64 \<Rightarrow> d\<lparr>secureStore := (secureStore d)(STORAGE_KEY \<mapsto> b64)\<rparr>)
      | None \<Rightarrow>
          (case encodeBase64 E (uint8ArrayToString (snd keyPair)) of
             None \<Rightarrow> d
           | Some b64 \<Rightarrow> d\<lparr>secureStore := (secureStore d)(STORAGE_KEY \<mapsto> b64)\<rparr>))"

section \<open>Safety number (contact details screen)\<close>

text \<open>
  \<open>[key1, key2].sort()\<close> orders two strings by their code units; \<open>join("")\<close> concatenates.
\<close>

fun jsLess :: "jsstring \<Rightarrow> jsstring \<Rightarrow> bool" where
  "jsLess [] [] = False"
| "jsLess [] (y # ys) = True"
| "jsLess (x # xs) [] = False"
| "jsLess (x # xs) (y # ys) = (x < y \<or> (x = y \<and> jsLess xs ys))"

definition sort2 :: "jsstring \<Rightarrow> jsstring \<Rightarrow> jsstring list" where
  "sort2 key1 key2 = (if jsLess key2 key1 then [key2, key1] else [key1, key2])"

definition padStart4 :: "jsstring \<Rightarrow> jsstring" where
  "padStart4 s = replicate (4 - length s) 0x30 @ s"

definition sliceLast4 :: "jsstring \<Rightarrow> jsstring" where
  "sliceLast4 s = drop (length s - 4) s"

definition digitGroup :: "jsstring \<Rightarrow> nat \<Rightarrow> jsstring" where
  "digitGroup hash i =
     sliceLast4 (padStart4 (numToString (parseInt16 (take 4 (drop i hash)))))"

definition generateSafetyNumber :: "jsenv \<Rightarrow> jsstring \<Rightarrow> jsstring \<Rightarrow> jsstring" where
  "generateSafetyNumber E key1 key2 =
     (let sorted = concat (sort2 key1 key2);
          hash = sha256 E sorted;
          n1 = digitGroup hash 0;
          n2 = digitGroup hash 4;
          n3 = digitGroup hash 8;
          n4 = digitGroup hash 12
      in n1 @ js '' '' @ n2 @ js '' '' @ n3 @ js '' '' @ n4)"

section \<open>PIN lock (\<open>components/LockScreen\<close>)\<close>

definition getDelay :: "int \<Rightarrow> int" where
  "getDelay failedAttempts =
     (if failedAttempts \<ge> 15 then 300
      else if failedAttempts \<ge> 10 then 120
      else if failedAttempts \<ge> 7 then 60
      else if failedAttempts \<ge> 5 then 30
      else if failedAttempts \<ge> 3 then 10
      else 0)"

text \<open>
  The record stored under \<open>my_app_lock_pin_v1\<close>, as \<open>JSON.parse\<close> reads it, and the
  state of the lock screen.  \<open>persistedFailed\<close> is the item \<open>ghost_lock_failed_attempts\<close>
  of \<open>SecureStore\<close> as \<open>parseInt\<close> reads it (it is only ever written as
  \<open>count.toString()\<close>); \<open>None\<close> when the item is absent.  \<open>appLock\<close> is \<open>None\<close> when the
  item is absent or does not parse.
\<close>

record lockrecord =
  lockKind :: "jsstring option"
  lockHash :: jsstring
  lockSalt :: jsstring

record lockscreen =
  failedAttempts :: int
  cooldownRemaining :: int
  pin :: jsstring
  lockType :: jsstring
  unlocked :: bool
  persistedFailed :: "int option"
  appLock :: "lockrecord option"

definition HASH_ITERATIONS :: nat where
  "HASH_ITERATIONS = 50000"

definition hashPin :: "jsenv \<Rightarrow> jsstring \<Rightarrow> jsstring \<Rightarrow> nat \<Rightarrow> jsstring" where
  "hashPin E p salt iterations =
     ((\<lambda>hash. sha256 E (hash @ salt)) ^^ iterations)
        (sha256 E (js ''ghost:pin:v2:'' @ salt @ js '':'' @ p))"

definition hashPinLegacy :: "jsenv \<Rightarrow> jsstring \<Rightarrow> jsstring \<Rightarrow> jsstring" where
  "hashPinLegacy E p salt = ((sha256 E) ^^ 10000) (salt @ p)"

definition loadFailedAttempts :: "lockscreen \<Rightarrow> int" where
  "loadFailedAttempts ls = (case persistedFailed ls of Some n \<Rightarrow> n | None \<Rightarrow> 0)"

definition startCooldown :: "int \<Rightarrow> lockscreen \<Rightarrow> lockscreen" where
  "startCooldown seconds ls = ls\<lparr>cooldownRemaining := seconds\<rparr>"

definition cooldownTick :: "lockscreen \<Rightarrow> lockscreen" where
  "cooldownTick ls =
     ls\<lparr>cooldownRemaining := (if cooldownRemaining ls \<le> 1 then 0 else cooldownRemaining ls - 1)\<rparr>"

definition loadPersistedState :: "lockscreen \<Rightarrow> lockscreen" where
  "loadPersistedState ls =
     (let persistedFailed = loadFailedAttempts ls
      in if persistedFailed > 0
         then (let ls1 = ls\<lparr>failedAttempts := persistedFailed\<rparr>;
                   delay = getDelay persistedFailed
               in if delay > 0 then startCooldown delay ls1 else ls1)
         else ls)"

text \<open>
  The verification inside \<open>handleComplete\<close>: the current format first, then the legacy
  one, which rewrites the record with a fresh salt (\<open>newSalt\<close> is the value of
  \<open>generateSalt()\<close>).
\<close>

definition verifyEntered ::
  "jsenv \<Rightarrow> jsstring \<Rightarrow> jsstring \<Rightarrow> lockscreen \<Rightarrow> bool \<times> lockrecord option" where
  "verifyEntered E newSalt enteredInput ls =
     (case appLock ls of
        None \<Rightarrow> (False, None)
      | Some parsed \<Rightarrow>
          if lockHash parsed \<noteq> [] \<and> lockSalt parsed \<noteq> [] then
            (if hashPin E enteredInput (lockSalt parsed) HASH_ITERATIONS = lockHash parsed
             then (True, Some parsed)
             else if hashPinLegacy E enteredInput (lockSalt parsed) = lockHash parsed
             then (True, Some \<lparr>lockKind = Some (case lockKind parsed of
                                                    Some t \<Rightarrow> if t \<noteq> [] then t else lockType ls
                                                  | None \<Rightarrow> lockType ls),
                               lockHash = hashPin E enteredInput newSalt HASH_ITERATIONS,
                               lockSalt = newSalt\<rparr>)
             else (False, Some parsed))
          else (False, Some parsed))"

text \<open>\<open>handleComplete\<close> in the step \<open>unlock\<close>.\<close>

definition handleComplete :: "jsenv \<Rightarrow> jsstring \<Rightarrow> jsstring \<Rightarrow> lockscreen \<Rightarrow> lockscreen" where
  "handleComplete E newSalt enteredInput ls =
     (if cooldownRemaining ls > 0 then ls
      else
        (let (valid, stored) = verifyEntered E newSalt enteredInput ls
         in if valid
            then ls\<lparr>appLock := stored, failedAttempts := 0, persistedFailed := None,
                    unlocked := True\<rparr>
            else
              (let newFailed = failedAttempts ls + 1;
                   ls1 = ls\<lparr>failedAttempts := newFailed, persistedFailed := Some newFailed\<rparr>;
                   delay = getDelay newFailed;
                   ls2 = (if delay > 0 then startCooldown delay ls1 else ls1)
               in ls2\<lparr>pin := []\<rparr>)))"

text \<open>
  The wait the persisted counter asks for, and the relation between the counter in
  memory and the persisted one that \<open>loadPersistedState\<close> sets up at mount.
\<close>

definition requiredWait :: "lockscreen \<Rightarrow> int" where
  "requiredWait ls = getDelay (loadFailedAttempts ls)"

definition lock_inv :: "lockscreen \<Rightarrow> bool" where
  "lock_inv ls = (failedAttempts ls = max 0 (loadFailedAttempts ls))"

definition mountState :: "jsstring \<Rightarrow> int option \<Rightarrow> lockrecord option \<Rightarrow> lockscreen" where
  "mountState lt persisted stored =
     loadPersistedState
       \<lparr>failedAttempts = 0, cooldownRemaining = 0, pin = [], lockType = lt, unlocked = False,
        persistedFailed = persisted, appLock = stored\<rparr>"

section \<open>Contacts, messages and the stored records\<close>

text \<open>
  A contact and a message as the interfaces \<open>Contact\<close> and \<open>Message\<close> declare them,
  with the fields the trust store adds; an optional field is \<open>None\<close> when it is
  \<open>undefined\<close> or \<open>null\<close>, an optional flag \<open>False\<close>.
\<close>

record contact =
  cid :: jsstring
  cname :: "jsstring option"
  ckey :: "jsstring option"
  cavatar :: "jsstring option"
  isSelf :: bool
  calias :: "jsstring option"
  isBlocked :: bool
  isVerified :: bool
  securityWarning :: bool
  pendingNewKey :: "jsstring option"

record message =
  mid :: jsstring
  mtext :: jsstring
  timestamp :: int
  isMe :: bool
  status :: "jsstring option"

text \<open>
  The application keeps whole records as JSON under one storage key each: the contact
  list under \<open>my_contacts_list_v1\<close>, the history of a conversation under
  \<open>history_<id>\<close>, the read mark under \<open>last_read_<id>\<close>.  The trust store and the
  inbound dispatcher are modelled on the device itself: a record is read with
  \<open>secureGet\<close> and \<open>JSON.parse\<close> and written with \<open>JSON.stringify\<close> and \<open>secureSet\<close>, as
  in the code.  \<open>JSON.stringify\<close> and \<open>JSON.parse\<close> at the types of the two records are
  parameters, like the other built-in functions; a parser returns \<open>None\<close> when
  \<open>JSON.parse\<close> throws (for a value that is not a list the first list operation of the
  caller throws in its place, inside the same \<open>try\<close>).
\<close>

record jsoncodec =
  stringifyContacts :: "contact list \<Rightarrow> jsstring"
  parseContacts :: "jsstring \<Rightarrow> contact list option"
  stringifyHistory :: "message list \<Rightarrow> jsstring"
  parseHistory :: "jsstring \<Rightarrow> message list option"

text \<open>
  The device together with the files written below the document directory (path and
  base-64 content, in the order of the writes; a write is taken to succeed).
\<close>

record world =
  dev :: device
  fileSystem :: "(jsstring \<times> jsstring) list"

text \<open>
  The retention sweeps of the last section are modelled on the parsed content of the
  records they work on: the contact list, the histories, the read marks, the timers
  under \<open>ephemeral_timer_<id>\<close> (in \<open>SecureStore\<close>, as \<open>parseInt\<close> reads them) and the
  files.
\<close>

record appstate =
  contactsStore :: "contact list option"
  historyStore :: "jsstring \<rightharpoonup> message list"
  lastReadStore :: "jsstring \<rightharpoonup> jsstring"
  ephemeralTimerStore :: "jsstring \<rightharpoonup> int"
  files :: "(jsstring \<times> jsstring) list"

text \<open>
  What one processing step observes of the outside: \<open>Date.now()\<close>, the random bytes of
  \<open>Crypto.getRandomBytes\<close> in hexadecimal, \<open>FileSystem.documentDirectory\<close>, and the
  values of \<open>nacl.randomBytes\<close> that \<open>secureGet\<close> (when it migrates a record) and
  \<open>secureSet\<close> draw as nonces; a step calls each of the two at most once.
\<close>

record ambient =
  nowMs :: int
  randomHex :: jsstring
  documentDirectory :: jsstring
  getNonce :: bytes
  setNonce :: bytes

definition orElse :: "jsstring option \<Rightarrow> jsstring option \<Rightarrow> jsstring option" where
  "orElse a b = (case a of Some s \<Rightarrow> if s \<noteq> [] then Some s else b | None \<Rightarrow> b)"

definition strProp :: "json \<Rightarrow> jsstring \<Rightarrow> jsstring option" where
  "strProp data p = (case getProp data p of Some (JStr s) \<Rightarrow> Some s | _ \<Rightarrow> None)"

fun findIndex :: "('a \<Rightarrow> bool) \<Rightarrow> 'a list \<Rightarrow> nat option" where
  "findIndex P [] = None"
| "findIndex P (x # xs) = (if P x then Some 0 else map_option Suc (findIndex P xs))"

definition CONTACTS_KEY :: jsstring where
  "CONTACTS_KEY = js ''my_contacts_list_v1''"

definition historyKey :: "jsstring \<Rightarrow> jsstring" where
  "historyKey ident = js ''history_'' @ ident"

definition lastReadKey :: "jsstring \<Rightarrow> jsstring" where
  "lastReadKey ident = js ''last_read_'' @ ident"

text \<open>
  \<open>await secureGet(key)\<close>, \<open>await secureSet(key, value)\<close> and \<open>await secureClear(key)\<close>
  inside a function of the application.  \<open>Inl\<close> is an exception, with the world at the
  moment it is thrown; a function that wraps its body in \<open>try\<close> and ends a \<open>catch\<close> by
  returning continues from that world (\<open>caught\<close>).
\<close>

definition readItem ::
  "jsenv \<Rightarrow> ambient \<Rightarrow> jsstring \<Rightarrow> world \<Rightarrow> world + jsstring option \<times> world" where
  "readItem E amb key w =
     (case secureGet E (getNonce amb) key (dev w) of
        Inl e \<Rightarrow> Inl w
      | Inr (v, d1) \<Rightarrow> Inr (v, w\<lparr>dev := d1\<rparr>))"

definition writeItem :: "jsenv \<Rightarrow> ambient \<Rightarrow> jsstring \<Rightarrow> jsstring \<Rightarrow> world \<Rightarrow> world + world" where
  "writeItem E amb key val w =
     (case secureSet E (setNonce amb) key val (dev w) of
        Inl e \<Rightarrow> Inl w
      | Inr d1 \<Rightarrow> Inr (w\<lparr>dev := d1\<rparr>))"

definition clearItem :: "jsstring \<Rightarrow> world \<Rightarrow> world" where
  "clearItem key w = w\<lparr>dev := secureClear key (dev w)\<rparr>"

definition caught :: "world + world \<Rightarrow> world" where
  "caught r = (case r of Inl w \<Rightarrow> w | Inr w \<Rightarrow> w)"

text \<open>
  \<open>const json = await secureGet(CONTACTS_KEY)\<close> followed by \<open>JSON.parse(json)\<close> when
  \<open>json\<close> is truthy: \<open>Inr (None, _)\<close> when \<open>json\<close> is \<open>null\<close> or empty, \<open>Inl\<close> when
  \<open>secureGet\<close> or \<open>JSON.parse\<close> throws.  The same for the history of a conversation.
\<close>

definition loadContacts ::
  "jsoncodec \<Rightarrow> jsenv \<Rightarrow> ambient \<Rightarrow> world \<Rightarrow> world + contact list option \<times> world" where
  "loadContacts J E amb w =
     (case readItem E amb CONTACTS_KEY w of
        Inl w1 \<Rightarrow> Inl w1
      | Inr (json, w1) \<Rightarrow>
         (case json of
            None \<Rightarrow> Inr (None, w1)
          | Some t \<Rightarrow>
             if t = [] then Inr (None, w1)
             else (case parseContacts J t of
                     None \<Rightarrow> Inl w1
                   | Some l \<Rightarrow> Inr (Some l, w1))))"

definition loadHistory ::
  "jsoncodec \<Rightarrow> jsenv \<Rightarrow> ambient \<Rightarrow> jsstring \<Rightarrow> world \<Rightarrow> world + message list option \<times> world" where
  "loadHistory J E amb ident w =
     (case readItem E amb (historyKey ident) w of
        Inl w1 \<Rightarrow> Inl w1
      | Inr (json, w1) \<Rightarrow>
         (case json of
            None \<Rightarrow> Inr (None, w1)
          | Some t \<Rightarrow>
             if t = [] then Inr (None, w1)
             else (case parseHistory J t of
                     None \<Rightarrow> Inl w1
                   | Some h \<Rightarrow> Inr (Some h, w1))))"

section \<open>Trust store: handshake, contact add, approval\<close>

definition validateHandshakeData :: "json \<Rightarrow> bool" where
  "validateHandshakeData data =
     (isObject data
    \<and> (case getProp data (js ''id'') of
          Some (JStr s) \<Rightarrow> length s = 12 \<and> list_all isHexDigit s
        | _ \<Rightarrow> False)
    \<and> (case getProp data (js ''key'') of
          Some (JStr s) \<Rightarrow> length s = 64 \<and> list_all isHexDigit s
        | _ \<Rightarrow> False)
    \<and> \<not> (truthy (getProp data (js ''name''))
          \<and> (case getProp data (js ''name'') of Some (JStr s) \<Rightarrow> length s > 100 | _ \<Rightarrow> True))
    \<and> \<not> (truthy (getProp data (js ''avatar''))
          \<and> (case getProp data (js ''avatar'') of Some (JStr s) \<Rightarrow> length s > 500000 | _ \<Rightarrow> True)))"

definition saveAvatarLocally ::
  "ambient \<Rightarrow> jsstring \<Rightarrow> jsstring \<Rightarrow> world \<Rightarrow> jsstring option \<times> world" where
  "saveAvatarLocally amb ident base64Data w =
     (if length base64Data > 500000 then (None, w)
      else
        (let parts = splitStr base64Data (js '';base64,'');
             b64 = (case parts of
                      [] \<Rightarrow> []
                    | p0 # rest \<Rightarrow> (case rest of [] \<Rightarrow> p0 | p1 # _ \<Rightarrow> if p1 \<noteq> [] then p1 else p0))
         in if b64 = [] then (None, w)
            else
              (let filename = js ''avatar_'' @ ident @ js ''_'' @ numToString (Some (nowMs amb))
                               @ js ''.jpg'';
                   fileUri = documentDirectory amb @ filename
               in (Some fileUri, w\<lparr>fileSystem := fileSystem w @ [(fileUri, b64)]\<rparr>))))"

definition localAvatar ::
  "ambient \<Rightarrow> jsstring \<Rightarrow> jsstring option \<Rightarrow> world \<Rightarrow> jsstring option \<times> world" where
  "localAvatar amb ident av w =
     (case av of
        None \<Rightarrow> (None, w)
      | Some a \<Rightarrow> if a \<noteq> [] \<and> startsWith a (js ''data:'')
                  then saveAvatarLocally amb ident a w
                  else (Some a, w))"

text \<open>
  \<open>addContactFromHandshake\<close>.  After the validation the identifier and the key are
  strings; a name or an avatar that is not a string is falsy and is kept as \<open>None\<close>.
  The whole body is inside a \<open>try\<close> whose \<open>catch\<close> logs and returns.
\<close>

definition addContactFromHandshake ::
  "jsoncodec \<Rightarrow> jsenv \<Rightarrow> ambient \<Rightarrow> json \<Rightarrow> world \<Rightarrow> world" where
  "addContactFromHandshake J E amb data w =
     (if \<not> validateHandshakeData data then w
      else
        (case loadContacts J E amb w of
           Inl w1 \<Rightarrow> w1
         | Inr (stored, w1) \<Rightarrow>
            (let lst = (case stored of Some l \<Rightarrow> l | None \<Rightarrow> []);
                 did = (case strProp data (js ''id'') of Some s \<Rightarrow> s | None \<Rightarrow> []);
                 dkey = strProp data (js ''key'');
                 dname = strProp data (js ''name'');
                 davatar = strProp data (js ''avatar'')
             in case findIndex (\<lambda>c. cid c = did) lst of
                  Some existingIndex \<Rightarrow>
                    (let existing = lst ! existingIndex
                     in if ckey existing \<noteq> dkey
                        then caught (writeItem E amb CONTACTS_KEY
                               (stringifyContacts J
                                  (lst[existingIndex :=
                                     existing\<lparr>securityWarning := True, pendingNewKey := dkey\<rparr>]))
                               w1)
                        else
                          (let (finalAvatar, w2) = localAvatar amb did davatar w1
                           in caught (writeItem E amb CONTACTS_KEY
                                (stringifyContacts J
                                   (lst[existingIndex :=
                                      existing\<lparr>cname := dname,
                                               cavatar := orElse finalAvatar (cavatar existing)\<rparr>]))
                                w2)))
                | None \<Rightarrow>
                    (let (finalAvatar, w2) = localAvatar amb did davatar w1
                     in caught (writeItem E amb CONTACTS_KEY
                          (stringifyContacts J
                             (lst @ [\<lparr>cid = did, cname = dname, ckey = dkey,
                                      cavatar = orElse finalAvatar None, isSelf = False,
                                      calias = None, isBlocked = False, isVerified = False,
                                      securityWarning = False, pendingNewKey = None\<rparr>]))
                          w2)))))"

text \<open>
  \<open>addContactLocally\<close> of the contacts screen adds the sender of an accepted friend
  request (\<open>FriendRequest.from\<close>, a \<open>Contact\<close>).  It has no \<open>try\<close> of its own: an
  exception reaches the caller.
\<close>

definition addContactLocally ::
  "jsoncodec \<Rightarrow> jsenv \<Rightarrow> ambient \<Rightarrow> contact \<Rightarrow> world \<Rightarrow> world + world" where
  "addContactLocally J E amb newContact w =
     (case loadContacts J E amb w of
        Inl w1 \<Rightarrow> Inl w1
      | Inr (stored, w1) \<Rightarrow>
         (let lst = (case stored of Some l \<Rightarrow> l | None \<Rightarrow> [])
          in case find (\<lambda>c. cid c = cid newContact) lst of
               Some existing \<Rightarrow>
                 if ckey existing \<noteq> ckey newContact
                 then writeItem E amb CONTACTS_KEY
                        (stringifyContacts J
                           (map (\<lambda>c. if cid c = cid newContact
                                      then c\<lparr>securityWarning := True,
                                             pendingNewKey := ckey newContact\<rparr>
                                      else c) lst))
                        w1
                 else Inr w1
             | None \<Rightarrow>
                 (let (local, w2) = localAvatar amb (cid newContact) (cavatar newContact) w1;
                      finalAvatar = (case cavatar newContact of
                                       Some a \<Rightarrow> if a \<noteq> [] \<and> startsWith a (js ''data:'')
                                                 then orElse local (cavatar newContact)
                                                 else cavatar newContact
                                     | None \<Rightarrow> None);
                      c = \<lparr>cid = cid newContact,
                           cname = orElse (cname newContact)
                                     (Some (js ''Contact '' @ take 4 (cid newContact))),
                           ckey = ckey newContact,
                           cavatar = orElse finalAvatar None, isSelf = False,
                           calias = None, isBlocked = False, isVerified = False,
                           securityWarning = False, pendingNewKey = None\<rparr>
                  in writeItem E amb CONTACTS_KEY (stringifyContacts J (lst @ [c])) w2)))"

text \<open>
  The handler behind the button \<open>Approuver\<close> of \<open>approveNewKey\<close>; its \<open>catch\<close> is empty.
\<close>

definition approveNewKey :: "jsoncodec \<Rightarrow> jsenv \<Rightarrow> ambient \<Rightarrow> jsstring \<Rightarrow> world \<Rightarrow> world" where
  "approveNewKey J E amb contactId w =
     (case loadContacts J E amb w of
        Inl w1 \<Rightarrow> w1
      | Inr (stored, w1) \<Rightarrow>
         (case stored of
            None \<Rightarrow> w1
          | Some lst \<Rightarrow>
              caught (writeItem E amb CONTACTS_KEY
                (stringifyContacts J
                   (map (\<lambda>c. if cid c = contactId
                              then c\<lparr>ckey := pendingNewKey c, securityWarning := False,
                                     pendingNewKey := None, isVerified := False\<rparr>
                              else c) lst))
                w1)))"

text \<open>
  A contact list reads back from the store as it was written when its JSON text has no
  code unit above 0xFF, is not empty and parses to the list.
\<close>

definition readsBack :: "jsoncodec \<Rightarrow> contact list \<Rightarrow> bool" where
  "readsBack J l =
     (latin1 (stringifyContacts J l) \<and> stringifyContacts J l \<noteq> []
      \<and> parseContacts J (stringifyContacts J l) = Some l)"

section \<open>Inbound dispatcher (\<open>checkGlobalMessages\<close>)\<close>

text \<open>An item of the array the relay returns for \<open>GET /check/:id\<close>.\<close>

record inbound =
  delivery_id :: int
  content :: jsstring

text \<open>
  Trial decryption under the key of one contact: the body of the \<open>try\<close> inside the loop
  over the contacts.  A missing key, a key \<open>match\<close> cannot split and a box that does not
  open all leave \<open>decrypted\<close> as it is.
\<close>

definition openUnder :: "jsenv \<Rightarrow> bytes \<Rightarrow> bytes \<Rightarrow> bytes \<Rightarrow> contact \<Rightarrow> bytes option" where
  "openUnder E secretKey nonce ciphertext c =
     (case ckey c of
        None \<Rightarrow> None
      | Some k \<Rightarrow>
         (case fromHex k of
            None \<Rightarrow> None
          | Some peerKey \<Rightarrow> box_open E ciphertext nonce peerKey secretKey))"

fun trialDecrypt ::
  "jsenv \<Rightarrow> bytes \<Rightarrow> bytes \<Rightarrow> bytes \<Rightarrow> contact list \<Rightarrow> (jsstring \<times> contact) option" where
  "trialDecrypt E secretKey nonce ciphertext [] = None"
| "trialDecrypt E secretKey nonce ciphertext (c # cs) =
     (if isSelf c then trialDecrypt E secretKey nonce ciphertext cs
      else (case openUnder E secretKey nonce ciphertext c of
              Some result \<Rightarrow> Some (uint8ArrayToString result, c)
            | None \<Rightarrow> trialDecrypt E secretKey nonce ciphertext cs))"

text \<open>
  The test on the parsed handshake data: \<open>hsData.key && hsData.key.toLowerCase() ===
  claimedKeyHex.toLowerCase()\<close>.  Reading \<open>key\<close> of \<open>null\<close> and calling \<open>toLowerCase\<close> on
  a value that is not a string throw, which the enclosing \<open>catch\<close> turns into a warning.
\<close>

definition handshakeKeyMatches :: "jsenv \<Rightarrow> json \<Rightarrow> jsstring \<Rightarrow> bool" where
  "handshakeKeyMatches E hsData claimedKeyHex =
     (case hsData of
        JNull \<Rightarrow> False
      | _ \<Rightarrow>
         (case getProp hsData (js ''key'') of
            Some (JStr k) \<Rightarrow> k \<noteq> [] \<and> toLowerCase E k = toLowerCase E claimedKeyHex
          | _ \<Rightarrow> False))"

text \<open>
  The anonymous handshake branch, entered with \<open>fullMessage.length > 32 + 24\<close>: the
  value it assigns to \<open>decrypted\<close>, if any.
\<close>

definition anonymousHandshake :: "jsenv \<Rightarrow> bytes \<Rightarrow> bytes \<Rightarrow> jsstring option" where
  "anonymousHandshake E secretKey fullMessage =
     (let claimedPubKey = take 32 fullMessage;
          handshakeNonce = take 24 (drop 32 fullMessage);
          handshakeCipher = drop (32 + 24) fullMessage
      in case box_open E handshakeCipher handshakeNonce claimedPubKey secretKey of
           None \<Rightarrow> None
         | Some result \<Rightarrow>
            (let txt = uint8ArrayToString result
             in if startsWith txt (js ''GHOST_SIGNAL:ACCEPT:'')
                then (case json_parse E (drop (length (js ''GHOST_SIGNAL:ACCEPT:'')) txt) of
                        None \<Rightarrow> None
                      | Some hsData \<Rightarrow>
                          if handshakeKeyMatches E hsData (toHex claimedPubKey)
                          then Some txt else None)
                else None))"

text \<open>The two decryption attempts: the final values of \<open>decrypted\<close> and \<open>sender\<close>.\<close>

definition decryptPhase ::
  "jsenv \<Rightarrow> bytes \<Rightarrow> contact list \<Rightarrow> bytes \<Rightarrow> jsstring option \<times> contact option" where
  "decryptPhase E secretKey contacts fullMessage =
     (let nonce = take 24 fullMessage;
          ciphertext = drop 24 fullMessage;
          t = trialDecrypt E secretKey nonce ciphertext contacts;
          decrypted = map_option fst t;
          sender = map_option snd t
      in if (decrypted = None \<or> decrypted = Some []) \<and> length fullMessage > 32 + 24
         then (case anonymousHandshake E secretKey fullMessage of
                 Some txt \<Rightarrow> (Some txt, sender)
               | None \<Rightarrow> (decrypted, sender))
         else (decrypted, sender))"

text \<open>
  \<open>updateContactInfo\<close> and \<open>deleteContactLocally\<close>; both wrap their body in a \<open>try\<close>
  whose \<open>catch\<close> returns.  In the second an exception of \<open>secureSet\<close> skips the two
  \<open>secureClear\<close>.
\<close>

definition updateContactInfo ::
  "jsoncodec \<Rightarrow> jsenv \<Rightarrow> ambient \<Rightarrow> jsstring \<Rightarrow> jsstring \<Rightarrow> jsstring option \<Rightarrow> world \<Rightarrow> world" where
  "updateContactInfo J E amb contactId pseudo av w =
     (case loadContacts J E amb w of
        Inl w1 \<Rightarrow> w1
      | Inr (stored, w1) \<Rightarrow>
         (case stored of
            None \<Rightarrow> w1
          | Some contacts \<Rightarrow>
             (let (local, w2) = localAvatar amb contactId av w1;
                  finalAvatar = (case av of
                                   Some a \<Rightarrow> if a \<noteq> [] \<and> startsWith a (js ''data:'')
                                             then (case local of
                                                     Some l \<Rightarrow> if l \<noteq> [] then Some l else av
                                                   | None \<Rightarrow> av)
                                             else av
                                 | None \<Rightarrow> None);
                  hit = (\<lambda>c. cid c = contactId
                              \<and> (cname c \<noteq> Some pseudo \<or> cavatar c \<noteq> finalAvatar))
              in if list_ex hit contacts
                 then caught (writeItem E amb CONTACTS_KEY
                        (stringifyContacts J
                           (map (\<lambda>c. if hit c then c\<lparr>cname := Some pseudo, cavatar := finalAvatar\<rparr>
                                      else c) contacts))
                        w2)
                 else w2)))"

definition deleteContactLocally :: "jsoncodec \<Rightarrow> jsenv \<Rightarrow> ambient \<Rightarrow> jsstring \<Rightarrow> world \<Rightarrow> world" where
  "deleteContactLocally J E amb contactId w =
     (case loadContacts J E amb w of
        Inl w1 \<Rightarrow> w1
      | Inr (stored, w1) \<Rightarrow>
         (case stored of
            None \<Rightarrow> w1
          | Some lst \<Rightarrow>
             (case writeItem E amb CONTACTS_KEY
                     (stringifyContacts J (filter (\<lambda>c. cid c \<noteq> contactId) lst)) w1 of
                Inl w2 \<Rightarrow> w2
              | Inr w2 \<Rightarrow> clearItem (historyKey contactId) (clearItem (lastReadKey contactId) w2))))"

text \<open>
  The branches \<open>SCREENSHOT\<close> and \<open>READ\<close>.  They are inside no inner \<open>try\<close>: an exception
  of \<open>secureGet\<close>, \<open>JSON.parse\<close> or \<open>secureSet\<close> leaves the loop.  The text of the notice
  begins with the two code units of U+1F4F8.
\<close>

definition screenshotNotice ::
  "jsoncodec \<Rightarrow> jsenv \<Rightarrow> ambient \<Rightarrow> contact \<Rightarrow> world \<Rightarrow> world + world" where
  "screenshotNotice J E amb sender w =
     (case loadHistory J E amb (cid sender) w of
        Inl w1 \<Rightarrow> Inl w1
      | Inr (stored, w1) \<Rightarrow>
         (let history = (case stored of Some h \<Rightarrow> h | None \<Rightarrow> []);
              msgId = js ''screenshot_'' @ numToString (Some (nowMs amb)) @ js ''_'' @ randomHex amb;
              who = (case orElse (cname sender) None of Some n \<Rightarrow> n | None \<Rightarrow> cid sender);
              screenshotMsg = \<lparr>mid = msgId,
                               mtext = [0xD83D, 0xDCF8] @ js '' '' @ who @ js '' a pris une capture d''
                                         @ [0x27, 0xE9] @ js ''cran'',
                               timestamp = nowMs amb, isMe = False, status = None\<rparr>
          in writeItem E amb (historyKey (cid sender))
               (stringifyHistory J (screenshotMsg # history)) w1))"

definition readReceipt ::
  "jsoncodec \<Rightarrow> jsenv \<Rightarrow> ambient \<Rightarrow> contact \<Rightarrow> world \<Rightarrow> world + world" where
  "readReceipt J E amb sender w =
     (case loadHistory J E amb (cid sender) w of
        Inl w1 \<Rightarrow> Inl w1
      | Inr (stored, w1) \<Rightarrow>
         (case stored of
            None \<Rightarrow> Inr w1
          | Some history \<Rightarrow>
              if list_ex (\<lambda>m. isMe m \<and> status m \<noteq> Some (js ''read'')) history
              then writeItem E amb (historyKey (cid sender))
                     (stringifyHistory J
                        (map (\<lambda>m. if isMe m \<and> status m \<noteq> Some (js ''read'')
                                   then m\<lparr>status := Some (js ''read'')\<rparr> else m) history))
                     w1
              else Inr w1))"

definition validProfileUpdate :: "json \<Rightarrow> bool" where
  "validProfileUpdate updatedData =
     (isObject updatedData
    \<and> (case getProp updatedData (js ''pseudo'') of Some (JStr s) \<Rightarrow> length s \<le> 100 | _ \<Rightarrow> False)
    \<and> (\<not> truthy (getProp updatedData (js ''avatar''))
        \<or> (case getProp updatedData (js ''avatar'') of
              Some (JStr s) \<Rightarrow> length s \<le> 500000 | _ \<Rightarrow> False)))"

text \<open>The branch \<open>decrypted.startsWith("GHOST_SIGNAL:")\<close>.\<close>

definition handleSignal ::
  "jsoncodec \<Rightarrow> jsenv \<Rightarrow> ambient \<Rightarrow> jsstring \<Rightarrow> contact option \<Rightarrow> world \<Rightarrow> world + world" where
  "handleSignal J E amb decrypted sender w =
     (let parts = splitStr decrypted (js '':'');
          type = nth_opt parts 1
      in if type = Some (js ''ACCEPT'') then
           (let jsonStr = (if startsWith decrypted (js ''GHOST_SIGNAL:ACCEPT:'')
                           then drop (length (js ''GHOST_SIGNAL:ACCEPT:'')) decrypted
                           else drop (length (js ''GHOST_SIGNAL:ACCEPT'')) decrypted)
            in case json_parse E jsonStr of
                 None \<Rightarrow> Inr w
               | Some data \<Rightarrow> Inr (addContactFromHandshake J E amb data w))
         else
           (case sender of
              None \<Rightarrow> Inr w
            | Some sd \<Rightarrow>
               if type = Some (js ''PROFILE_UPDATE'') then
                 (case json_parse E (drop (length (js ''GHOST_SIGNAL:PROFILE_UPDATE:'')) decrypted) of
                    None \<Rightarrow> Inr w
                  | Some updatedData \<Rightarrow>
                      if validProfileUpdate updatedData
                      then Inr (updateContactInfo J E amb (cid sd)
                             (case strProp updatedData (js ''pseudo'') of Some s \<Rightarrow> s | None \<Rightarrow> [])
                             (strProp updatedData (js ''avatar'')) w)
                      else Inr w)
               else if type = Some (js ''DELETE'') then Inr (deleteContactLocally J E amb (cid sd) w)
               else if type = Some (js ''SCREENSHOT'') then screenshotNotice J E amb sd w
               else if type = Some (js ''READ'') then readReceipt J E amb sd w
               else Inr w))"

text \<open>
  The branch \<open>decrypted.startsWith("GHOST_MEDIA:")\<close>: \<open>None\<close> when the item is skipped,
  else the reference that replaces \<open>decrypted\<close> and the world with the file written
  (the write is taken to succeed).  The bound \<open>10 * 1024 * 1024 * 1.37\<close> is
  14365491.2.
\<close>

definition handleMedia :: "ambient \<Rightarrow> jsstring \<Rightarrow> world \<Rightarrow> (jsstring \<times> world) option" where
  "handleMedia amb decrypted w =
     (let parts = splitStr decrypted (js '':'');
          mediaType = nth_opt parts 1;
          b64 = nth_opt parts 2;
          caption = (case orElse (nth_opt parts 3) None of Some c \<Rightarrow> c | None \<Rightarrow> [])
      in if mediaType \<noteq> Some (js ''IMAGE'') \<and> mediaType \<noteq> Some (js ''VIDEO'') then None
         else
           (case b64 of
              None \<Rightarrow> None
            | Some b \<Rightarrow>
               if b = [] \<or> length b > 14365491 then None
               else
                 (let safeCaption = take 500 caption;
                      mt = (case mediaType of Some t \<Rightarrow> t | None \<Rightarrow> []);
                      ext = (if mediaType = Some (js ''VIDEO'') then js ''mp4'' else js ''jpg'');
                      filename = js ''media_'' @ numToString (Some (nowMs amb)) @ js ''_''
                                   @ randomHex amb @ js ''.'' @ ext;
                      fileUri = documentDirectory amb @ filename
                  in Some (js ''GHOST_MEDIA_REF:'' @ mt @ js '':'' @ fileUri @ js '':'' @ safeCaption,
                           w\<lparr>fileSystem := fileSystem w @ [(fileUri, b)]\<rparr>))))"

text \<open>
  The end of the loop body: the history of the sender is read, the message is put in
  front and the list is written back.  No inner \<open>try\<close> is around it.
\<close>

definition appendMessage ::
  "jsoncodec \<Rightarrow> jsenv \<Rightarrow> ambient \<Rightarrow> contact \<Rightarrow> jsstring \<Rightarrow> world \<Rightarrow> world + world" where
  "appendMessage J E amb sender decrypted w =
     (case loadHistory J E amb (cid sender) w of
        Inl w1 \<Rightarrow> Inl w1
      | Inr (stored, w1) \<Rightarrow>
         (let history = (case stored of Some h \<Rightarrow> h | None \<Rightarrow> []);
              msgId = numToString (Some (nowMs amb)) @ js ''_'' @ randomHex amb;
              newMsg = \<lparr>mid = msgId, mtext = decrypted, timestamp = nowMs amb, isMe = False,
                        status = None\<rparr>
          in writeItem E amb (historyKey (cid sender))
               (stringifyHistory J (newMsg # history)) w1))"

text \<open>
  The body of the loop over the received items.  \<open>Inl\<close> is an exception that leaves the
  loop for the outer \<open>catch\<close> (the \<open>decodeBase64\<close> of the content and the reads and
  writes of the histories are outside every inner \<open>try\<close>), with the world reached so
  far; \<open>Inr\<close> carries the world and \<open>processedIds\<close>.
\<close>

definition processMessage ::
  "jsoncodec \<Rightarrow> jsenv \<Rightarrow> bytes \<Rightarrow> contact list \<Rightarrow> inbound \<times> ambient \<Rightarrow> world \<times> int list
     \<Rightarrow> world + world \<times> int list" where
  "processMessage J E secretKey contacts item acc =
     (let msg = fst item; amb = snd item; w = fst acc; processedIds = snd acc
      in case decodeBase64 E (content msg) of
           None \<Rightarrow> Inl w
         | Some decoded \<Rightarrow>
            (let fullMessage = stringToUint8Array decoded;
                 (decrypted, sender) = decryptPhase E secretKey contacts fullMessage
             in case decrypted of
                  None \<Rightarrow> Inr (w, processedIds)
                | Some d \<Rightarrow>
                   if d = [] then Inr (w, processedIds)
                   else
                     (let ids = (if delivery_id msg \<noteq> 0 then processedIds @ [delivery_id msg]
                                 else processedIds)
                      in if startsWith d (js ''GHOST_SIGNAL:'')
                         then (case handleSignal J E amb d sender w of
                                 Inl w1 \<Rightarrow> Inl w1
                               | Inr w1 \<Rightarrow> Inr (w1, ids))
                         else
                           (case sender of
                              None \<Rightarrow> Inr (w, ids)
                            | Some sd \<Rightarrow>
                               if isBlocked sd then Inr (w, ids)
                               else if startsWith d (js ''GHOST_MEDIA:'')
                               then (case handleMedia amb d w of
                                       None \<Rightarrow> Inr (w, ids)
                                     | Some (ref, w1) \<Rightarrow>
                                         (case appendMessage J E amb sd ref w1 of
                                            Inl w2 \<Rightarrow> Inl w2
                                          | Inr w2 \<Rightarrow> Inr (w2, ids)))
                               else (case appendMessage J E amb sd d w of
                                       Inl w1 \<Rightarrow> Inl w1
                                     | Inr w1 \<Rightarrow> Inr (w1, ids))))))"

fun pollLoop ::
  "jsoncodec \<Rightarrow> jsenv \<Rightarrow> bytes \<Rightarrow> contact list \<Rightarrow> (inbound \<times> ambient) list \<Rightarrow> world \<times> int list
     \<Rightarrow> world + world \<times> int list" where
  "pollLoop J E secretKey contacts [] acc = Inr acc"
| "pollLoop J E secretKey contacts (item # rest) acc =
     (case processMessage J E secretKey contacts item acc of
        Inl w \<Rightarrow> Inl w
      | Inr acc1 \<Rightarrow> pollLoop J E secretKey contacts rest acc1)"

text \<open>
  \<open>checkGlobalMessages\<close> from the point where the relay has answered with the items
  \<open>messages\<close>: the new world and the body of the \<open>POST /ack\<close> request, \<open>None\<close> when no
  request is made.  \<open>amb\<close> is what the read of the contact list observes.
\<close>

definition checkGlobalMessages ::
  "jsoncodec \<Rightarrow> jsenv \<Rightarrow> bytes \<Rightarrow> ambient \<Rightarrow> (inbound \<times> ambient) list \<Rightarrow> world
     \<Rightarrow> world \<times> int list option" where
  "checkGlobalMessages J E secretKey amb messages w =
     (if messages = [] then (w, None)
      else
        (case loadContacts J E amb w of
           Inl w1 \<Rightarrow> (w1, None)
         | Inr (stored, w1) \<Rightarrow>
            (let contacts = (case stored of Some l \<Rightarrow> l | None \<Rightarrow> [])
             in case pollLoop J E secretKey contacts messages (w1, []) of
                  Inl w2 \<Rightarrow> (w2, None)
                | Inr (w2, processedIds) \<Rightarrow>
                    (w2, if processedIds \<noteq> [] then Some processedIds else None))))"

text \<open>Whether the item opens to a non-empty plaintext, and the identifiers of such items.\<close>

definition opens :: "jsenv \<Rightarrow> bytes \<Rightarrow> contact list \<Rightarrow> inbound \<Rightarrow> bool" where
  "opens E secretKey contacts msg =
     (case decodeBase64 E (content msg) of
        None \<Rightarrow> False
      | Some decoded \<Rightarrow>
         (case fst (decryptPhase E secretKey contacts (stringToUint8Array decoded)) of
            None \<Rightarrow> False
          | Some d \<Rightarrow> d \<noteq> []))"

definition openedIds :: "jsenv \<Rightarrow> bytes \<Rightarrow> contact list \<Rightarrow> (inbound \<times> ambient) list \<Rightarrow> int list" where
  "openedIds E secretKey contacts messages =
     map delivery_id
       (filter (\<lambda>m. opens E secretKey contacts m \<and> delivery_id m \<noteq> 0) (map fst messages))"

section \<open>Ephemeral retention\<close>

definition retained :: "int \<Rightarrow> int \<Rightarrow> message \<Rightarrow> bool" where
  "retained now expiryMs m = (now - timestamp m < expiryMs)"

text \<open>The body of the loop of \<open>cleanExpiredEphemeralMessages\<close> for one contact.\<close>

definition sweepContact :: "int \<Rightarrow> appstate \<Rightarrow> contact \<Rightarrow> appstate" where
  "sweepContact now st c =
     (case ephemeralTimerStore st (cid c) of
        None \<Rightarrow> st
      | Some timerSeconds \<Rightarrow>
          if timerSeconds = 0 \<or> timerSeconds \<le> 0 then st
          else
            (let expiryMs = timerSeconds * 1000
             in case historyStore st (cid c) of
                  None \<Rightarrow> st
                | Some history \<Rightarrow>
                   (let filtered = filter (retained now expiryMs) history
                    in if length filtered < length history
                       then (if length filtered = 0
                             then st\<lparr>historyStore := (historyStore st)(cid c := None)\<rparr>
                             else st\<lparr>historyStore := (historyStore st)(cid c \<mapsto> filtered)\<rparr>)
                       else st)))"

definition cleanExpiredEphemeralMessages :: "int \<Rightarrow> appstate \<Rightarrow> appstate" where
  "cleanExpiredEphemeralMessages now st =
     (case contactsStore st of
        None \<Rightarrow> st
      | Some contacts \<Rightarrow> foldl (sweepContact now) st contacts)"

text \<open>
  \<open>cleanExpiredMessages\<close> of the chat screen (\<open>app/chat.tsx\<close>), run every two seconds
  while the conversation is open; \<open>ephemeralTimer\<close> is the state variable the screen
  loads from the same timer item.
\<close>

definition cleanExpiredMessages :: "int option \<Rightarrow> jsstring \<Rightarrow> int \<Rightarrow> appstate \<Rightarrow> appstate" where
  "cleanExpiredMessages ephemeralTimer contactId now st =
     (case ephemeralTimer of
        None \<Rightarrow> st
      | Some t \<Rightarrow>
          if t = 0 \<or> contactId = [] then st
          else
            (case historyStore st contactId of
               None \<Rightarrow> st
             | Some history \<Rightarrow>
                (let expiryMs = t * 1000;
                     filtered = filter (retained now expiryMs) history
                 in if length filtered < length history
                    then st\<lparr>historyStore := (historyStore st)(contactId \<mapsto> filtered)\<rparr>
                    else st)))"

section \<open>A small instance of the libraries\<close>

text \<open>
  An instance of the library record on which the model can be evaluated: the encoding
  prefixes a marker, a box is its message behind a 16-byte tag taken from the key (a
  32-byte tag, the public key, for \<open>box\<close>), the parser reads \<open>{\<close> followed by a key as an
  object with that \<open>key\<close> and \<open>[]\<close> as the empty array, lower-casing is that of ASCII, and
  the digest is a constant.  It satisfies what the storage engine relies on.
\<close>

definition sampleTag :: "bytes \<Rightarrow> bytes" where
  "sampleTag k = take 16 (k @ replicate 16 0)"

definition sampleEnv :: jsenv where
  "sampleEnv =
     \<lparr>encodeBase64 = (\<lambda>s. if latin1 s then Some (0x42 # s) else None),
      decodeBase64 = (\<lambda>e. case e of [] \<Rightarrow> None
                              | c # s \<Rightarrow> if c = 0x42 \<and> latin1 s then Some s else None),
      secretbox = (\<lambda>m n k. sampleTag k @ m),
      secretbox_open = (\<lambda>c n k. if take 16 c = sampleTag k then Some (drop 16 c) else None),
      box_open = (\<lambda>c n pk sk. if length pk = 32 \<and> take 32 c = pk then Some (drop 32 c) else None),
      json_parse = (\<lambda>s. case s of [] \<Rightarrow> None
                            | c # r \<Rightarrow> if c = 0x7B then Some (JObj [(js ''key'', JStr r)])
                                      else if s = js ''[]'' then Some (JArr [])
                                      else None),
      toLowerCase = map (\<lambda>c. if 0x41 \<le> c \<and> c \<le> 0x5A then c + 0x20 else c),
      sha256 = (\<lambda>s. js ''0a1b2c3d'')\<rparr>"

text \<open>
  The lock screen after three failed attempts, once the cooldown has run out; \<open>h\<close> is
  the stored hash.
\<close>

definition sampleLock :: "jsstring \<Rightarrow> lockscreen" where
  "sampleLock h =
     \<lparr>failedAttempts = 3, cooldownRemaining = 0, pin = js ''1234'', lockType = js ''pin4'',
      unlocked = False, persistedFailed = Some 3,
      appLock = Some \<lparr>lockKind = Some (js ''pin4''), lockHash = h, lockSalt = js ''5a''\<rparr>\<rparr>"

text \<open>
  A device with an identity stored and \<open>a\<close> in \<open>AsyncStorage\<close>, the same device without
  an identity, and a nonce.
\<close>

definition sampleDevice :: "(jsstring \<rightharpoonup> jsstring) \<Rightarrow> device" where
  "sampleDevice a =
     \<lparr>asyncStorage = a, secureStore = [STORAGE_KEY \<mapsto> js ''c2VjcmV0''], cachedEncKey = None,
      cachedSigningKeyPair = None, cachedMyID = None, cachedBoxSecretKey = None\<rparr>"

definition noIdentityDevice :: "(jsstring \<rightharpoonup> jsstring) \<Rightarrow> device" where
  "noIdentityDevice a =
     \<lparr>asyncStorage = a, secureStore = Map.empty, cachedEncKey = None,
      cachedSigningKeyPair = None, cachedMyID = None, cachedBoxSecretKey = None\<rparr>"

definition sampleNonce :: bytes where
  "sampleNonce = replicate 24 0x07"

text \<open>
  A public key, a secret key, and an anonymous-form envelope that opens under the
  embedded public key to a handshake whose data claims the key \<open>claimed\<close>.
\<close>

definition samplePk :: bytes where
  "samplePk = [0xAB, 0xAB, 0xAB, 0xAB, 0xAB, 0xAB, 0xAB, 0xAB, 0xAB, 0xAB, 0xAB, 0xAB, 0xAB, 0xAB, 0xAB, 0xAB,
               0xAB, 0xAB, 0xAB, 0xAB, 0xAB, 0xAB, 0xAB, 0xAB, 0xAB, 0xAB, 0xAB, 0xAB, 0xAB, 0xAB, 0xAB, 0xAB]"

definition sampleSk :: bytes where
  "sampleSk = replicate 32 0x11"

definition hexUpperAB :: jsstring where
  "hexUpperAB = js ''ABABABABABABABABABABABABABABABABABABABABABABABABABABABABABABABAB''"

definition hexLowerCD :: jsstring where
  "hexLowerCD = js ''cdcdcdcdcdcdcdcdcdcdcdcdcdcdcdcdcdcdcdcdcdcdcdcdcdcdcdcdcdcdcdcd''"

definition handshakeEnvelope :: "jsstring \<Rightarrow> bytes" where
  "handshakeEnvelope claimed =
     samplePk @ sampleNonce @ samplePk
       @ stringToUint8Array (js ''GHOST_SIGNAL:ACCEPT:{'' @ claimed)"

text \<open>
  A stored contact, what a processing step observes, and the data of a handshake for
  the identifier of that contact.
\<close>

definition sampleContact :: contact where
  "sampleContact =
     \<lparr>cid = js ''A1B2C3D4E5F6'', cname = Some (js ''Bob''), ckey = Some hexUpperAB,
      cavatar = None, isSelf = False, calias = None, isBlocked = False, isVerified = True,
      securityWarning = False, pendingNewKey = None\<rparr>"

definition sampleAmbient :: ambient where
  "sampleAmbient =
     \<lparr>nowMs = 1700000000000, randomHex = js ''00ff'', documentDirectory = js ''file:///doc/'',
      getNonce = sampleNonce, setNonce = sampleNonce\<rparr>"

definition handshakeData :: "jsstring \<Rightarrow> jsstring \<Rightarrow> json" where
  "handshakeData k n =
     JObj [(js ''id'', JStr (js ''A1B2C3D4E5F6'')), (js ''key'', JStr k), (js ''name'', JStr n)]"

text \<open>
  A message with a given timestamp, and a state in which the conversation with the
  stored contact has a timer of 60 seconds and the history \<open>h\<close>.
\<close>

definition sampleMessage :: "int \<Rightarrow> message" where
  "sampleMessage ts =
     \<lparr>mid = js ''m1'', mtext = js ''hello'', timestamp = ts, isMe = False, status = None\<rparr>"

definition timedState :: "message list \<Rightarrow> appstate" where
  "timedState h =
     \<lparr>contactsStore = Some [sampleContact],
      historyStore = [js ''A1B2C3D4E5F6'' \<mapsto> h],
      lastReadStore = Map.empty,
      ephemeralTimerStore = [js ''A1B2C3D4E5F6'' \<mapsto> 60],
      files = []\<rparr>"

text \<open>
  The stored contact with the block flag set, a known-sender envelope (nonce, then a
  box under the sample public key) with the plaintext \<open>txt\<close>, and received items: one
  that carries such an envelope and one that no key opens.
\<close>

definition blockedContact :: contact where
  "blockedContact = sampleContact\<lparr>isBlocked := True\<rparr>"

definition knownEnvelope :: "jsstring \<Rightarrow> bytes" where
  "knownEnvelope txt = sampleNonce @ samplePk @ stringToUint8Array txt"

definition envelopeItem :: "int \<Rightarrow> jsstring \<Rightarrow> inbound" where
  "envelopeItem i txt =
     \<lparr>delivery_id = i, content = 0x42 # uint8ArrayToString (knownEnvelope txt)\<rparr>"

definition junkItem :: "int \<Rightarrow> inbound" where
  "junkItem i = \<lparr>delivery_id = i, content = [0x42, 1, 2, 3]\<rparr>"

text \<open>
  The stored contact with a key change pending, the same after the approval, and a
  contact with another identifier and the same key, not blocked.
\<close>

definition warnedContact :: contact where
  "warnedContact = sampleContact\<lparr>securityWarning := True, pendingNewKey := Some hexLowerCD\<rparr>"

definition approvedContact :: contact where
  "approvedContact = sampleContact\<lparr>ckey := Some hexLowerCD, isVerified := False\<rparr>"

definition otherContact :: contact where
  "otherContact = sampleContact\<lparr>cid := js ''0F0F0F0F0F0F'', cname := Some (js ''Eve'')\<rparr>"

text \<open>
  An instance of \<open>JSON.stringify\<close> and \<open>JSON.parse\<close> at the types of the stored records:
  it writes the contact lists of this section as short texts and reads these texts
  back, and it writes a history as the texts of its messages and reads back the empty
  one.
\<close>

definition sampleLists :: "(jsstring \<times> contact list) list" where
  "sampleLists =
     [(js ''[]'', []),
      (js ''[Bob]'', [sampleContact]),
      (js ''[Bob!]'', [warnedContact]),
      (js ''[Bob2]'', [approvedContact]),
      (js ''[Bob#]'', [blockedContact]),
      (js ''[Bob,Bob]'', [sampleContact, sampleContact]),
      (js ''[Bob!,Bob]'', [warnedContact, sampleContact]),
      (js ''[Eve,Bob#]'', [otherContact, blockedContact])]"

definition sampleCodec :: jsoncodec where
  "sampleCodec =
     \<lparr>stringifyContacts = (\<lambda>l. case find (\<lambda>p. snd p = l) sampleLists of
                                   Some p \<Rightarrow> fst p
                                 | None \<Rightarrow> js ''[?]''),
      parseContacts = map_of sampleLists,
      stringifyHistory = (\<lambda>h. js ''['' @ concat (map mtext h) @ js '']''),
      parseHistory = (\<lambda>t. if t = js ''[]'' then Some [] else None)\<rparr>"

text \<open>
  The item \<open>secureSet\<close> stores for the value \<open>v\<close> with the sample nonce under the key of
  the sample device, and a world whose device has derived its key and holds \<open>a\<close> in
  \<open>AsyncStorage\<close>.
\<close>

definition sampleRecord :: "jsstring \<Rightarrow> jsstring" where
  "sampleRecord v =
     0x42 # uint8ArrayToString
              (sampleNonce @ sampleTag [0x0a, 0x1b, 0x2c, 0x3d] @ stringToUint8Array v)"

definition sampleWorld :: "(jsstring \<rightharpoonup> jsstring) \<Rightarrow> world" where
  "sampleWorld a =
     \<lparr>dev = (sampleDevice a)\<lparr>cachedEncKey := Some [0x0a, 0x1b, 0x2c, 0x3d]\<rparr>, fileSystem = []\<rparr>"

section \<open>Safety number: properties\<close>

lemma jsLess_asym: "jsLess a b \<Longrightarrow> \<not> jsLess b a"
  by (induction a b rule: jsLess.induct) auto

lemma jsLess_total: "\<not> jsLess a b \<Longrightarrow> \<not> jsLess b a \<Longrightarrow> a = b"
  by (induction a b rule: jsLess.induct) auto

lemma sort2_commute: "sort2 a b = sort2 b a"
  using jsLess_asym[of a b] jsLess_total[of a b] by (auto simp: sort2_def)

text \<open>
  C7.  The safety number does not depend on the order of the two public keys: whichever
  party computes it over the same pair of keys obtains the same string, because the two
  keys are sorted before they are concatenated and hashed.
\<close>

theorem safety_number_symmetric:
  "generateSafetyNumber E pkA pkB = generateSafetyNumber E pkB pkA"
  by (simp add: generateSafetyNumber_def sort2_commute[of pkA pkB])

theorem safety_number_symmetric_witness:
  "generateSafetyNumber sampleEnv (js ''ab12'') (js ''0f3c'')
     = generateSafetyNumber sampleEnv (js ''0f3c'') (js ''ab12'')"
  using safety_number_symmetric [of sampleEnv "js ''ab12''" "js ''0f3c''"] by simp

section \<open>PIN lock: properties\<close>

lemma getDelay_mono: "a \<le> b \<Longrightarrow> getDelay a \<le> getDelay b"
  by (simp add: getDelay_def)

lemma lock_inv_mount: "lock_inv (mountState lt p stored)"
  by (auto simp: lock_inv_def mountState_def loadPersistedState_def loadFailedAttempts_def
      startCooldown_def Let_def split: option.splits)

lemma lock_inv_tick: "lock_inv ls \<Longrightarrow> lock_inv (cooldownTick ls)"
  by (simp add: lock_inv_def cooldownTick_def loadFailedAttempts_def)

lemma handleComplete_refused:
  "cooldownRemaining ls > 0 \<Longrightarrow> handleComplete E newSalt input ls = ls"
  by (simp add: handleComplete_def)

lemma handleComplete_valid:
  "\<not> cooldownRemaining ls > 0 \<Longrightarrow> fst (verifyEntered E newSalt input ls) \<Longrightarrow>
   handleComplete E newSalt input ls =
     ls\<lparr>appLock := snd (verifyEntered E newSalt input ls), failedAttempts := 0,
        persistedFailed := None, unlocked := True\<rparr>"
  by (simp add: handleComplete_def split_beta)

lemma handleComplete_invalid:
  "\<not> cooldownRemaining ls > 0 \<Longrightarrow> \<not> fst (verifyEntered E newSalt input ls) \<Longrightarrow>
   persistedFailed (handleComplete E newSalt input ls) = Some (failedAttempts ls + 1)
   \<and> failedAttempts (handleComplete E newSalt input ls) = failedAttempts ls + 1"
  by (simp add: handleComplete_def split_beta Let_def startCooldown_def)

lemma lock_inv_handleComplete:
  assumes "lock_inv ls"
  shows "lock_inv (handleComplete E newSalt input ls)"
proof (cases "cooldownRemaining ls > 0")
  case True
  then show ?thesis using assms by (simp add: handleComplete_refused)
next
  case False
  show ?thesis
  proof (cases "fst (verifyEntered E newSalt input ls)")
    case True
    then show ?thesis using False
      by (simp add: handleComplete_valid lock_inv_def loadFailedAttempts_def)
  next
    case no: False
    have "0 \<le> failedAttempts ls" using assms by (simp add: lock_inv_def)
    then show ?thesis using handleComplete_invalid[OF False no]
      by (simp add: lock_inv_def loadFailedAttempts_def)
  qed
qed

lemma wait_after_failure:
  assumes inv: "lock_inv ls" and c: "\<not> cooldownRemaining ls > 0"
    and no: "\<not> fst (verifyEntered E newSalt input ls)"
  shows "loadFailedAttempts ls < loadFailedAttempts (handleComplete E newSalt input ls)
       \<and> requiredWait ls \<le> requiredWait (handleComplete E newSalt input ls)"
proof -
  have p: "loadFailedAttempts (handleComplete E newSalt input ls) = failedAttempts ls + 1"
    using handleComplete_invalid[OF c no] by (simp add: loadFailedAttempts_def)
  have "loadFailedAttempts ls \<le> failedAttempts ls" using inv by (simp add: lock_inv_def)
  then have lt: "loadFailedAttempts ls < loadFailedAttempts (handleComplete E newSalt input ls)"
    using p by simp
  then show ?thesis using getDelay_mono[of "loadFailedAttempts ls"
        "loadFailedAttempts (handleComplete E newSalt input ls)"]
    by (simp add: requiredWait_def)
qed

lemma wait_after_success:
  assumes c: "\<not> cooldownRemaining ls > 0" and ok: "fst (verifyEntered E newSalt input ls)"
  shows "persistedFailed (handleComplete E newSalt input ls) = None
       \<and> requiredWait (handleComplete E newSalt input ls) = 0"
  using handleComplete_valid[OF c ok]
  by (simp add: requiredWait_def loadFailedAttempts_def getDelay_def)

text \<open>
  C8.  The wait computed from the persisted failed-attempt counter is non-decreasing in
  the counter.  The counter in memory agrees with the persisted one from mount on
  (\<open>lock_inv\<close>); under that relation an entry that fails verification raises the
  persisted counter and never lowers the wait, an entry made during a cooldown changes
  nothing, and the wait falls only through a successful verification, which clears
  the counter and brings the wait to zero.
\<close>

theorem lockout_wait_monotone:
  "(a \<le> b \<longrightarrow> getDelay a \<le> getDelay b)
   \<and> lock_inv (mountState lt p stored)
   \<and> (lock_inv ls \<longrightarrow>
        lock_inv (handleComplete E newSalt input ls)
      \<and> (requiredWait (handleComplete E newSalt input ls) < requiredWait ls
           \<longrightarrow> cooldownRemaining ls \<le> 0 \<and> fst (verifyEntered E newSalt input ls))
      \<and> (cooldownRemaining ls \<le> 0 \<and> fst (verifyEntered E newSalt input ls)
           \<longrightarrow> persistedFailed (handleComplete E newSalt input ls) = None
             \<and> requiredWait (handleComplete E newSalt input ls) = 0)
      \<and> (cooldownRemaining ls \<le> 0 \<and> \<not> fst (verifyEntered E newSalt input ls)
           \<longrightarrow> persistedFailed (handleComplete E newSalt input ls) = Some (failedAttempts ls + 1)
             \<and> loadFailedAttempts ls < loadFailedAttempts (handleComplete E newSalt input ls)
             \<and> requiredWait ls \<le> requiredWait (handleComplete E newSalt input ls)))"
proof (intro conjI impI)
  show "a \<le> b \<Longrightarrow> getDelay a \<le> getDelay b" by (rule getDelay_mono)
  show "lock_inv (mountState lt p stored)" by (rule lock_inv_mount)
  show "lock_inv ls \<Longrightarrow> lock_inv (handleComplete E newSalt input ls)"
    by (rule lock_inv_handleComplete)
next
  assume inv: "lock_inv ls"
    and lt: "requiredWait (handleComplete E newSalt input ls) < requiredWait ls"
  show "cooldownRemaining ls \<le> 0"
  proof (rule ccontr)
    assume "\<not> cooldownRemaining ls \<le> 0"
    then have "handleComplete E newSalt input ls = ls" by (simp add: handleComplete_refused)
    then show False using lt by simp
  qed
  then have c: "\<not> cooldownRemaining ls > 0" by simp
  show "fst (verifyEntered E newSalt input ls)"
  proof (rule ccontr)
    assume "\<not> fst (verifyEntered E newSalt input ls)"
    then show False using wait_after_failure[OF inv c] lt by force
  qed
next
  assume "lock_inv ls" and h: "cooldownRemaining ls \<le> 0 \<and> fst (verifyEntered E newSalt input ls)"
  then have c: "\<not> cooldownRemaining ls > 0" and ok: "fst (verifyEntered E newSalt input ls)" by auto
  show "persistedFailed (handleComplete E newSalt input ls) = None"
    using wait_after_success[OF c ok] by simp
  show "requiredWait (handleComplete E newSalt input ls) = 0"
    using wait_after_success[OF c ok] by simp
next
  assume inv: "lock_inv ls"
    and h: "cooldownRemaining ls \<le> 0 \<and> \<not> fst (verifyEntered E newSalt input ls)"
  then have c: "\<not> cooldownRemaining ls > 0" and no: "\<not> fst (verifyEntered E newSalt input ls)" by auto
  show "persistedFailed (handleComplete E newSalt input ls) = Some (failedAttempts ls + 1)"
    using handleComplete_invalid[OF c no] by simp
  show "loadFailedAttempts ls < loadFailedAttempts (handleComplete E newSalt input ls)"
    using wait_after_failure[OF inv c no] by simp
  show "requiredWait ls \<le> requiredWait (handleComplete E newSalt input ls)"
    using wait_after_failure[OF inv c no] by simp
qed

lemma funpow_const:
  fixes f :: "'a \<Rightarrow> 'a"
  assumes "\<And>y. f y = c" and "0 < n"
  shows "(f ^^ n) x = c"
proof -
  obtain m where "n = Suc m" using assms(2) by (cases n) auto
  then show ?thesis using assms(1) by simp
qed

lemma funpow_const0:
  fixes f :: "'a \<Rightarrow> 'a"
  assumes "\<And>y. f y = c"
  shows "(f ^^ n) c = c"
  using assms by (cases n) simp_all

lemma hashPin_sample: "hashPin sampleEnv p salt n = js ''0a1b2c3d''"
proof -
  have s: "\<And>y. sha256 sampleEnv y = js ''0a1b2c3d''" by (simp add: sampleEnv_def)
  show ?thesis unfolding hashPin_def s
    by (rule funpow_const0) simp
qed

lemma hashPinLegacy_sample: "hashPinLegacy sampleEnv p salt = js ''0a1b2c3d''"
proof -
  have s: "\<And>y. sha256 sampleEnv y = js ''0a1b2c3d''" by (simp add: sampleEnv_def)
  show ?thesis unfolding hashPinLegacy_def
    by (rule funpow_const[OF s]) simp
qed

lemma verify_sample_wrong:
  "verifyEntered sampleEnv (js ''7c'') (js ''1234'') (sampleLock (js ''ffff''))
     = (False, appLock (sampleLock (js ''ffff'')))"
  by (simp add: verifyEntered_def sampleLock_def hashPin_sample hashPinLegacy_sample js_def)

lemma verify_sample_right:
  "fst (verifyEntered sampleEnv (js ''7c'') (js ''1234'') (sampleLock (js ''0a1b2c3d'')))"
  by (simp add: verifyEntered_def sampleLock_def hashPin_sample hashPinLegacy_sample js_def)

theorem lockout_wait_monotone_witness:
  "(4::int) \<le> 9 \<and> getDelay 4 \<le> getDelay 9
   \<and> lock_inv (sampleLock (js ''ffff''))
   \<and> cooldownRemaining (sampleLock (js ''ffff'')) \<le> 0
   \<and> \<not> fst (verifyEntered sampleEnv (js ''7c'') (js ''1234'') (sampleLock (js ''ffff'')))
   \<and> persistedFailed (handleComplete sampleEnv (js ''7c'') (js ''1234'') (sampleLock (js ''ffff'')))
        = Some (failedAttempts (sampleLock (js ''ffff'')) + 1)
   \<and> requiredWait (sampleLock (js ''ffff''))
        \<le> requiredWait (handleComplete sampleEnv (js ''7c'') (js ''1234'') (sampleLock (js ''ffff'')))
   \<and> lock_inv (sampleLock (js ''0a1b2c3d''))
   \<and> cooldownRemaining (sampleLock (js ''0a1b2c3d'')) \<le> 0
   \<and> fst (verifyEntered sampleEnv (js ''7c'') (js ''1234'') (sampleLock (js ''0a1b2c3d'')))
   \<and> requiredWait (sampleLock (js ''0a1b2c3d'')) = 10
   \<and> requiredWait (handleComplete sampleEnv (js ''7c'') (js ''1234'') (sampleLock (js ''0a1b2c3d''))) = 0"
proof -
  have le: "(4::int) \<le> 9" by simp
  have i1: "lock_inv (sampleLock (js ''ffff''))"
    by (simp add: lock_inv_def sampleLock_def loadFailedAttempts_def)
  have c1: "cooldownRemaining (sampleLock (js ''ffff'')) \<le> 0"
    by (simp add: sampleLock_def)
  have v1: "\<not> fst (verifyEntered sampleEnv (js ''7c'') (js ''1234'') (sampleLock (js ''ffff'')))"
    by (simp add: verify_sample_wrong)
  have i2: "lock_inv (sampleLock (js ''0a1b2c3d''))"
    by (simp add: lock_inv_def sampleLock_def loadFailedAttempts_def)
  have c2: "cooldownRemaining (sampleLock (js ''0a1b2c3d'')) \<le> 0"
    by (simp add: sampleLock_def)
  have v2: "fst (verifyEntered sampleEnv (js ''7c'') (js ''1234'') (sampleLock (js ''0a1b2c3d'')))"
    by (rule verify_sample_right)
  have w2: "requiredWait (sampleLock (js ''0a1b2c3d'')) = 10"
    by (simp add: requiredWait_def loadFailedAttempts_def sampleLock_def getDelay_def)
  note t1 = lockout_wait_monotone [of 4 9 "js ''pin4''" None None "sampleLock (js ''ffff'')"
      sampleEnv "js ''7c''" "js ''1234''"]
  note t2 = lockout_wait_monotone [of 4 9 "js ''pin4''" None None "sampleLock (js ''0a1b2c3d'')"
      sampleEnv "js ''7c''" "js ''1234''"]
  from t1 le i1 c1 v1 have r1:
    "getDelay 4 \<le> getDelay 9
     \<and> persistedFailed (handleComplete sampleEnv (js ''7c'') (js ''1234'') (sampleLock (js ''ffff'')))
          = Some (failedAttempts (sampleLock (js ''ffff'')) + 1)
     \<and> requiredWait (sampleLock (js ''ffff''))
          \<le> requiredWait (handleComplete sampleEnv (js ''7c'') (js ''1234'') (sampleLock (js ''ffff'')))"
    by blast
  from t2 i2 c2 v2 have r2:
    "requiredWait (handleComplete sampleEnv (js ''7c'') (js ''1234'') (sampleLock (js ''0a1b2c3d''))) = 0"
    by blast
  from le i1 c1 v1 r1 i2 c2 v2 w2 r2 show ?thesis by blast
qed

section \<open>Secure storage engine: properties\<close>

lemma ff_mask: "(0xFF :: 16 word) = mask 8"
  by (simp add: mask_eq_exp_minus_1)

lemma ucast_mask_roundtrip: "ucast ((ucast (x :: 8 word) :: 16 word) AND 0xFF) = x"
  unfolding ff_mask by (rule bit_word_eqI) (auto simp: bit_simps)

lemma ucast_down_up: "(ucast (ucast ((c :: 16 word) AND 0xFF) :: 8 word) :: 16 word) = c AND 0xFF"
  unfolding ff_mask by (rule bit_word_eqI) (auto simp: bit_simps)

lemma bytes_of_string_of_bytes: "stringToUint8Array (uint8ArrayToString b) = b"
  by (simp add: stringToUint8Array_def uint8ArrayToString_def ucast_mask_roundtrip map_idI)

lemma string_of_bytes_of_string:
  "uint8ArrayToString (stringToUint8Array v) = map (\<lambda>c. c AND 0xFF) v"
  by (simp add: stringToUint8Array_def uint8ArrayToString_def ucast_down_up)

lemma ucast8_le: "(ucast (x :: 8 word) :: 16 word) \<le> 0xFF"
proof -
  have "(ucast x :: 16 word) AND mask 8 = ucast x"
    by (rule bit_word_eqI) (auto simp: bit_simps dest: bit_imp_le_length)
  then have "(ucast x :: 16 word) \<le> mask 8"
    by (metis word_and_le1)
  then show ?thesis by (simp add: ff_mask)
qed

lemma latin1_bytes: "latin1 (uint8ArrayToString b)"
  by (simp add: latin1_def uint8ArrayToString_def list_all_iff ucast8_le)

lemma and_ff_id: "c \<le> 0xFF \<Longrightarrow> c AND 0xFF = c" for c :: "16 word"
proof -
  assume "c \<le> 0xFF"
  then have "unat c < 256" by (simp add: word_le_nat_alt)
  then have "c < 2 ^ 8" by (simp add: word_less_nat_alt)
  then show ?thesis unfolding ff_mask by (rule less_mask_eq)
qed

lemma mask_id_latin1: "latin1 v \<Longrightarrow> map (\<lambda>c. c AND 0xFF) v = v"
  by (simp add: latin1_def list_all_iff map_idI and_ff_id)

lemma gek_result:
  "getEncryptionKey E d = Inr (Some k, d1) \<Longrightarrow>
     cachedEncKey d1 = Some k \<and> asyncStorage d1 = asyncStorage d \<and> secureStore d1 = secureStore d"
  by (auto simp: getEncryptionKey_def Let_def split: option.splits if_splits)

lemma gek_cached:
  "cachedEncKey d = Some k \<Longrightarrow> getEncryptionKey E d = Inr (Some k, d)"
  by (simp add: getEncryptionKey_def)

lemma secureSet_result:
  assumes ok: "storage_lib_ok E" and key: "getEncryptionKey E d = Inr (Some k, d1)"
  shows "\<exists>e. encodeBase64 E (uint8ArrayToString (nonce @ secretbox E (stringToUint8Array v) nonce k)) = Some e
           \<and> decodeBase64 E e = Some (uint8ArrayToString (nonce @ secretbox E (stringToUint8Array v) nonce k))
           \<and> e \<noteq> []
           \<and> secureSet E nonce key v d = Inr (d1\<lparr>asyncStorage := (asyncStorage d1)(key \<mapsto> e)\<rparr>)"
proof -
  let ?s = "uint8ArrayToString (nonce @ secretbox E (stringToUint8Array v) nonce k)"
  have ne: "?s \<noteq> []"
  proof -
    have "length (secretbox E (stringToUint8Array v) nonce k) = length (stringToUint8Array v) + 16"
      using ok by (simp add: storage_lib_ok_def)
    then show ?thesis by (auto simp: uint8ArrayToString_def)
  qed
  have "latin1 ?s" by (rule latin1_bytes)
  then obtain e where e: "encodeBase64 E ?s = Some e" "decodeBase64 E e = Some ?s" "?s \<noteq> [] \<longrightarrow> e \<noteq> []"
    using ok unfolding storage_lib_ok_def by blast
  then have "e \<noteq> []" using ne by simp
  moreover have "secureSet E nonce key v d = Inr (d1\<lparr>asyncStorage := (asyncStorage d1)(key \<mapsto> e)\<rparr>)"
    using key e(1) by (simp add: secureSet_def Let_def)
  ultimately show ?thesis using e by blast
qed

lemma secureGet_envelope:
  assumes ok: "storage_lib_ok E" and c: "cachedEncKey d = Some k"
    and st: "asyncStorage d key = Some e" and ne: "e \<noteq> []"
    and dec: "decodeBase64 E e = Some (uint8ArrayToString (nonce @ secretbox E m nonce k))"
    and len: "length nonce = 24"
  shows "secureGet E nonce' key d = Inr (Some (uint8ArrayToString m), d)"
proof -
  have l: "length (secretbox E m nonce k) = length m + 16"
    using ok by (simp add: storage_lib_ok_def)
  have o: "secretbox_open E (secretbox E m nonce k) nonce k = Some m"
    using ok by (simp add: storage_lib_ok_def)
  show ?thesis
    using st ne dec len l o gek_cached[OF c, of E]
    by (simp add: secureGet_def bytes_of_string_of_bytes Let_def)
qed

lemma secureGet_after_secureSet:
  assumes ok: "storage_lib_ok E" and key: "getEncryptionKey E d = Inr (Some k, d1)"
    and len: "length nonce = 24"
  shows "\<exists>d2. secureSet E nonce key v d = Inr d2
            \<and> secureGet E nonce' key d2 = Inr (Some (map (\<lambda>c. c AND 0xFF) v), d2)"
proof -
  obtain e where e: "decodeBase64 E e = Some (uint8ArrayToString (nonce @ secretbox E (stringToUint8Array v) nonce k))"
    "e \<noteq> []" "secureSet E nonce key v d = Inr (d1\<lparr>asyncStorage := (asyncStorage d1)(key \<mapsto> e)\<rparr>)"
    using secureSet_result[OF ok key, of nonce v key] by blast
  let ?d2 = "d1\<lparr>asyncStorage := (asyncStorage d1)(key \<mapsto> e)\<rparr>"
  have c: "cachedEncKey ?d2 = Some k" using gek_result[OF key] by simp
  have "secureGet E nonce' key ?d2 = Inr (Some (uint8ArrayToString (stringToUint8Array v)), ?d2)"
    by (rule secureGet_envelope[OF ok c _ e(2) e(1) len]) simp
  then show ?thesis using e(3) by (simp add: string_of_bytes_of_string)
qed

lemma secureGet_after_secureSet_latin1:
  assumes ok: "storage_lib_ok E" and key: "getEncryptionKey E d = Inr (Some k, d1)"
    and len: "length nonce = 24" and v: "latin1 v"
  shows "\<exists>d2. secureSet E nonce key v d = Inr d2
            \<and> secureGet E nonce' key d2 = Inr (Some v, d2)"
  using secureGet_after_secureSet[OF ok key len, of key v nonce'] mask_id_latin1[OF v] by simp

lemma length_sampleTag: "length (sampleTag k) = 16"
  by (simp add: sampleTag_def min_def)

lemma sample_lib_ok: "storage_lib_ok sampleEnv"
  by (simp add: storage_lib_ok_def sampleEnv_def length_sampleTag)

lemma gek_sample:
  "getEncryptionKey sampleEnv (sampleDevice a)
     = Inr (Some [0x0a, 0x1b, 0x2c, 0x3d], (sampleDevice a)\<lparr>cachedEncKey := Some [0x0a, 0x1b, 0x2c, 0x3d]\<rparr>)"
  by (simp add: getEncryptionKey_def sampleDevice_def sampleEnv_def js_def STORAGE_KEY_def
      fromHex_def isLineTerminator_def parseInt16_def toUint8_def isStrWhiteSpace_def
      isHexDigit_def hexValue_def hexNumber_def Let_def)

text \<open>
  C3.  With the encryption key of the identity available, a \<open>secureGet\<close> after a
  \<open>secureSet\<close> of the same key returns the value with every code unit reduced to its
  low byte (\<open>secureGet_after_secureSet\<close>); it is the value itself when all its code units
  are below 256 (\<open>secureGet_after_secureSet_latin1\<close>).  For the two code units of the
  camera emoji that \<open>checkGlobalMessages\<close> itself stores in a history, the value read
  back is \<open>=\<close> followed by the code unit 0xF8, not the value written.
\<close>

theorem secureGet_after_secureSet_non_latin1:
  assumes "storage_lib_ok E" and "getEncryptionKey E d = Inr (Some k, d1)"
    and "length nonce = 24"
  shows "\<exists>d2. secureSet E nonce key [0xD83D, 0xDCF8] d = Inr d2
            \<and> secureGet E nonce' key d2 = Inr (Some [0x3D, 0xF8], d2)"
  using secureGet_after_secureSet[OF assms, of key "[0xD83D, 0xDCF8]" nonce'] by simp

theorem secureGet_after_secureSet_non_latin1_witness:
  "storage_lib_ok sampleEnv
   \<and> getEncryptionKey sampleEnv (sampleDevice Map.empty)
       = Inr (Some [0x0a, 0x1b, 0x2c, 0x3d],
              (sampleDevice Map.empty)\<lparr>cachedEncKey := Some [0x0a, 0x1b, 0x2c, 0x3d]\<rparr>)
   \<and> length sampleNonce = 24
   \<and> (\<exists>d2. secureSet sampleEnv sampleNonce (js ''history_A'') [0xD83D, 0xDCF8] (sampleDevice Map.empty)
              = Inr d2
          \<and> secureGet sampleEnv sampleNonce (js ''history_A'') d2 = Inr (Some [0x3D, 0xF8], d2))"
proof -
  have n: "length sampleNonce = 24" by (simp add: sampleNonce_def)
  from secureGet_after_secureSet_non_latin1 [OF sample_lib_ok gek_sample n]
  show ?thesis using sample_lib_ok gek_sample n by blast
qed

lemma secureGet_migrates:
  assumes st: "asyncStorage d key = Some raw" and ne: "raw \<noteq> []"
    and key: "getEncryptionKey E d = Inr (Some encKey, d1)"
    and bad: "decodeBase64 E raw = None
       \<or> (\<exists>decoded. decodeBase64 E raw = Some decoded
             \<and> (length (stringToUint8Array decoded) < 24 + 16
                \<or> secretbox_open E (drop 24 (stringToUint8Array decoded))
                     (take 24 (stringToUint8Array decoded)) encKey = None))"
  shows "secureGet E nonce key d = Inr (migrateLegacyData E nonce key raw encKey d1)"
  using st ne key bad by (auto simp: secureGet_def Let_def)

lemma migrate_invalid:
  "json_parse E raw = None \<Longrightarrow>
     migrateLegacyData E nonce key raw encKey d1
       = (None, d1\<lparr>asyncStorage := (asyncStorage d1)(key := None)\<rparr>)"
  by (simp add: migrateLegacyData_def)

lemma migrate_valid:
  assumes ok: "storage_lib_ok E" and j: "json_parse E raw \<noteq> None"
    and c: "cachedEncKey d1 = Some encKey" and len: "length nonce = 24"
  shows "\<exists>e. encodeBase64 E (uint8ArrayToString (nonce @ secretbox E (stringToUint8Array raw) nonce encKey)) = Some e
          \<and> migrateLegacyData E nonce key raw encKey d1
               = (Some raw, d1\<lparr>asyncStorage := (asyncStorage d1)(key \<mapsto> e)\<rparr>)
          \<and> secureGet E nonce' key (d1\<lparr>asyncStorage := (asyncStorage d1)(key \<mapsto> e)\<rparr>)
               = Inr (Some (map (\<lambda>c. c AND 0xFF) raw), d1\<lparr>asyncStorage := (asyncStorage d1)(key \<mapsto> e)\<rparr>)"
proof -
  let ?s = "uint8ArrayToString (nonce @ secretbox E (stringToUint8Array raw) nonce encKey)"
  have "latin1 ?s" by (rule latin1_bytes)
  moreover have "?s \<noteq> []" using len by (auto simp: uint8ArrayToString_def)
  ultimately obtain e where e: "encodeBase64 E ?s = Some e" "decodeBase64 E e = Some ?s" "e \<noteq> []"
    using ok unfolding storage_lib_ok_def by blast
  let ?d2 = "d1\<lparr>asyncStorage := (asyncStorage d1)(key \<mapsto> e)\<rparr>"
  have m: "migrateLegacyData E nonce key raw encKey d1 = (Some raw, ?d2)"
    using j e(1) by (auto simp: migrateLegacyData_def Let_def)
  have c2: "cachedEncKey ?d2 = Some encKey" using c by simp
  have "secureGet E nonce' key ?d2 = Inr (Some (uint8ArrayToString (stringToUint8Array raw)), ?d2)"
    by (rule secureGet_envelope[OF ok c2 _ e(3) e(2) len]) simp
  then show ?thesis using e(1) m by (simp add: string_of_bytes_of_string)
qed

text \<open>
  C4 (as amended).  When the stored blob is not empty and the encryption key is
  available, a blob that does not decode, is shorter than nonce plus authenticator, or
  fails authenticated decryption goes through \<open>migrateLegacyData\<close>: when the raw string
  does not parse as JSON the storage key is removed and the result is absent; when it
  parses, the raw string is encrypted under a fresh nonce and stored, the result is the
  raw string itself, and a later \<open>secureGet\<close> reads the stored record back (with each code
  unit reduced to its low byte).
\<close>

theorem secureGet_legacy_migration:
  assumes ok: "storage_lib_ok E"
    and st: "asyncStorage d key = Some raw" and ne: "raw \<noteq> []"
    and key: "getEncryptionKey E d = Inr (Some encKey, d1)"
    and bad: "decodeBase64 E raw = None
       \<or> (\<exists>decoded. decodeBase64 E raw = Some decoded
             \<and> (length (stringToUint8Array decoded) < 24 + 16
                \<or> secretbox_open E (drop 24 (stringToUint8Array decoded))
                     (take 24 (stringToUint8Array decoded)) encKey = None))"
    and len: "length nonce = 24"
  shows "secureGet E nonce key d = Inr (migrateLegacyData E nonce key raw encKey d1)
       \<and> (json_parse E raw = None \<longrightarrow>
            secureGet E nonce key d
              = Inr (None, d1\<lparr>asyncStorage := (asyncStorage d1)(key := None)\<rparr>))
       \<and> (json_parse E raw \<noteq> None \<longrightarrow>
            (\<exists>e. encodeBase64 E (uint8ArrayToString
                       (nonce @ secretbox E (stringToUint8Array raw) nonce encKey)) = Some e
               \<and> secureGet E nonce key d
                    = Inr (Some raw, d1\<lparr>asyncStorage := (asyncStorage d1)(key \<mapsto> e)\<rparr>)
               \<and> secureGet E nonce' key (d1\<lparr>asyncStorage := (asyncStorage d1)(key \<mapsto> e)\<rparr>)
                    = Inr (Some (map (\<lambda>c. c AND 0xFF) raw),
                           d1\<lparr>asyncStorage := (asyncStorage d1)(key \<mapsto> e)\<rparr>)))"
proof -
  have m: "secureGet E nonce key d = Inr (migrateLegacyData E nonce key raw encKey d1)"
    by (rule secureGet_migrates[OF st ne key bad])
  have c: "cachedEncKey d1 = Some encKey" using gek_result[OF key] by simp
  show ?thesis
  proof (intro conjI impI)
    show "secureGet E nonce key d = Inr (migrateLegacyData E nonce key raw encKey d1)" by (rule m)
    show "json_parse E raw = None \<Longrightarrow> secureGet E nonce key d
              = Inr (None, d1\<lparr>asyncStorage := (asyncStorage d1)(key := None)\<rparr>)"
      using m by (simp add: migrate_invalid)
    assume j: "json_parse E raw \<noteq> None"
    from migrate_valid[OF ok j c len, of key nonce'] m
    show "\<exists>e. encodeBase64 E (uint8ArrayToString
                       (nonce @ secretbox E (stringToUint8Array raw) nonce encKey)) = Some e
               \<and> secureGet E nonce key d
                    = Inr (Some raw, d1\<lparr>asyncStorage := (asyncStorage d1)(key \<mapsto> e)\<rparr>)
               \<and> secureGet E nonce' key (d1\<lparr>asyncStorage := (asyncStorage d1)(key \<mapsto> e)\<rparr>)
                    = Inr (Some (map (\<lambda>c. c AND 0xFF) raw),
                           d1\<lparr>asyncStorage := (asyncStorage d1)(key \<mapsto> e)\<rparr>)"
      by auto
  qed
qed

lemma sample_parse_obj: "json_parse sampleEnv (js ''{}'') \<noteq> None"
  by (simp add: sampleEnv_def js_def)

lemma sample_decode_obj: "decodeBase64 sampleEnv (js ''{}'') = None"
  by (simp add: sampleEnv_def js_def)

theorem secureGet_legacy_migration_witness:
  "storage_lib_ok sampleEnv
   \<and> asyncStorage (sampleDevice [js ''k'' \<mapsto> js ''{}'']) (js ''k'') = Some (js ''{}'')
   \<and> js ''{}'' \<noteq> []
   \<and> decodeBase64 sampleEnv (js ''{}'') = None
   \<and> length sampleNonce = 24
   \<and> json_parse sampleEnv (js ''{}'') \<noteq> None
   \<and> (\<exists>d2. secureGet sampleEnv sampleNonce (js ''k'') (sampleDevice [js ''k'' \<mapsto> js ''{}''])
              = Inr (Some (js ''{}''), d2)
          \<and> secureGet sampleEnv sampleNonce (js ''k'') d2
              = Inr (Some (map (\<lambda>c. c AND 0xFF) (js ''{}'')), d2))"
proof -
  have s: "asyncStorage (sampleDevice [js ''k'' \<mapsto> js ''{}'']) (js ''k'') = Some (js ''{}'')"
    by (simp add: sampleDevice_def)
  have ne: "js ''{}'' \<noteq> []" by (simp add: js_def)
  have n: "length sampleNonce = 24" by (simp add: sampleNonce_def)
  have bad: "decodeBase64 sampleEnv (js ''{}'') = None
       \<or> (\<exists>decoded. decodeBase64 sampleEnv (js ''{}'') = Some decoded
             \<and> (length (stringToUint8Array decoded) < 24 + 16
                \<or> secretbox_open sampleEnv (drop 24 (stringToUint8Array decoded))
                     (take 24 (stringToUint8Array decoded)) [0x0a, 0x1b, 0x2c, 0x3d] = None))"
    using sample_decode_obj by simp
  from secureGet_legacy_migration [OF sample_lib_ok s ne gek_sample bad n, of sampleNonce]
    sample_parse_obj
  have "\<exists>d2. secureGet sampleEnv sampleNonce (js ''k'') (sampleDevice [js ''k'' \<mapsto> js ''{}''])
              = Inr (Some (js ''{}''), d2)
          \<and> secureGet sampleEnv sampleNonce (js ''k'') d2
              = Inr (Some (map (\<lambda>c. c AND 0xFF) (js ''{}'')), d2)"
    by blast
  then show ?thesis using sample_lib_ok s ne sample_decode_obj n sample_parse_obj by blast
qed

text \<open>
  The two guards in front of the migration: without an encryption key a blob that is
  too short and is not JSON is neither migrated nor removed, and an empty blob is
  reported absent and left in place.
\<close>

theorem secureGet_guards_counterexample:
  "decodeBase64 sampleEnv (js ''Babc'') = Some (js ''abc'')
   \<and> length (stringToUint8Array (js ''abc'')) < 24 + 16
   \<and> json_parse sampleEnv (js ''Babc'') = None
   \<and> secureGet sampleEnv sampleNonce (js ''k'') (noIdentityDevice [js ''k'' \<mapsto> js ''Babc''])
        = Inr (None, noIdentityDevice [js ''k'' \<mapsto> js ''Babc''])
   \<and> asyncStorage (noIdentityDevice [js ''k'' \<mapsto> js ''Babc'']) (js ''k'') = Some (js ''Babc'')
   \<and> secureGet sampleEnv sampleNonce (js ''k'') (sampleDevice [js ''k'' \<mapsto> []])
        = Inr (None, sampleDevice [js ''k'' \<mapsto> []])
   \<and> asyncStorage (sampleDevice [js ''k'' \<mapsto> []]) (js ''k'') = Some []"
  by (simp add: secureGet_def getEncryptionKey_def noIdentityDevice_def sampleDevice_def
      sampleEnv_def js_def latin1_def stringToUint8Array_def)

section \<open>Identity: properties\<close>

text \<open>
  C6 (as amended).  \<open>generateNewIdentity\<close> stores the encoded secret key of the new key
  pair under the identity key, whatever is stored there, and clears the cached
  identity; nothing else of the device changes and the public key is not stored.  It
  does not fail when an identity exists.  \<open>setupIdentity\<close> stores a new secret key only
  when none is stored and leaves a stored identity as it is.
\<close>

theorem generateNewIdentity_overwrites:
  assumes ok: "storage_lib_ok E"
  shows "\<exists>b64. encodeBase64 E (uint8ArrayToString secretKey) = Some b64
           \<and> generateNewIdentity E (publicKey, secretKey) d
               = Inr (clearAuthCache (d\<lparr>secureStore := (secureStore d)(STORAGE_KEY \<mapsto> b64)\<rparr>))
           \<and> (secureStore d STORAGE_KEY = None \<longrightarrow>
                 setupIdentity E (publicKey, secretKey) d
                   = d\<lparr>secureStore := (secureStore d)(STORAGE_KEY \<mapsto> b64)\<rparr>)
           \<and> (\<forall>stored. secureStore d STORAGE_KEY = Some stored \<and> stored \<noteq> [] \<longrightarrow>
                 setupIdentity E (publicKey, secretKey) d = d)"
proof -
  have "latin1 (uint8ArrayToString secretKey)" by (rule latin1_bytes)
  then obtain b64 where e: "encodeBase64 E (uint8ArrayToString secretKey) = Some b64"
    using ok unfolding storage_lib_ok_def by blast
  show ?thesis
    by (rule exI[of _ b64]) (simp add: e generateNewIdentity_def setupIdentity_def)
qed

theorem generateNewIdentity_overwrites_witness:
  "storage_lib_ok sampleEnv
   \<and> secureStore (noIdentityDevice Map.empty) STORAGE_KEY = None
   \<and> secureStore (sampleDevice Map.empty) STORAGE_KEY = Some (js ''c2VjcmV0'')
   \<and> js ''c2VjcmV0'' \<noteq> []
   \<and> (\<exists>b64. generateNewIdentity sampleEnv ([1, 2], [3, 4]) (sampleDevice Map.empty)
               = Inr (clearAuthCache ((sampleDevice Map.empty)
                        \<lparr>secureStore := (secureStore (sampleDevice Map.empty))(STORAGE_KEY \<mapsto> b64)\<rparr>)))
   \<and> setupIdentity sampleEnv ([1, 2], [3, 4]) (sampleDevice Map.empty) = sampleDevice Map.empty
   \<and> (\<exists>b64. setupIdentity sampleEnv ([1, 2], [3, 4]) (noIdentityDevice Map.empty)
               = (noIdentityDevice Map.empty)
                   \<lparr>secureStore := (secureStore (noIdentityDevice Map.empty))(STORAGE_KEY \<mapsto> b64)\<rparr>)"
proof -
  have a: "secureStore (noIdentityDevice Map.empty) STORAGE_KEY = None"
    by (simp add: noIdentityDevice_def)
  have b: "secureStore (sampleDevice Map.empty) STORAGE_KEY = Some (js ''c2VjcmV0'')"
    by (simp add: sampleDevice_def)
  have c: "js ''c2VjcmV0'' \<noteq> []" by (simp add: js_def)
  from generateNewIdentity_overwrites [OF sample_lib_ok, of "[3, 4]" "[1, 2]" "sampleDevice Map.empty"]
    generateNewIdentity_overwrites [OF sample_lib_ok, of "[3, 4]" "[1, 2]" "noIdentityDevice Map.empty"]
    a b c sample_lib_ok
  show ?thesis by blast
qed

text \<open>
  On a device that holds an identity, \<open>generateNewIdentity\<close> returns normally and the
  stored secret key is replaced.
\<close>

theorem generateNewIdentity_counterexample:
  "secureStore (sampleDevice Map.empty) STORAGE_KEY = Some (js ''c2VjcmV0'')
   \<and> generateNewIdentity sampleEnv ([1, 2], [3, 4]) (sampleDevice Map.empty)
       = Inr ((sampleDevice Map.empty)\<lparr>secureStore := [STORAGE_KEY \<mapsto> [0x42, 3, 4]]\<rparr>)
   \<and> [0x42, 3, 4] \<noteq> js ''c2VjcmV0''"
  by (simp add: generateNewIdentity_def sampleDevice_def sampleEnv_def clearAuthCache_def
      uint8ArrayToString_def latin1_def js_def)

section \<open>Anonymous handshake: properties\<close>

lemma handshakeKeyMatches_iff:
  "handshakeKeyMatches E hsData hex \<longleftrightarrow>
     (\<exists>k. getProp hsData (js ''key'') = Some (JStr k) \<and> k \<noteq> []
          \<and> toLowerCase E k = toLowerCase E hex)"
  by (auto simp: handshakeKeyMatches_def getProp_def split: json.splits option.splits)

lemma anonymousHandshake_Some:
  assumes "anonymousHandshake E secretKey fullMessage = Some txt"
  shows "\<exists>result hsData k.
           box_open E (drop (32 + 24) fullMessage) (take 24 (drop 32 fullMessage))
             (take 32 fullMessage) secretKey = Some result
         \<and> txt = uint8ArrayToString result
         \<and> startsWith txt (js ''GHOST_SIGNAL:ACCEPT:'')
         \<and> json_parse E (drop (length (js ''GHOST_SIGNAL:ACCEPT:'')) txt) = Some hsData
         \<and> getProp hsData (js ''key'') = Some (JStr k)
         \<and> toLowerCase E k = toLowerCase E (toHex (take 32 fullMessage))"
  using assms unfolding anonymousHandshake_def Let_def handshakeKeyMatches_iff
  by (auto split: option.splits if_splits)

lemma anonymousHandshake_mismatch:
  assumes "box_open E (drop (32 + 24) fullMessage) (take 24 (drop 32 fullMessage))
             (take 32 fullMessage) secretKey = Some result"
    and "json_parse E (drop (length (js ''GHOST_SIGNAL:ACCEPT:'')) (uint8ArrayToString result))
           = Some hsData"
    and "\<forall>k. getProp hsData (js ''key'') = Some (JStr k) \<longrightarrow>
           toLowerCase E k \<noteq> toLowerCase E (toHex (take 32 fullMessage))"
  shows "anonymousHandshake E secretKey fullMessage = None"
  using assms unfolding anonymousHandshake_def Let_def handshakeKeyMatches_iff
  by (auto split: option.splits if_splits)

lemma decryptPhase_unopened:
  assumes "trialDecrypt E secretKey (take 24 fullMessage) (drop 24 fullMessage) contacts = None"
    and "anonymousHandshake E secretKey fullMessage = None"
  shows "decryptPhase E secretKey contacts fullMessage = (None, None)"
  using assms by (simp add: decryptPhase_def Let_def)

lemma processMessage_unopened:
  assumes "decodeBase64 E (content msg) = Some decoded"
    and "fst (decryptPhase E secretKey contacts (stringToUint8Array decoded)) = None"
  shows "processMessage J E secretKey contacts (msg, amb) (st, ids) = Inr (st, ids)"
  using assms by (simp add: processMessage_def Let_def split_beta)


lemma u2s_env_text:
  "uint8ArrayToString (stringToUint8Array (js ''GHOST_SIGNAL:ACCEPT:{'' @ hexUpperAB))
     = js ''GHOST_SIGNAL:ACCEPT:{'' @ hexUpperAB"
  by (simp add: string_of_bytes_of_string js_def hexUpperAB_def)

lemma u2s_env_text2:
  "uint8ArrayToString (stringToUint8Array (js ''GHOST_SIGNAL:ACCEPT:{'' @ hexLowerCD))
     = js ''GHOST_SIGNAL:ACCEPT:{'' @ hexLowerCD"
  by (simp add: string_of_bytes_of_string js_def hexLowerCD_def)

lemma env_parts:
  "take 32 (handshakeEnvelope c) = samplePk"
  "take 24 (drop 32 (handshakeEnvelope c)) = sampleNonce"
  "drop (32 + 24) (handshakeEnvelope c) = samplePk @ stringToUint8Array (js ''GHOST_SIGNAL:ACCEPT:{'' @ c)"
  "drop 56 (handshakeEnvelope c) = samplePk @ stringToUint8Array (js ''GHOST_SIGNAL:ACCEPT:{'' @ c)"
  by (simp_all add: handshakeEnvelope_def samplePk_def sampleNonce_def)

lemma sample_box_open:
  "box_open sampleEnv (samplePk @ m) n samplePk sk = Some m"
  by (simp add: sampleEnv_def samplePk_def)

lemma toHex_samplePk: "toHex samplePk = js ''abababababababababababababababababababababababababababababababab''"
  by (simp add: toHex_def samplePk_def hexDigit_def js_def)


text \<open>
  C2.  An anonymous-form envelope (sender public key, nonce, ciphertext) is accepted as
  a handshake only if it opens under the embedded public key and the handshake data in
  the plaintext states, up to letter case, the hexadecimal form of that same key.  When
  the key stated in the plaintext differs from the key that opened the envelope the
  branch accepts nothing, and an item that neither a contact key nor this branch opens
  leaves the device, the files and the list of processed identifiers as they are.
\<close>

theorem anonymous_handshake_restates_key:
  "(anonymousHandshake E secretKey fullMessage = Some txt \<longrightarrow>
      (\<exists>result hsData k.
           box_open E (drop (32 + 24) fullMessage) (take 24 (drop 32 fullMessage))
             (take 32 fullMessage) secretKey = Some result
         \<and> txt = uint8ArrayToString result
         \<and> startsWith txt (js ''GHOST_SIGNAL:ACCEPT:'')
         \<and> json_parse E (drop (length (js ''GHOST_SIGNAL:ACCEPT:'')) txt) = Some hsData
         \<and> getProp hsData (js ''key'') = Some (JStr k)
         \<and> toLowerCase E k = toLowerCase E (toHex (take 32 fullMessage))))
 \<and> (box_open E (drop (32 + 24) fullMessage) (take 24 (drop 32 fullMessage))
             (take 32 fullMessage) secretKey = Some opened
      \<and> json_parse E (drop (length (js ''GHOST_SIGNAL:ACCEPT:'')) (uint8ArrayToString opened))
           = Some claimedData
      \<and> (\<forall>k. getProp claimedData (js ''key'') = Some (JStr k) \<longrightarrow>
             toLowerCase E k \<noteq> toLowerCase E (toHex (take 32 fullMessage)))
      \<longrightarrow> anonymousHandshake E secretKey fullMessage = None)
 \<and> (decodeBase64 E (content msg) = Some decoded
      \<and> stringToUint8Array decoded = fullMessage
      \<and> trialDecrypt E secretKey (take 24 fullMessage) (drop 24 fullMessage) contacts = None
      \<and> anonymousHandshake E secretKey fullMessage = None
      \<longrightarrow> processMessage J E secretKey contacts (msg, amb) (st, ids) = Inr (st, ids))"
proof (intro conjI impI)
  assume "anonymousHandshake E secretKey fullMessage = Some txt"
  then show "\<exists>result hsData k.
           box_open E (drop (32 + 24) fullMessage) (take 24 (drop 32 fullMessage))
             (take 32 fullMessage) secretKey = Some result
         \<and> txt = uint8ArrayToString result
         \<and> startsWith txt (js ''GHOST_SIGNAL:ACCEPT:'')
         \<and> json_parse E (drop (length (js ''GHOST_SIGNAL:ACCEPT:'')) txt) = Some hsData
         \<and> getProp hsData (js ''key'') = Some (JStr k)
         \<and> toLowerCase E k = toLowerCase E (toHex (take 32 fullMessage))"
    by (rule anonymousHandshake_Some)
next
  assume "box_open E (drop (32 + 24) fullMessage) (take 24 (drop 32 fullMessage))
             (take 32 fullMessage) secretKey = Some opened
      \<and> json_parse E (drop (length (js ''GHOST_SIGNAL:ACCEPT:'')) (uint8ArrayToString opened))
           = Some claimedData
      \<and> (\<forall>k. getProp claimedData (js ''key'') = Some (JStr k) \<longrightarrow>
             toLowerCase E k \<noteq> toLowerCase E (toHex (take 32 fullMessage)))"
  then show "anonymousHandshake E secretKey fullMessage = None"
    using anonymousHandshake_mismatch[of E fullMessage secretKey opened claimedData] by blast
next
  assume a: "decodeBase64 E (content msg) = Some decoded
      \<and> stringToUint8Array decoded = fullMessage
      \<and> trialDecrypt E secretKey (take 24 fullMessage) (drop 24 fullMessage) contacts = None
      \<and> anonymousHandshake E secretKey fullMessage = None"
  then have "decryptPhase E secretKey contacts (stringToUint8Array decoded) = (None, None)"
    using decryptPhase_unopened[of E secretKey fullMessage contacts] by blast
  then show "processMessage J E secretKey contacts (msg, amb) (st, ids) = Inr (st, ids)"
    using a processMessage_unopened[of E msg decoded secretKey contacts J amb st ids] by simp
qed

lemma sample_accept:
  "anonymousHandshake sampleEnv sampleSk (handshakeEnvelope hexUpperAB)
     = Some (js ''GHOST_SIGNAL:ACCEPT:{'' @ hexUpperAB)"
proof -
  have p: "json_parse sampleEnv (drop (length (js ''GHOST_SIGNAL:ACCEPT:''))
              (js ''GHOST_SIGNAL:ACCEPT:{'' @ hexUpperAB))
            = Some (JObj [(js ''key'', JStr hexUpperAB)])"
    by (simp add: sampleEnv_def js_def)
  have m: "handshakeKeyMatches sampleEnv (JObj [(js ''key'', JStr hexUpperAB)]) (toHex samplePk)"
    by (simp add: handshakeKeyMatches_def getProp_def toHex_samplePk hexUpperAB_def
        sampleEnv_def js_def)
  have s: "startsWith (js ''GHOST_SIGNAL:ACCEPT:{'' @ hexUpperAB) (js ''GHOST_SIGNAL:ACCEPT:'')"
    by (simp add: startsWith_def js_def)
  show ?thesis
    using p m s
    by (simp add: anonymousHandshake_def Let_def env_parts sample_box_open u2s_env_text
        del: length_append)
qed

lemma sample_reject_parse:
  "json_parse sampleEnv (drop (length (js ''GHOST_SIGNAL:ACCEPT:''))
       (uint8ArrayToString (stringToUint8Array (js ''GHOST_SIGNAL:ACCEPT:{'' @ hexLowerCD))))
     = Some (JObj [(js ''key'', JStr hexLowerCD)])"
  unfolding u2s_env_text2 by (simp add: sampleEnv_def js_def)

lemma sample_reject_differs:
  "\<forall>k. getProp (JObj [(js ''key'', JStr hexLowerCD)]) (js ''key'') = Some (JStr k) \<longrightarrow>
       toLowerCase sampleEnv k \<noteq> toLowerCase sampleEnv (toHex (take 32 (handshakeEnvelope hexLowerCD)))"
  by (simp add: env_parts getProp_def toHex_samplePk hexLowerCD_def sampleEnv_def js_def)

theorem anonymous_handshake_restates_key_witness:
  "anonymousHandshake sampleEnv sampleSk (handshakeEnvelope hexUpperAB)
       = Some (js ''GHOST_SIGNAL:ACCEPT:{'' @ hexUpperAB)
   \<and> (\<exists>hsData k.
          json_parse sampleEnv (drop (length (js ''GHOST_SIGNAL:ACCEPT:''))
              (js ''GHOST_SIGNAL:ACCEPT:{'' @ hexUpperAB)) = Some hsData
        \<and> getProp hsData (js ''key'') = Some (JStr k)
        \<and> toLowerCase sampleEnv k
             = toLowerCase sampleEnv (toHex (take 32 (handshakeEnvelope hexUpperAB))))
   \<and> box_open sampleEnv (drop (32 + 24) (handshakeEnvelope hexLowerCD))
        (take 24 (drop 32 (handshakeEnvelope hexLowerCD)))
        (take 32 (handshakeEnvelope hexLowerCD)) sampleSk
       = Some (stringToUint8Array (js ''GHOST_SIGNAL:ACCEPT:{'' @ hexLowerCD))
   \<and> anonymousHandshake sampleEnv sampleSk (handshakeEnvelope hexLowerCD) = None"
proof -
  have o: "box_open sampleEnv (drop (32 + 24) (handshakeEnvelope hexLowerCD))
        (take 24 (drop 32 (handshakeEnvelope hexLowerCD)))
        (take 32 (handshakeEnvelope hexLowerCD)) sampleSk
       = Some (stringToUint8Array (js ''GHOST_SIGNAL:ACCEPT:{'' @ hexLowerCD))"
    by (simp add: env_parts sample_box_open)
  note t1 = anonymous_handshake_restates_key [of sampleEnv sampleSk "handshakeEnvelope hexUpperAB"
      "js ''GHOST_SIGNAL:ACCEPT:{'' @ hexUpperAB"]
  note t2 = anonymous_handshake_restates_key [of sampleEnv sampleSk "handshakeEnvelope hexLowerCD" _
      "stringToUint8Array (js ''GHOST_SIGNAL:ACCEPT:{'' @ hexLowerCD)"
      "JObj [(js ''key'', JStr hexLowerCD)]"]
  from t1 sample_accept have 1: "\<exists>hsData k.
          json_parse sampleEnv (drop (length (js ''GHOST_SIGNAL:ACCEPT:''))
              (js ''GHOST_SIGNAL:ACCEPT:{'' @ hexUpperAB)) = Some hsData
        \<and> getProp hsData (js ''key'') = Some (JStr k)
        \<and> toLowerCase sampleEnv k
             = toLowerCase sampleEnv (toHex (take 32 (handshakeEnvelope hexUpperAB)))"
    by blast
  from t2 o sample_reject_parse sample_reject_differs
  have 2: "anonymousHandshake sampleEnv sampleSk (handshakeEnvelope hexLowerCD) = None"
    by blast
  from sample_accept 1 o 2 show ?thesis by blast
qed

section \<open>Stored records: properties\<close>

lemma secureGet_Some_cached:
  "secureGet E n key d = Inr (Some t, d1) \<Longrightarrow> \<exists>k. cachedEncKey d1 = Some k"
  by (auto simp: secureGet_def migrateLegacyData_def Let_def dest!: gek_result
      split: option.splits if_splits sum.splits prod.splits)

lemma loadContacts_Some:
  assumes "loadContacts J E amb w = Inr (Some lst, w1)"
  shows "(\<exists>k. cachedEncKey (dev w1) = Some k) \<and> fileSystem w1 = fileSystem w"
  using assms
  by (auto simp: loadContacts_def readItem_def dest!: secureGet_Some_cached
      split: option.splits if_splits sum.splits prod.splits)

lemma writeItem_ok:
  assumes ok: "storage_lib_ok E" and c: "cachedEncKey (dev w) = Some k"
  shows "\<exists>w'. writeItem E amb key v w = Inr w' \<and> fileSystem w' = fileSystem w
           \<and> cachedEncKey (dev w') = Some k
           \<and> (length (setNonce amb) = 24 \<longrightarrow>
                (\<forall>n. secureGet E n key (dev w')
                        = Inr (Some (map (\<lambda>c. c AND 0xFF) v), dev w')))"
proof -
  have key: "getEncryptionKey E (dev w) = Inr (Some k, dev w)" by (rule gek_cached[OF c])
  obtain e where e: "decodeBase64 E e = Some (uint8ArrayToString (setNonce amb @ secretbox E (stringToUint8Array v) (setNonce amb) k))"
    "e \<noteq> []" "secureSet E (setNonce amb) key v (dev w) = Inr ((dev w)\<lparr>asyncStorage := (asyncStorage (dev w))(key \<mapsto> e)\<rparr>)"
    using secureSet_result[OF ok key, of "setNonce amb" v key] by blast
  let ?d2 = "(dev w)\<lparr>asyncStorage := (asyncStorage (dev w))(key \<mapsto> e)\<rparr>"
  have c2: "cachedEncKey ?d2 = Some k" using c by simp
  have w: "writeItem E amb key v w = Inr (w\<lparr>dev := ?d2\<rparr>)"
    using e(3) by (simp add: writeItem_def)
  have rb: "length (setNonce amb) = 24 \<Longrightarrow>
      secureGet E n key ?d2 = Inr (Some (map (\<lambda>c. c AND 0xFF) v), ?d2)" for n
  proof -
    assume len: "length (setNonce amb) = 24"
    have "secureGet E n key ?d2 = Inr (Some (uint8ArrayToString (stringToUint8Array v)), ?d2)"
      by (rule secureGet_envelope[OF ok c2 _ e(2) e(1) len]) simp
    then show ?thesis by (simp add: string_of_bytes_of_string)
  qed
  show ?thesis using w c2 rb by auto
qed

lemma write_then_load:
  assumes ok: "storage_lib_ok E" and c: "cachedEncKey (dev w) = Some k"
    and len: "length (setNonce amb) = 24"
  shows "\<exists>w'. writeItem E amb CONTACTS_KEY (stringifyContacts J l) w = Inr w'
           \<and> fileSystem w' = fileSystem w \<and> dev w' = (dev w)\<lparr>asyncStorage := asyncStorage (dev w')\<rparr>
           \<and> (readsBack J l \<longrightarrow> loadContacts J E amb' w' = Inr (Some l, w'))"
proof -
  obtain w' where w': "writeItem E amb CONTACTS_KEY (stringifyContacts J l) w = Inr w'"
    "fileSystem w' = fileSystem w"
    "\<forall>n. secureGet E n CONTACTS_KEY (dev w')
            = Inr (Some (map (\<lambda>c. c AND 0xFF) (stringifyContacts J l)), dev w')"
    using writeItem_ok[OF ok c, of amb CONTACTS_KEY "stringifyContacts J l"] len by blast
  have d: "dev w' = (dev w)\<lparr>asyncStorage := asyncStorage (dev w')\<rparr>"
    using w'(1) by (auto simp: writeItem_def secureSet_def Let_def gek_cached[OF c]
        split: sum.splits option.splits)
  have "loadContacts J E amb' w' = Inr (Some l, w')" if rb: "readsBack J l"
  proof -
    have m: "map (\<lambda>c. c AND 0xFF) (stringifyContacts J l) = stringifyContacts J l"
      using rb by (simp add: readsBack_def mask_id_latin1)
    show ?thesis using w'(3) m rb
      by (simp add: loadContacts_def readItem_def readsBack_def)
  qed
  then show ?thesis using w' d by blast
qed

section \<open>Trust store: properties\<close>

lemma findIndex_Some:
  "findIndex P xs = Some i \<Longrightarrow> i < length xs \<and> P (xs ! i)"
  by (induction xs arbitrary: i) (auto split: if_splits)

lemma findIndex_find:
  "findIndex P xs = Some i \<Longrightarrow> find P xs = Some (xs ! i)"
  by (induction xs arbitrary: i) (auto split: if_splits)

lemma map_ckey_update:
  assumes "ckey x = ckey (lst ! i)"
  shows "map ckey (lst[i := x]) = map ckey lst"
proof (cases "i < length lst")
  case True
  have "map ckey (lst[i := x]) = (map ckey lst)[i := (map ckey lst) ! i]"
    using True assms by (simp add: map_update)
  then show ?thesis by simp
next
  case False
  then show ?thesis by (simp add: list_update_beyond)
qed

lemma saveAvatarLocally_dev: "dev (snd (saveAvatarLocally amb ident a w)) = dev w"
  by (simp add: saveAvatarLocally_def Let_def)

lemma localAvatar_dev: "dev (snd (localAvatar amb ident av w)) = dev w"
  by (simp add: localAvatar_def saveAvatarLocally_dev split: option.splits)

lemma handshake_invalid:
  "\<not> validateHandshakeData data \<Longrightarrow> addContactFromHandshake J E amb data w = w"
  by (simp add: addContactFromHandshake_def)

lemma handshake_mismatch:
  assumes v: "validateHandshakeData data"
    and s: "loadContacts J E amb w = Inr (Some lst, w1)"
    and i: "strProp data (js ''id'') = Some ident"
    and f: "findIndex (\<lambda>c. cid c = ident) lst = Some i"
    and k: "strProp data (js ''key'') = Some K2"
    and ne: "ckey (lst ! i) \<noteq> Some K2"
  shows "addContactFromHandshake J E amb data w
           = caught (writeItem E amb CONTACTS_KEY
               (stringifyContacts J
                  (lst[i := (lst ! i)\<lparr>securityWarning := True, pendingNewKey := Some K2\<rparr>])) w1)"
  using assms by (simp add: addContactFromHandshake_def Let_def)

lemma handshake_writes:
  assumes s: "loadContacts J E amb w = Inr (Some lst, w1)"
  shows "addContactFromHandshake J E amb data w = w
       \<or> (\<exists>lst' w2. dev w2 = dev w1
             \<and> take (length lst) (map ckey lst') = map ckey lst
             \<and> addContactFromHandshake J E amb data w
                 = caught (writeItem E amb CONTACTS_KEY (stringifyContacts J lst') w2))"
proof (cases "validateHandshakeData data")
  case False
  then show ?thesis by (simp add: addContactFromHandshake_def)
next
  case True
  let ?did = "case strProp data (js ''id'') of Some s \<Rightarrow> s | None \<Rightarrow> []"
  let ?w2 = "snd (localAvatar amb ?did (strProp data (js ''avatar'')) w1)"
  have d2: "dev ?w2 = dev w1" by (rule localAvatar_dev)
  show ?thesis
  proof (cases "findIndex (\<lambda>c. cid c = ?did) lst")
    case None
    let ?l = "lst @ [\<lparr>cid = ?did, cname = strProp data (js ''name''), ckey = strProp data (js ''key''),
                  cavatar = orElse (fst (localAvatar amb ?did (strProp data (js ''avatar'')) w1)) None,
                  isSelf = False, calias = None, isBlocked = False, isVerified = False,
                  securityWarning = False, pendingNewKey = None\<rparr>]"
    have "addContactFromHandshake J E amb data w
            = caught (writeItem E amb CONTACTS_KEY (stringifyContacts J ?l) ?w2)"
      using True s None by (simp add: addContactFromHandshake_def Let_def split_beta)
    moreover have "take (length lst) (map ckey ?l) = map ckey lst" by simp
    ultimately show ?thesis using d2 by blast
  next
    case (Some i)
    show ?thesis
    proof (cases "ckey (lst ! i) \<noteq> strProp data (js ''key'')")
      case True
      let ?l = "lst[i := (lst ! i)\<lparr>securityWarning := True, pendingNewKey := strProp data (js ''key'')\<rparr>]"
      have "addContactFromHandshake J E amb data w
            = caught (writeItem E amb CONTACTS_KEY (stringifyContacts J ?l) w1)"
        using \<open>validateHandshakeData data\<close> s Some True
        by (simp add: addContactFromHandshake_def Let_def split_beta)
      moreover have "take (length lst) (map ckey ?l) = map ckey lst"
        by (simp add: map_ckey_update)
      ultimately show ?thesis by blast
    next
      case False
      let ?l = "lst[i := (lst ! i)\<lparr>cname := strProp data (js ''name''),
                  cavatar := orElse (fst (localAvatar amb ?did (strProp data (js ''avatar'')) w1))
                               (cavatar (lst ! i))\<rparr>]"
      have "addContactFromHandshake J E amb data w
            = caught (writeItem E amb CONTACTS_KEY (stringifyContacts J ?l) ?w2)"
        using \<open>validateHandshakeData data\<close> s Some False
        by (simp add: addContactFromHandshake_def Let_def split_beta)
      moreover have "take (length lst) (map ckey ?l) = map ckey lst"
        by (simp add: map_ckey_update)
      ultimately show ?thesis using d2 by blast
    qed
  qed
qed

lemma map_warn_keys:
  "map ckey (map (\<lambda>c. if cid c = x then c\<lparr>securityWarning := True, pendingNewKey := p\<rparr> else c) lst)
     = map ckey lst"
  by (induction lst) auto

lemma addLocally_mismatch:
  assumes s: "loadContacts J E amb w = Inr (Some lst, w1)"
    and f: "findIndex (\<lambda>c. cid c = cid nc) lst = Some i"
    and ne: "ckey (lst ! i) \<noteq> ckey nc"
  shows "addContactLocally J E amb nc w
           = writeItem E amb CONTACTS_KEY
               (stringifyContacts J
                 (map (\<lambda>c. if cid c = cid nc
                            then c\<lparr>securityWarning := True, pendingNewKey := ckey nc\<rparr>
                            else c) lst)) w1"
  using s ne findIndex_find[OF f] by (simp add: addContactLocally_def Let_def)

lemma addLocally_writes:
  assumes s: "loadContacts J E amb w = Inr (Some lst, w1)"
  shows "addContactLocally J E amb nc w = Inr w1
       \<or> (\<exists>lst' w2. dev w2 = dev w1
             \<and> take (length lst) (map ckey lst') = map ckey lst
             \<and> addContactLocally J E amb nc w
                 = writeItem E amb CONTACTS_KEY (stringifyContacts J lst') w2)"
proof (cases "find (\<lambda>c. cid c = cid nc) lst")
  case None
  let ?w2 = "snd (localAvatar amb (cid nc) (cavatar nc) w1)"
  have d2: "dev ?w2 = dev w1" by (rule localAvatar_dev)
  obtain c where "addContactLocally J E amb nc w
      = writeItem E amb CONTACTS_KEY (stringifyContacts J (lst @ [c])) ?w2"
    using s None by (simp add: addContactLocally_def Let_def split_beta)
  moreover have "take (length lst) (map ckey (lst @ [c])) = map ckey lst" by simp
  ultimately show ?thesis using d2 by blast
next
  case (Some e)
  show ?thesis
  proof (cases "ckey e \<noteq> ckey nc")
    case True
    then have "addContactLocally J E amb nc w
           = writeItem E amb CONTACTS_KEY
               (stringifyContacts J
                 (map (\<lambda>c. if cid c = cid nc
                            then c\<lparr>securityWarning := True, pendingNewKey := ckey nc\<rparr>
                            else c) lst)) w1"
      using s Some by (simp add: addContactLocally_def Let_def)
    moreover have "take (length lst) (map ckey
                 (map (\<lambda>c. if cid c = cid nc
                            then c\<lparr>securityWarning := True, pendingNewKey := ckey nc\<rparr>
                            else c) lst)) = map ckey lst"
      by (simp add: map_warn_keys)
    ultimately show ?thesis by blast
  next
    case False
    then show ?thesis using s Some by (simp add: addContactLocally_def Let_def)
  qed
qed

lemma approve_result:
  assumes s: "loadContacts J E amb w = Inr (Some lst, w1)"
  shows "approveNewKey J E amb ident w
           = caught (writeItem E amb CONTACTS_KEY
               (stringifyContacts J
                  (map (\<lambda>c. if cid c = ident
                             then c\<lparr>ckey := pendingNewKey c, securityWarning := False,
                                    pendingNewKey := None, isVerified := False\<rparr>
                             else c) lst)) w1)"
  using s by (simp add: approveNewKey_def)

text \<open>
  C1 (as amended).  Let the contact list read from the store (\<open>secureGet\<close>, then
  \<open>JSON.parse\<close>) be \<open>lst\<close>, and let the contact found for an identifier, the first
  entry of the list with it, have the key \<open>K1\<close>.  A handshake whose data passes
  \<open>validateHandshakeData\<close>, and a contact add, that carry this identifier with another
  key \<open>K2\<close> write (\<open>JSON.stringify\<close>, then \<open>secureSet\<close>) the list in which this contact
  keeps the key \<open>K1\<close>, has \<open>securityWarning\<close> set and has \<open>pendingNewKey\<close> equal to \<open>K2\<close>.
  A handshake that fails the validation changes nothing.  Whatever list a handshake or
  a contact add writes, valid or not, begins with the stored keys in their order.  The
  approval writes the list in which the key is the pending one, \<open>securityWarning\<close> and
  \<open>pendingNewKey\<close> are cleared and \<open>isVerified\<close> is reset.  A list written is the list
  read afterwards when its JSON text has no code unit above 0xFF and parses back to it
  (\<open>readsBack\<close>).
\<close>

theorem key_rotation_staged_until_approval:
  assumes ok: "storage_lib_ok E" and len: "length (setNonce amb) = 24"
    and rd: "loadContacts J E amb w = Inr (Some lst, w1)"
    and f: "findIndex (\<lambda>c. cid c = ident) lst = Some i"
    and k1: "ckey (lst ! i) = Some K1"
    and ne: "K2 \<noteq> K1"
  shows
   "(validateHandshakeData data \<and> strProp data (js ''id'') = Some ident
       \<and> strProp data (js ''key'') = Some K2 \<longrightarrow>
       (\<exists>lst' w'. lst' = lst[i := (lst ! i)\<lparr>securityWarning := True, pendingNewKey := Some K2\<rparr>]
          \<and> ckey (lst' ! i) = Some K1 \<and> securityWarning (lst' ! i)
          \<and> pendingNewKey (lst' ! i) = Some K2
          \<and> writeItem E amb CONTACTS_KEY (stringifyContacts J lst') w1 = Inr w'
          \<and> addContactFromHandshake J E amb data w = w'
          \<and> (readsBack J lst' \<longrightarrow> loadContacts J E amb' w' = Inr (Some lst', w'))))
  \<and> (cid newContact = ident \<and> ckey newContact = Some K2 \<longrightarrow>
       (\<exists>lst' w'. length lst' = length lst
          \<and> lst' ! i = (lst ! i)\<lparr>securityWarning := True, pendingNewKey := Some K2\<rparr>
          \<and> ckey (lst' ! i) = Some K1 \<and> securityWarning (lst' ! i)
          \<and> pendingNewKey (lst' ! i) = Some K2
          \<and> writeItem E amb CONTACTS_KEY (stringifyContacts J lst') w1 = Inr w'
          \<and> addContactLocally J E amb newContact w = Inr w'
          \<and> (readsBack J lst' \<longrightarrow> loadContacts J E amb' w' = Inr (Some lst', w'))))
  \<and> (\<not> validateHandshakeData anyData \<longrightarrow> addContactFromHandshake J E amb anyData w = w)
  \<and> (addContactFromHandshake J E amb anyData w = w
       \<or> (\<exists>lst' w2 w'. dev w2 = dev w1
             \<and> take (length lst) (map ckey lst') = map ckey lst
             \<and> writeItem E amb CONTACTS_KEY (stringifyContacts J lst') w2 = Inr w'
             \<and> addContactFromHandshake J E amb anyData w = w'))
  \<and> (addContactLocally J E amb anyContact w = Inr w1
       \<or> (\<exists>lst' w2 w'. dev w2 = dev w1
             \<and> take (length lst) (map ckey lst') = map ckey lst
             \<and> writeItem E amb CONTACTS_KEY (stringifyContacts J lst') w2 = Inr w'
             \<and> addContactLocally J E amb anyContact w = Inr w'))
  \<and> (\<exists>lst' w'. length lst' = length lst
          \<and> lst' ! i = (lst ! i)\<lparr>ckey := pendingNewKey (lst ! i), securityWarning := False,
                                  pendingNewKey := None, isVerified := False\<rparr>
          \<and> writeItem E amb CONTACTS_KEY (stringifyContacts J lst') w1 = Inr w'
          \<and> approveNewKey J E amb ident w = w'
          \<and> (readsBack J lst' \<longrightarrow> loadContacts J E amb' w' = Inr (Some lst', w')))"
proof -
  have il: "i < length lst" and ci: "cid (lst ! i) = ident"
    using findIndex_Some[OF f] by auto
  have kne: "ckey (lst ! i) \<noteq> Some K2" using k1 ne by simp
  obtain k where ck: "cachedEncKey (dev w1) = Some k"
    using loadContacts_Some[OF rd] by blast
  have wr: "\<exists>w'. writeItem E amb CONTACTS_KEY (stringifyContacts J l) w2 = Inr w'
           \<and> (readsBack J l \<longrightarrow> loadContacts J E amb' w' = Inr (Some l, w'))"
    if "dev w2 = dev w1" for l w2
    using write_then_load[OF ok _ len, of w2 k J l amb'] ck that by auto
  have a: "validateHandshakeData data \<and> strProp data (js ''id'') = Some ident
       \<and> strProp data (js ''key'') = Some K2 \<longrightarrow>
       (\<exists>lst' w'. lst' = lst[i := (lst ! i)\<lparr>securityWarning := True, pendingNewKey := Some K2\<rparr>]
          \<and> ckey (lst' ! i) = Some K1 \<and> securityWarning (lst' ! i)
          \<and> pendingNewKey (lst' ! i) = Some K2
          \<and> writeItem E amb CONTACTS_KEY (stringifyContacts J lst') w1 = Inr w'
          \<and> addContactFromHandshake J E amb data w = w'
          \<and> (readsBack J lst' \<longrightarrow> loadContacts J E amb' w' = Inr (Some lst', w')))"
  proof (intro impI)
    assume h: "validateHandshakeData data \<and> strProp data (js ''id'') = Some ident
       \<and> strProp data (js ''key'') = Some K2"
    let ?l = "lst[i := (lst ! i)\<lparr>securityWarning := True, pendingNewKey := Some K2\<rparr>]"
    obtain w' where w': "writeItem E amb CONTACTS_KEY (stringifyContacts J ?l) w1 = Inr w'"
      "readsBack J ?l \<longrightarrow> loadContacts J E amb' w' = Inr (Some ?l, w')"
      using wr[of w1 ?l] by blast
    have "addContactFromHandshake J E amb data w
           = caught (writeItem E amb CONTACTS_KEY (stringifyContacts J ?l) w1)"
      using handshake_mismatch[OF _ rd _ f _ kne, of data] h by blast
    then have r: "addContactFromHandshake J E amb data w = w'"
      using w'(1) by (simp add: caught_def)
    have p: "ckey (?l ! i) = Some K1 \<and> securityWarning (?l ! i) \<and> pendingNewKey (?l ! i) = Some K2"
      using il k1 by simp
    show "\<exists>lst' w'. lst' = lst[i := (lst ! i)\<lparr>securityWarning := True, pendingNewKey := Some K2\<rparr>]
          \<and> ckey (lst' ! i) = Some K1 \<and> securityWarning (lst' ! i)
          \<and> pendingNewKey (lst' ! i) = Some K2
          \<and> writeItem E amb CONTACTS_KEY (stringifyContacts J lst') w1 = Inr w'
          \<and> addContactFromHandshake J E amb data w = w'
          \<and> (readsBack J lst' \<longrightarrow> loadContacts J E amb' w' = Inr (Some lst', w'))"
      using w' r p by blast
  qed
  have b: "cid newContact = ident \<and> ckey newContact = Some K2 \<longrightarrow>
       (\<exists>lst' w'. length lst' = length lst
          \<and> lst' ! i = (lst ! i)\<lparr>securityWarning := True, pendingNewKey := Some K2\<rparr>
          \<and> ckey (lst' ! i) = Some K1 \<and> securityWarning (lst' ! i)
          \<and> pendingNewKey (lst' ! i) = Some K2
          \<and> writeItem E amb CONTACTS_KEY (stringifyContacts J lst') w1 = Inr w'
          \<and> addContactLocally J E amb newContact w = Inr w'
          \<and> (readsBack J lst' \<longrightarrow> loadContacts J E amb' w' = Inr (Some lst', w')))"
  proof (intro impI)
    assume h: "cid newContact = ident \<and> ckey newContact = Some K2"
    then have f': "findIndex (\<lambda>c. cid c = cid newContact) lst = Some i"
      and ne': "ckey (lst ! i) \<noteq> ckey newContact"
      using f kne by auto
    let ?l = "map (\<lambda>c. if cid c = cid newContact
                        then c\<lparr>securityWarning := True, pendingNewKey := ckey newContact\<rparr>
                        else c) lst"
    obtain w' where w': "writeItem E amb CONTACTS_KEY (stringifyContacts J ?l) w1 = Inr w'"
      "readsBack J ?l \<longrightarrow> loadContacts J E amb' w' = Inr (Some ?l, w')"
      using wr[of w1 ?l] by blast
    have r: "addContactLocally J E amb newContact w = Inr w'"
      using addLocally_mismatch[OF rd f' ne'] w'(1) by simp
    have p: "length ?l = length lst
          \<and> ?l ! i = (lst ! i)\<lparr>securityWarning := True, pendingNewKey := Some K2\<rparr>
          \<and> ckey (?l ! i) = Some K1 \<and> securityWarning (?l ! i)
          \<and> pendingNewKey (?l ! i) = Some K2"
      using il ci k1 h by simp
    show "\<exists>lst' w'. length lst' = length lst
          \<and> lst' ! i = (lst ! i)\<lparr>securityWarning := True, pendingNewKey := Some K2\<rparr>
          \<and> ckey (lst' ! i) = Some K1 \<and> securityWarning (lst' ! i)
          \<and> pendingNewKey (lst' ! i) = Some K2
          \<and> writeItem E amb CONTACTS_KEY (stringifyContacts J lst') w1 = Inr w'
          \<and> addContactLocally J E amb newContact w = Inr w'
          \<and> (readsBack J lst' \<longrightarrow> loadContacts J E amb' w' = Inr (Some lst', w'))"
      using w' r p by blast
  qed
  have c: "\<not> validateHandshakeData anyData \<longrightarrow> addContactFromHandshake J E amb anyData w = w"
    by (simp add: handshake_invalid)
  have d: "addContactFromHandshake J E amb anyData w = w
       \<or> (\<exists>lst' w2 w'. dev w2 = dev w1
             \<and> take (length lst) (map ckey lst') = map ckey lst
             \<and> writeItem E amb CONTACTS_KEY (stringifyContacts J lst') w2 = Inr w'
             \<and> addContactFromHandshake J E amb anyData w = w')"
  proof (cases "addContactFromHandshake J E amb anyData w = w")
    case True
    then show ?thesis by blast
  next
    case False
    then obtain lst' w2 where l: "dev w2 = dev w1"
        "take (length lst) (map ckey lst') = map ckey lst"
        "addContactFromHandshake J E amb anyData w
           = caught (writeItem E amb CONTACTS_KEY (stringifyContacts J lst') w2)"
      using handshake_writes[OF rd, of anyData] by blast
    obtain w' where w': "writeItem E amb CONTACTS_KEY (stringifyContacts J lst') w2 = Inr w'"
      using wr[OF l(1), of lst'] by blast
    have "addContactFromHandshake J E amb anyData w = w'"
      using l(3) w' by (simp add: caught_def)
    then show ?thesis using l(1,2) w' by blast
  qed
  have e: "addContactLocally J E amb anyContact w = Inr w1
       \<or> (\<exists>lst' w2 w'. dev w2 = dev w1
             \<and> take (length lst) (map ckey lst') = map ckey lst
             \<and> writeItem E amb CONTACTS_KEY (stringifyContacts J lst') w2 = Inr w'
             \<and> addContactLocally J E amb anyContact w = Inr w')"
  proof (cases "addContactLocally J E amb anyContact w = Inr w1")
    case True
    then show ?thesis by blast
  next
    case False
    then obtain lst' w2 where l: "dev w2 = dev w1"
        "take (length lst) (map ckey lst') = map ckey lst"
        "addContactLocally J E amb anyContact w
           = writeItem E amb CONTACTS_KEY (stringifyContacts J lst') w2"
      using addLocally_writes[OF rd, of anyContact] by blast
    obtain w' where w': "writeItem E amb CONTACTS_KEY (stringifyContacts J lst') w2 = Inr w'"
      using wr[OF l(1), of lst'] by blast
    then show ?thesis using l by auto
  qed
  have g: "\<exists>lst' w'. length lst' = length lst
          \<and> lst' ! i = (lst ! i)\<lparr>ckey := pendingNewKey (lst ! i), securityWarning := False,
                                  pendingNewKey := None, isVerified := False\<rparr>
          \<and> writeItem E amb CONTACTS_KEY (stringifyContacts J lst') w1 = Inr w'
          \<and> approveNewKey J E amb ident w = w'
          \<and> (readsBack J lst' \<longrightarrow> loadContacts J E amb' w' = Inr (Some lst', w'))"
  proof -
    let ?l = "map (\<lambda>c. if cid c = ident
                             then c\<lparr>ckey := pendingNewKey c, securityWarning := False,
                                    pendingNewKey := None, isVerified := False\<rparr>
                             else c) lst"
    obtain w' where w': "writeItem E amb CONTACTS_KEY (stringifyContacts J ?l) w1 = Inr w'"
      "readsBack J ?l \<longrightarrow> loadContacts J E amb' w' = Inr (Some ?l, w')"
      using wr[of w1 ?l] by blast
    have r: "approveNewKey J E amb ident w = w'"
      using approve_result[OF rd, of ident] w'(1) by (simp add: caught_def)
    have p: "length ?l = length lst
          \<and> ?l ! i = (lst ! i)\<lparr>ckey := pendingNewKey (lst ! i), securityWarning := False,
                                  pendingNewKey := None, isVerified := False\<rparr>"
      using il ci by simp
    show ?thesis using w' r p by blast
  qed
  show ?thesis using a b c d e g by blast
qed

lemma sample_world_key: "cachedEncKey (dev (sampleWorld a)) = Some [0x0a, 0x1b, 0x2c, 0x3d]"
  by (simp add: sampleWorld_def)

lemma length_sampleNonce: "length sampleNonce = 24"
  by (simp add: sampleNonce_def)

lemma sample_read:
  assumes "a key = Some (sampleRecord v)" and "latin1 v"
  shows "secureGet sampleEnv n key (dev (sampleWorld a)) = Inr (Some v, dev (sampleWorld a))"
proof -
  have st: "asyncStorage (dev (sampleWorld a)) key = Some (sampleRecord v)"
    using assms(1) by (simp add: sampleWorld_def sampleDevice_def)
  have ne: "sampleRecord v \<noteq> []" by (simp add: sampleRecord_def)
  have dec: "decodeBase64 sampleEnv (sampleRecord v)
      = Some (uint8ArrayToString (sampleNonce @ secretbox sampleEnv (stringToUint8Array v) sampleNonce
                 [0x0a, 0x1b, 0x2c, 0x3d]))"
    using latin1_bytes[of "sampleNonce @ sampleTag [0x0a, 0x1b, 0x2c, 0x3d] @ stringToUint8Array v"]
    by (simp add: sampleRecord_def sampleEnv_def)
  have "secureGet sampleEnv n key (dev (sampleWorld a))
          = Inr (Some (uint8ArrayToString (stringToUint8Array v)), dev (sampleWorld a))"
    by (rule secureGet_envelope[OF sample_lib_ok sample_world_key st ne dec length_sampleNonce])
  then show ?thesis using mask_id_latin1[OF assms(2)] by (simp add: string_of_bytes_of_string)
qed

lemma sample_loadContacts:
  assumes "a CONTACTS_KEY = Some (sampleRecord t)" and "latin1 t" and "t \<noteq> []"
    and "parseContacts sampleCodec t = Some l"
  shows "loadContacts sampleCodec sampleEnv amb (sampleWorld a) = Inr (Some l, sampleWorld a)"
  using sample_read[of a CONTACTS_KEY t, OF assms(1,2)] assms(3,4)
  by (simp add: loadContacts_def readItem_def)

lemma sample_parse:
  "parseContacts sampleCodec (js ''[Bob]'') = Some [sampleContact]"
  "parseContacts sampleCodec (js ''[Bob!]'') = Some [warnedContact]"
  "parseContacts sampleCodec (js ''[Bob#]'') = Some [blockedContact]"
  "parseContacts sampleCodec (js ''[Bob,Bob]'') = Some [sampleContact, sampleContact]"
  "parseContacts sampleCodec (js ''[Eve,Bob#]'') = Some [otherContact, blockedContact]"
  by (simp_all add: sampleCodec_def sampleLists_def js_def)

lemma sample_texts:
  "latin1 (js ''[Bob]'') \<and> js ''[Bob]'' \<noteq> []"
  "latin1 (js ''[Bob!]'') \<and> js ''[Bob!]'' \<noteq> []"
  "latin1 (js ''[Bob#]'') \<and> js ''[Bob#]'' \<noteq> []"
  "latin1 (js ''[Bob,Bob]'') \<and> js ''[Bob,Bob]'' \<noteq> []"
  "latin1 (js ''[Eve,Bob#]'') \<and> js ''[Eve,Bob#]'' \<noteq> []"
  by (simp_all add: latin1_def js_def)

lemma sample_stringify:
  "stringifyContacts sampleCodec [warnedContact] = js ''[Bob!]''"
  "stringifyContacts sampleCodec [approvedContact] = js ''[Bob2]''"
  "stringifyContacts sampleCodec [warnedContact, sampleContact] = js ''[Bob!,Bob]''"
  by (simp_all add: sampleCodec_def sampleLists_def warnedContact_def approvedContact_def
      sampleContact_def blockedContact_def otherContact_def hexLowerCD_def hexUpperAB_def js_def)

lemma sample_readsBack:
  "readsBack sampleCodec [warnedContact]"
  "readsBack sampleCodec [approvedContact]"
  unfolding readsBack_def sample_stringify
  by (simp_all add: latin1_def js_def sampleCodec_def sampleLists_def)

lemma sample_keys_differ: "hexLowerCD \<noteq> hexUpperAB"
  by (simp add: hexLowerCD_def hexUpperAB_def js_def)

lemma sample_findIndex:
  "findIndex (\<lambda>c. cid c = js ''A1B2C3D4E5F6'') [sampleContact] = Some 0"
  "findIndex (\<lambda>c. cid c = js ''A1B2C3D4E5F6'') [warnedContact] = Some 0"
  "findIndex (\<lambda>c. cid c = js ''A1B2C3D4E5F6'') [sampleContact, sampleContact] = Some 0"
  by (simp_all add: sampleContact_def warnedContact_def)

lemma sample_handshake_valid: "validateHandshakeData (handshakeData hexLowerCD (js ''Bob''))"
  by (simp add: validateHandshakeData_def handshakeData_def isObject_def getProp_def js_def
      hexLowerCD_def isHexDigit_def hexValue_def truthy_def)

lemma sample_handshake_invalid:
  "\<not> validateHandshakeData (handshakeData hexLowerCD (replicate 101 0x61))"
  by (simp add: validateHandshakeData_def handshakeData_def getProp_def js_def truthy_def)

lemma sample_handshake_props:
  "strProp (handshakeData k n) (js ''id'') = Some (js ''A1B2C3D4E5F6'')"
  "strProp (handshakeData k n) (js ''key'') = Some k"
  by (simp_all add: strProp_def getProp_def handshakeData_def js_def)

lemma sample_stored_text:
  assumes "latin1 t \<and> t \<noteq> []" and "parseContacts sampleCodec t = Some l"
  shows "loadContacts sampleCodec sampleEnv amb (sampleWorld [CONTACTS_KEY \<mapsto> sampleRecord t])
           = Inr (Some l, sampleWorld [CONTACTS_KEY \<mapsto> sampleRecord t])"
  using assms by (intro sample_loadContacts) simp_all

lemma sample_stored:
  "loadContacts sampleCodec sampleEnv amb (sampleWorld [CONTACTS_KEY \<mapsto> sampleRecord (js ''[Bob]'')])
     = Inr (Some [sampleContact], sampleWorld [CONTACTS_KEY \<mapsto> sampleRecord (js ''[Bob]'')])"
  "loadContacts sampleCodec sampleEnv amb (sampleWorld [CONTACTS_KEY \<mapsto> sampleRecord (js ''[Bob!]'')])
     = Inr (Some [warnedContact], sampleWorld [CONTACTS_KEY \<mapsto> sampleRecord (js ''[Bob!]'')])"
  "loadContacts sampleCodec sampleEnv amb (sampleWorld [CONTACTS_KEY \<mapsto> sampleRecord (js ''[Bob#]'')])
     = Inr (Some [blockedContact], sampleWorld [CONTACTS_KEY \<mapsto> sampleRecord (js ''[Bob#]'')])"
  "loadContacts sampleCodec sampleEnv amb (sampleWorld [CONTACTS_KEY \<mapsto> sampleRecord (js ''[Bob,Bob]'')])
     = Inr (Some [sampleContact, sampleContact],
            sampleWorld [CONTACTS_KEY \<mapsto> sampleRecord (js ''[Bob,Bob]'')])"
  by (simp_all add: sample_stored_text sample_parse sample_texts)

theorem key_rotation_staged_until_approval_witness:
  "storage_lib_ok sampleEnv
   \<and> length (setNonce sampleAmbient) = 24
   \<and> loadContacts sampleCodec sampleEnv sampleAmbient
        (sampleWorld [CONTACTS_KEY \<mapsto> sampleRecord (js ''[Bob]'')])
       = Inr (Some [sampleContact], sampleWorld [CONTACTS_KEY \<mapsto> sampleRecord (js ''[Bob]'')])
   \<and> findIndex (\<lambda>c. cid c = js ''A1B2C3D4E5F6'') [sampleContact] = Some 0
   \<and> ckey ([sampleContact] ! 0) = Some hexUpperAB
   \<and> hexLowerCD \<noteq> hexUpperAB
   \<and> validateHandshakeData (handshakeData hexLowerCD (js ''Bob''))
   \<and> strProp (handshakeData hexLowerCD (js ''Bob'')) (js ''id'') = Some (js ''A1B2C3D4E5F6'')
   \<and> strProp (handshakeData hexLowerCD (js ''Bob'')) (js ''key'') = Some hexLowerCD
   \<and> readsBack sampleCodec [warnedContact]
   \<and> ckey warnedContact = Some hexUpperAB \<and> securityWarning warnedContact
   \<and> pendingNewKey warnedContact = Some hexLowerCD
   \<and> loadContacts sampleCodec sampleEnv sampleAmbient
        (addContactFromHandshake sampleCodec sampleEnv sampleAmbient
           (handshakeData hexLowerCD (js ''Bob''))
           (sampleWorld [CONTACTS_KEY \<mapsto> sampleRecord (js ''[Bob]'')]))
       = Inr (Some [warnedContact],
              addContactFromHandshake sampleCodec sampleEnv sampleAmbient
                (handshakeData hexLowerCD (js ''Bob''))
                (sampleWorld [CONTACTS_KEY \<mapsto> sampleRecord (js ''[Bob]'')]))
   \<and> (\<exists>w'. addContactLocally sampleCodec sampleEnv sampleAmbient
                (sampleContact\<lparr>ckey := Some hexLowerCD\<rparr>)
                (sampleWorld [CONTACTS_KEY \<mapsto> sampleRecord (js ''[Bob]'')]) = Inr w'
          \<and> loadContacts sampleCodec sampleEnv sampleAmbient w' = Inr (Some [warnedContact], w'))
   \<and> \<not> validateHandshakeData (handshakeData hexLowerCD (replicate 101 0x61))
   \<and> addContactFromHandshake sampleCodec sampleEnv sampleAmbient
        (handshakeData hexLowerCD (replicate 101 0x61))
        (sampleWorld [CONTACTS_KEY \<mapsto> sampleRecord (js ''[Bob]'')])
       = sampleWorld [CONTACTS_KEY \<mapsto> sampleRecord (js ''[Bob]'')]
   \<and> loadContacts sampleCodec sampleEnv sampleAmbient
        (sampleWorld [CONTACTS_KEY \<mapsto> sampleRecord (js ''[Bob!]'')])
       = Inr (Some [warnedContact], sampleWorld [CONTACTS_KEY \<mapsto> sampleRecord (js ''[Bob!]'')])
   \<and> readsBack sampleCodec [approvedContact]
   \<and> ckey approvedContact = Some hexLowerCD \<and> \<not> securityWarning approvedContact
   \<and> pendingNewKey approvedContact = None \<and> \<not> isVerified approvedContact
   \<and> loadContacts sampleCodec sampleEnv sampleAmbient
        (approveNewKey sampleCodec sampleEnv sampleAmbient (js ''A1B2C3D4E5F6'')
           (sampleWorld [CONTACTS_KEY \<mapsto> sampleRecord (js ''[Bob!]'')]))
       = Inr (Some [approvedContact],
              approveNewKey sampleCodec sampleEnv sampleAmbient (js ''A1B2C3D4E5F6'')
                (sampleWorld [CONTACTS_KEY \<mapsto> sampleRecord (js ''[Bob!]'')]))"
proof -
  let ?W = "sampleWorld [CONTACTS_KEY \<mapsto> sampleRecord (js ''[Bob]'')]"
  let ?W2 = "sampleWorld [CONTACTS_KEY \<mapsto> sampleRecord (js ''[Bob!]'')]"
  have len: "length (setNonce sampleAmbient) = 24"
    by (simp add: sampleAmbient_def sampleNonce_def)
  have k: "ckey ([sampleContact] ! 0) = Some hexUpperAB" by (simp add: sampleContact_def)
  have k': "ckey ([warnedContact] ! 0) = Some hexUpperAB"
    by (simp add: warnedContact_def sampleContact_def)
  have c: "cid (sampleContact\<lparr>ckey := Some hexLowerCD\<rparr>) = js ''A1B2C3D4E5F6''
           \<and> ckey (sampleContact\<lparr>ckey := Some hexLowerCD\<rparr>) = Some hexLowerCD"
    by (simp add: sampleContact_def)
  have wf: "ckey warnedContact = Some hexUpperAB \<and> securityWarning warnedContact
            \<and> pendingNewKey warnedContact = Some hexLowerCD"
    by (simp add: warnedContact_def sampleContact_def)
  have af: "ckey approvedContact = Some hexLowerCD \<and> \<not> securityWarning approvedContact
            \<and> pendingNewKey approvedContact = None \<and> \<not> isVerified approvedContact"
    by (simp add: approvedContact_def sampleContact_def)
  have u1: "[sampleContact][0 := ([sampleContact] ! 0)\<lparr>securityWarning := True,
                pendingNewKey := Some hexLowerCD\<rparr>] = [warnedContact]"
    by (simp add: warnedContact_def)
  have u3: "([warnedContact] ! 0)\<lparr>ckey := pendingNewKey ([warnedContact] ! 0),
                securityWarning := False, pendingNewKey := None, isVerified := False\<rparr>
              = approvedContact"
    by (simp add: warnedContact_def approvedContact_def sampleContact_def)
  note t1 = key_rotation_staged_until_approval [where E = sampleEnv and J = sampleCodec
      and amb = sampleAmbient and amb' = sampleAmbient
      and data = "handshakeData hexLowerCD (js ''Bob'')"
      and newContact = "sampleContact\<lparr>ckey := Some hexLowerCD\<rparr>"
      and anyData = "handshakeData hexLowerCD (replicate 101 0x61)",
      OF sample_lib_ok len sample_stored(1) sample_findIndex(1) k sample_keys_differ]
  note t2 = key_rotation_staged_until_approval [where E = sampleEnv and J = sampleCodec
      and amb = sampleAmbient and amb' = sampleAmbient,
      OF sample_lib_ok len sample_stored(2) sample_findIndex(2) k' sample_keys_differ]
  from t1 sample_handshake_valid sample_handshake_props
  obtain lst' w' where 1: "lst' = [sampleContact][0 := ([sampleContact] ! 0)\<lparr>securityWarning := True,
                pendingNewKey := Some hexLowerCD\<rparr>]"
      "addContactFromHandshake sampleCodec sampleEnv sampleAmbient
           (handshakeData hexLowerCD (js ''Bob'')) ?W = w'"
      "readsBack sampleCodec lst' \<longrightarrow>
         loadContacts sampleCodec sampleEnv sampleAmbient w' = Inr (Some lst', w')"
    by blast
  have r1: "loadContacts sampleCodec sampleEnv sampleAmbient
        (addContactFromHandshake sampleCodec sampleEnv sampleAmbient
           (handshakeData hexLowerCD (js ''Bob'')) ?W)
       = Inr (Some [warnedContact],
              addContactFromHandshake sampleCodec sampleEnv sampleAmbient
                (handshakeData hexLowerCD (js ''Bob'')) ?W)"
    using 1 u1 sample_readsBack(1) by simp
  from t1 c
  obtain lst2 w2 where 2: "length lst2 = length [sampleContact]"
      "lst2 ! 0 = ([sampleContact] ! 0)\<lparr>securityWarning := True, pendingNewKey := Some hexLowerCD\<rparr>"
      "addContactLocally sampleCodec sampleEnv sampleAmbient
                (sampleContact\<lparr>ckey := Some hexLowerCD\<rparr>) ?W = Inr w2"
      "readsBack sampleCodec lst2 \<longrightarrow>
         loadContacts sampleCodec sampleEnv sampleAmbient w2 = Inr (Some lst2, w2)"
    by blast
  have "lst2 = [warnedContact]"
    using 2(1,2) by (cases lst2) (simp_all add: warnedContact_def)
  then have r2: "\<exists>w'. addContactLocally sampleCodec sampleEnv sampleAmbient
                (sampleContact\<lparr>ckey := Some hexLowerCD\<rparr>) ?W = Inr w'
          \<and> loadContacts sampleCodec sampleEnv sampleAmbient w' = Inr (Some [warnedContact], w')"
    using 2(3,4) sample_readsBack(1) by blast
  from t1 sample_handshake_invalid
  have r3: "addContactFromHandshake sampleCodec sampleEnv sampleAmbient
        (handshakeData hexLowerCD (replicate 101 0x61)) ?W = ?W"
    by blast
  from t2
  obtain lst3 w3 where 3: "length lst3 = length [warnedContact]"
      "lst3 ! 0 = ([warnedContact] ! 0)\<lparr>ckey := pendingNewKey ([warnedContact] ! 0),
                securityWarning := False, pendingNewKey := None, isVerified := False\<rparr>"
      "approveNewKey sampleCodec sampleEnv sampleAmbient (js ''A1B2C3D4E5F6'') ?W2 = w3"
      "readsBack sampleCodec lst3 \<longrightarrow>
         loadContacts sampleCodec sampleEnv sampleAmbient w3 = Inr (Some lst3, w3)"
    by blast
  have "lst3 = [approvedContact]"
    using 3(1,2) u3 by (cases lst3) simp_all
  then have r4: "loadContacts sampleCodec sampleEnv sampleAmbient
        (approveNewKey sampleCodec sampleEnv sampleAmbient (js ''A1B2C3D4E5F6'') ?W2)
       = Inr (Some [approvedContact],
              approveNewKey sampleCodec sampleEnv sampleAmbient (js ''A1B2C3D4E5F6'') ?W2)"
    using 3(3,4) sample_readsBack(2) by blast
  from sample_lib_ok len sample_stored(1)[of sampleAmbient] sample_findIndex(1) k
    sample_keys_differ sample_handshake_valid sample_handshake_props[of hexLowerCD "js ''Bob''"]
    sample_readsBack wf r1 r2 sample_handshake_invalid r3 sample_stored(2)[of sampleAmbient] af r4
  show ?thesis by blast
qed

lemma sample_write:
  "writeItem sampleEnv sampleAmbient key v (sampleWorld a)
     = Inr (sampleWorld (a(key \<mapsto> sampleRecord v)))"
proof -
  have l: "latin1 (uint8ArrayToString
             (sampleNonce @ sampleTag [0x0a, 0x1b, 0x2c, 0x3d] @ stringToUint8Array v))"
    by (rule latin1_bytes)
  have g: "getEncryptionKey sampleEnv (dev (sampleWorld a))
             = Inr (Some [0x0a, 0x1b, 0x2c, 0x3d], dev (sampleWorld a))"
    by (rule gek_cached[OF sample_world_key])
  have e: "encodeBase64 sampleEnv (uint8ArrayToString
             (sampleNonce @ sampleTag [0x0a, 0x1b, 0x2c, 0x3d] @ stringToUint8Array v))
           = Some (sampleRecord v)"
    using l by (simp add: sampleEnv_def sampleRecord_def)
  have s: "secretbox sampleEnv m n k = sampleTag k @ m" for m n k
    by (simp add: sampleEnv_def)
  have n: "setNonce sampleAmbient = sampleNonce" by (simp add: sampleAmbient_def)
  have "secureSet sampleEnv sampleNonce key v (dev (sampleWorld a))
          = Inr ((dev (sampleWorld a))\<lparr>asyncStorage :=
                   (asyncStorage (dev (sampleWorld a)))(key \<mapsto> sampleRecord v)\<rparr>)"
    using g e by (simp add: secureSet_def Let_def s)
  then show ?thesis
    by (simp add: writeItem_def n sampleWorld_def sampleDevice_def)
qed

text \<open>
  A handshake for the identifier of the stored contact with another key and a name of
  101 characters fails the validation: the device stays as it is and no warning is
  set.  When the list holds the identifier twice, a valid handshake with another key
  sets the warning on the first entry only.
\<close>

theorem handshake_validation_counterexample:
  "loadContacts sampleCodec sampleEnv sampleAmbient
        (sampleWorld [CONTACTS_KEY \<mapsto> sampleRecord (js ''[Bob]'')])
       = Inr (Some [sampleContact], sampleWorld [CONTACTS_KEY \<mapsto> sampleRecord (js ''[Bob]'')])
   \<and> strProp (handshakeData hexLowerCD (replicate 101 0x61)) (js ''id'') = Some (cid sampleContact)
   \<and> strProp (handshakeData hexLowerCD (replicate 101 0x61)) (js ''key'') = Some hexLowerCD
   \<and> ckey sampleContact = Some hexUpperAB
   \<and> hexLowerCD \<noteq> hexUpperAB
   \<and> addContactFromHandshake sampleCodec sampleEnv sampleAmbient
        (handshakeData hexLowerCD (replicate 101 0x61))
        (sampleWorld [CONTACTS_KEY \<mapsto> sampleRecord (js ''[Bob]'')])
       = sampleWorld [CONTACTS_KEY \<mapsto> sampleRecord (js ''[Bob]'')]
   \<and> \<not> securityWarning sampleContact
   \<and> pendingNewKey sampleContact = None
   \<and> loadContacts sampleCodec sampleEnv sampleAmbient
        (sampleWorld [CONTACTS_KEY \<mapsto> sampleRecord (js ''[Bob,Bob]'')])
       = Inr (Some [sampleContact, sampleContact],
              sampleWorld [CONTACTS_KEY \<mapsto> sampleRecord (js ''[Bob,Bob]'')])
   \<and> validateHandshakeData (handshakeData hexLowerCD (js ''Bob''))
   \<and> strProp (handshakeData hexLowerCD (js ''Bob'')) (js ''id'') = Some (cid sampleContact)
   \<and> strProp (handshakeData hexLowerCD (js ''Bob'')) (js ''key'') = Some hexLowerCD
   \<and> addContactFromHandshake sampleCodec sampleEnv sampleAmbient
        (handshakeData hexLowerCD (js ''Bob''))
        (sampleWorld [CONTACTS_KEY \<mapsto> sampleRecord (js ''[Bob,Bob]'')])
       = sampleWorld [CONTACTS_KEY \<mapsto>
            sampleRecord (stringifyContacts sampleCodec [warnedContact, sampleContact])]
   \<and> loadContacts sampleCodec sampleEnv sampleAmbient
        (sampleWorld [CONTACTS_KEY \<mapsto>
            sampleRecord (stringifyContacts sampleCodec [warnedContact, sampleContact])])
       = Inr (Some [warnedContact, sampleContact],
              sampleWorld [CONTACTS_KEY \<mapsto>
                sampleRecord (stringifyContacts sampleCodec [warnedContact, sampleContact])])"
proof -
  have a: "addContactFromHandshake sampleCodec sampleEnv sampleAmbient
        (handshakeData hexLowerCD (replicate 101 0x61))
        (sampleWorld [CONTACTS_KEY \<mapsto> sampleRecord (js ''[Bob]'')])
       = sampleWorld [CONTACTS_KEY \<mapsto> sampleRecord (js ''[Bob]'')]"
    using sample_handshake_invalid by (rule handshake_invalid)
  have f: "findIndex (\<lambda>c. cid c = cid sampleContact) [sampleContact, sampleContact] = Some 0"
    by simp
  have ne: "ckey ([sampleContact, sampleContact] ! 0) \<noteq> Some hexLowerCD"
    using sample_keys_differ by (simp add: sampleContact_def)
  have i: "cid sampleContact = js ''A1B2C3D4E5F6''" by (simp add: sampleContact_def)
  have u: "[sampleContact, sampleContact][0 := ([sampleContact, sampleContact] ! 0)
              \<lparr>securityWarning := True, pendingNewKey := Some hexLowerCD\<rparr>]
            = [warnedContact, sampleContact]"
    by (simp add: warnedContact_def)
  have b: "addContactFromHandshake sampleCodec sampleEnv sampleAmbient
        (handshakeData hexLowerCD (js ''Bob''))
        (sampleWorld [CONTACTS_KEY \<mapsto> sampleRecord (js ''[Bob,Bob]'')])
       = sampleWorld [CONTACTS_KEY \<mapsto>
            sampleRecord (stringifyContacts sampleCodec [warnedContact, sampleContact])]"
    using handshake_mismatch[OF sample_handshake_valid sample_stored(4) _ f _ ne,
        of sampleAmbient] sample_handshake_props[of hexLowerCD "js ''Bob''"] i
    by (simp add: sample_write caught_def warnedContact_def)
  have p: "parseContacts sampleCodec (js ''[Bob!,Bob]'') = Some [warnedContact, sampleContact]"
    by (simp add: sampleCodec_def sampleLists_def js_def)
  have t: "latin1 (js ''[Bob!,Bob]'') \<and> js ''[Bob!,Bob]'' \<noteq> []"
    by (simp add: latin1_def js_def)
  have c: "loadContacts sampleCodec sampleEnv sampleAmbient
        (sampleWorld [CONTACTS_KEY \<mapsto>
            sampleRecord (stringifyContacts sampleCodec [warnedContact, sampleContact])])
       = Inr (Some [warnedContact, sampleContact],
              sampleWorld [CONTACTS_KEY \<mapsto>
                sampleRecord (stringifyContacts sampleCodec [warnedContact, sampleContact])])"
    unfolding sample_stringify using sample_stored_text[OF t p] .
  have s: "\<not> securityWarning sampleContact \<and> pendingNewKey sampleContact = None
           \<and> ckey sampleContact = Some hexUpperAB"
    by (simp add: sampleContact_def)
  from sample_stored(1)[of sampleAmbient] sample_stored(4)[of sampleAmbient]
    sample_handshake_props[of hexLowerCD "replicate 101 0x61"]
    sample_handshake_props[of hexLowerCD "js ''Bob''"] i
    sample_keys_differ sample_handshake_valid a b c s
  show ?thesis by simp
qed

section \<open>Ephemeral retention: properties\<close>

lemma sweepContact_swept:
  assumes "ephemeralTimerStore st (cid c) = Some t" and "0 < t"
    and "historyStore st (cid c) = Some h"
  shows "historyStore (sweepContact now st c) (cid c)
           = (if filter (retained now (t * 1000)) h = [] \<and> h \<noteq> [] then None
              else Some (filter (retained now (t * 1000)) h))"
proof (cases "length (filter (retained now (t * 1000)) h) < length h")
  case True
  then have "h \<noteq> []" by auto
  then show ?thesis using assms True by (simp add: sweepContact_def Let_def)
next
  case False
  then have e: "filter (retained now (t * 1000)) h = h"
    by (metis length_filter_le filter_id_conv  le_neq_implies_less length_filter_less)
  then show ?thesis using assms False by (auto simp: sweepContact_def Let_def)
qed

lemma sweepContact_frame:
  "contactsStore (sweepContact now st c) = contactsStore st
   \<and> ephemeralTimerStore (sweepContact now st c) = ephemeralTimerStore st
   \<and> lastReadStore (sweepContact now st c) = lastReadStore st
   \<and> files (sweepContact now st c) = files st
   \<and> (\<forall>i. i \<noteq> cid c \<longrightarrow> historyStore (sweepContact now st c) i = historyStore st i)"
  by (auto simp: sweepContact_def Let_def split: option.splits)

lemma sweepContact_never_stores_empty:
  "historyStore (sweepContact now st c) i = Some [] \<Longrightarrow> historyStore st i = Some []"
  by (auto simp: sweepContact_def Let_def split: option.splits if_splits)


lemma sweepContact_again:
  assumes t: "ephemeralTimerStore st i = Some t" and p: "0 < t"
    and h: "historyStore st i = (if filter (retained now (t * 1000)) h = [] \<and> h \<noteq> [] then None
              else Some (filter (retained now (t * 1000)) h))"
  shows "historyStore (sweepContact now st c) i = historyStore st i"
proof (cases "cid c = i")
  case False
  then show ?thesis using sweepContact_frame[of now st c] by auto
next
  case True
  show ?thesis
  proof (cases "historyStore st i")
    case None
    then show ?thesis using True t by (simp add: sweepContact_def)
  next
    case (Some f)
    then have f: "f = filter (retained now (t * 1000)) h" using h by (auto split: if_splits)
    have ff: "filter (retained now (t * 1000)) f = f" using f by simp
    have "historyStore st (cid c) = Some f" using Some True by simp
    moreover have "ephemeralTimerStore st (cid c) = Some t" using t True by simp
    ultimately have "sweepContact now st c = st"
      using ff p by (simp add: sweepContact_def Let_def)
    then show ?thesis by simp
  qed
qed

lemma foldl_sweep_again:
  assumes "ephemeralTimerStore st i = Some t" and "0 < t"
    and "historyStore st i = (if filter (retained now (t * 1000)) h = [] \<and> h \<noteq> [] then None
              else Some (filter (retained now (t * 1000)) h))"
  shows "historyStore (foldl (sweepContact now) st cs) i = historyStore st i"
  using assms
proof (induction cs arbitrary: st)
  case Nil
  then show ?case by simp
next
  case (Cons c cs)
  have a: "historyStore (sweepContact now st c) i = historyStore st i"
    by (rule sweepContact_again[OF Cons.prems])
  have b: "ephemeralTimerStore (sweepContact now st c) i = Some t"
    using Cons.prems(1) sweepContact_frame[of now st c] by simp
  show ?case
    using Cons.IH[OF b Cons.prems(2)] a Cons.prems(3) by simp
qed

lemma foldl_sweep_result:
  assumes "c \<in> set cs" and "ephemeralTimerStore st (cid c) = Some t" and "0 < t"
    and "historyStore st (cid c) = Some h"
  shows "historyStore (foldl (sweepContact now) st cs) (cid c)
           = (if filter (retained now (t * 1000)) h = [] \<and> h \<noteq> [] then None
              else Some (filter (retained now (t * 1000)) h))"
  using assms
proof (induction cs arbitrary: st)
  case Nil
  then show ?case by simp
next
  case (Cons x xs)
  have tm: "ephemeralTimerStore (sweepContact now st x) (cid c) = Some t"
    using Cons.prems(2) sweepContact_frame[of now st x] by simp
  show ?case
  proof (cases "cid x = cid c")
    case True
    have "historyStore (sweepContact now st x) (cid c)
            = (if filter (retained now (t * 1000)) h = [] \<and> h \<noteq> [] then None
              else Some (filter (retained now (t * 1000)) h))"
      using sweepContact_swept[of st x t h now] True Cons.prems by simp
    then show ?thesis
      using foldl_sweep_again[OF tm Cons.prems(3), of now h xs] by simp
  next
    case False
    then have "c \<in> set xs" using Cons.prems(1) by auto
    moreover have "historyStore (sweepContact now st x) (cid c) = Some h"
      using False Cons.prems(4) sweepContact_frame[of now st x] by simp
    ultimately show ?thesis using Cons.IH[OF _ tm Cons.prems(3)] by simp
  qed
qed

lemma periodic_sweep_result:
  assumes "contactsStore st = Some cs" and "c \<in> set cs"
    and "ephemeralTimerStore st (cid c) = Some t" and "0 < t"
    and "historyStore st (cid c) = Some h"
  shows "historyStore (cleanExpiredEphemeralMessages now st) (cid c)
           = (if filter (retained now (t * 1000)) h = [] \<and> h \<noteq> [] then None
              else Some (filter (retained now (t * 1000)) h))"
  using assms foldl_sweep_result[of c cs st t h now]
  by (simp add: cleanExpiredEphemeralMessages_def)

lemma chat_sweep_result:
  assumes "historyStore st contactId = Some h" and "contactId \<noteq> []" and "t \<noteq> 0"
  shows "historyStore (cleanExpiredMessages (Some t) contactId now st) contactId
           = Some (filter (retained now (t * 1000)) h)"
proof (cases "length (filter (retained now (t * 1000)) h) < length h")
  case True
  then show ?thesis using assms by (simp add: cleanExpiredMessages_def Let_def)
next
  case False
  then have e: "filter (retained now (t * 1000)) h = h"
    by (metis length_filter_le filter_id_conv  le_neq_implies_less length_filter_less)
  then show ?thesis using assms False by (simp add: cleanExpiredMessages_def Let_def)
qed

text \<open>
  C9.  Both sweeps keep exactly the messages with \<open>now - timestamp < TTL * 1000\<close>
  (\<open>periodic_sweep_result\<close>, \<open>chat_sweep_result\<close>, and \<open>sample_retained\<close> for a timer of
  60 seconds).  When every message of a non-empty history has expired, the periodic
  sweep removes the storage record, but the sweep of the chat screen stores the empty
  list, and a later periodic sweep leaves that empty list in place.
\<close>

theorem chat_sweep_persists_empty_list:
  assumes h: "historyStore st contactId = Some history" and ne: "history \<noteq> []"
    and c: "contactId \<noteq> []" and t: "0 < t"
    and tm: "ephemeralTimerStore st contactId = Some t"
    and ex: "\<forall>m\<in>set history. \<not> now - timestamp m < t * 1000"
    and cs: "contactsStore st = Some contacts" and m: "contact \<in> set contacts"
    and ci: "cid contact = contactId"
  shows "historyStore (cleanExpiredMessages (Some t) contactId now st) contactId = Some []
       \<and> historyStore (cleanExpiredEphemeralMessages now'
            (cleanExpiredMessages (Some t) contactId now st)) contactId = Some []
       \<and> historyStore (cleanExpiredEphemeralMessages now st) contactId = None"
proof -
  have f: "filter (retained now (t * 1000)) history = []"
    using ex by (simp add: retained_def filter_empty_conv)
  let ?st1 = "cleanExpiredMessages (Some t) contactId now st"
  have 1: "historyStore ?st1 contactId = Some []"
    using chat_sweep_result[OF h c, of t now] t f by simp
  have fr: "contactsStore ?st1 = Some contacts \<and> ephemeralTimerStore ?st1 contactId = Some t"
    using cs tm by (simp add: cleanExpiredMessages_def Let_def split: option.splits)
  have 2: "historyStore (cleanExpiredEphemeralMessages now' ?st1) contactId = Some []"
    using periodic_sweep_result[of ?st1 contacts contact t "[]" now'] fr m ci t 1 by simp
  have 3: "historyStore (cleanExpiredEphemeralMessages now st) contactId = None"
    using periodic_sweep_result[of st contacts contact t history now] cs m ci tm t h f ne by simp
  show ?thesis using 1 2 3 by blast
qed

lemma sample_retained:
  "filter (retained 1700000061000 (60 * 1000))
      [sampleMessage (1700000061000 - 59000), sampleMessage (1700000061000 - 61000)]
     = [sampleMessage (1700000061000 - 59000)]"
  by (simp add: retained_def sampleMessage_def)

theorem chat_sweep_persists_empty_list_witness:
  "historyStore (timedState [sampleMessage (1700000061000 - 61000)]) (js ''A1B2C3D4E5F6'')
       = Some [sampleMessage (1700000061000 - 61000)]
   \<and> ephemeralTimerStore (timedState [sampleMessage (1700000061000 - 61000)]) (js ''A1B2C3D4E5F6'')
       = Some 60
   \<and> \<not> 1700000061000 - timestamp (sampleMessage (1700000061000 - 61000)) < 60 * 1000
   \<and> historyStore (cleanExpiredMessages (Some 60) (js ''A1B2C3D4E5F6'') 1700000061000
          (timedState [sampleMessage (1700000061000 - 61000)])) (js ''A1B2C3D4E5F6'') = Some []
   \<and> historyStore (cleanExpiredEphemeralMessages 1700000066000
          (cleanExpiredMessages (Some 60) (js ''A1B2C3D4E5F6'') 1700000061000
             (timedState [sampleMessage (1700000061000 - 61000)]))) (js ''A1B2C3D4E5F6'') = Some []
   \<and> historyStore (cleanExpiredEphemeralMessages 1700000061000
          (timedState [sampleMessage (1700000061000 - 61000)])) (js ''A1B2C3D4E5F6'') = None"
proof -
  let ?h = "[sampleMessage (1700000061000 - 61000)]"
  have h: "historyStore (timedState ?h) (js ''A1B2C3D4E5F6'') = Some ?h"
    by (simp add: timedState_def)
  have ne: "?h \<noteq> []" by simp
  have c: "js ''A1B2C3D4E5F6'' \<noteq> []" by (simp add: js_def)
  have t: "(0::int) < 60" by simp
  have tm: "ephemeralTimerStore (timedState ?h) (js ''A1B2C3D4E5F6'') = Some 60"
    by (simp add: timedState_def)
  have ex: "\<forall>m\<in>set ?h. \<not> 1700000061000 - timestamp m < 60 * 1000"
    by (simp add: sampleMessage_def)
  have cs: "contactsStore (timedState ?h) = Some [sampleContact]" by (simp add: timedState_def)
  have m: "sampleContact \<in> set [sampleContact]" by simp
  have ci: "cid sampleContact = js ''A1B2C3D4E5F6''" by (simp add: sampleContact_def)
  have ex': "\<not> 1700000061000 - timestamp (sampleMessage (1700000061000 - 61000)) < 60 * 1000"
    by (simp add: sampleMessage_def)
  from chat_sweep_persists_empty_list [OF h ne c t tm ex cs m ci, of 1700000066000] h tm ex'
  show ?thesis by blast
qed

section \<open>Inbound dispatcher: properties\<close>

lemma trialDecrypt_first:
  assumes "\<forall>c\<in>set before. isSelf c \<or> openUnder E sk n ct c = None"
    and "\<not> isSelf s" and "openUnder E sk n ct s = Some r"
  shows "trialDecrypt E sk n ct (before @ s # after) = Some (uint8ArrayToString r, s)"
  using assms by (induction before) auto

lemma trialDecrypt_Some:
  "trialDecrypt E sk nonce ct cs = Some (t, c) \<Longrightarrow>
     \<exists>before after r. cs = before @ c # after
       \<and> (\<forall>b\<in>set before. isSelf b \<or> openUnder E sk nonce ct b = None)
       \<and> \<not> isSelf c \<and> openUnder E sk nonce ct c = Some r \<and> t = uint8ArrayToString r"
proof (induction cs)
  case Nil
  then show ?case by simp
next
  case (Cons a cs)
  show ?case
  proof (cases "isSelf a \<or> openUnder E sk nonce ct a = None")
    case True
    then have "trialDecrypt E sk nonce ct cs = Some (t, c)"
      using Cons.prems by (auto split: if_splits option.splits)
    then obtain before after r where h: "cs = before @ c # after"
        "\<forall>b\<in>set before. isSelf b \<or> openUnder E sk nonce ct b = None"
        "\<not> isSelf c" "openUnder E sk nonce ct c = Some r" "t = uint8ArrayToString r"
      using Cons.IH by blast
    have "a # cs = (a # before) @ c # after" using h(1) by simp
    moreover have "\<forall>b\<in>set (a # before). isSelf b \<or> openUnder E sk nonce ct b = None"
      using True h(2) by simp
    ultimately show ?thesis using h(3,4,5) by blast
  next
    case False
    then obtain r where r: "\<not> isSelf a" "openUnder E sk nonce ct a = Some r" by auto
    then have "c = a \<and> t = uint8ArrayToString r" using Cons.prems by simp
    then have "a # cs = [] @ c # cs \<and> (\<forall>b\<in>set []. isSelf b \<or> openUnder E sk nonce ct b = None)
        \<and> \<not> isSelf c \<and> openUnder E sk nonce ct c = Some r \<and> t = uint8ArrayToString r"
      using r by simp
    then show ?thesis by blast
  qed
qed

lemma decryptPhase_first:
  assumes "\<forall>c\<in>set before. isSelf c \<or> openUnder E sk (take 24 fm) (drop 24 fm) c = None"
    and "\<not> isSelf s" and "openUnder E sk (take 24 fm) (drop 24 fm) s = Some r"
  shows "snd (decryptPhase E sk (before @ s # after) fm) = Some s
       \<and> (uint8ArrayToString r \<noteq> [] \<longrightarrow>
            fst (decryptPhase E sk (before @ s # after) fm) = Some (uint8ArrayToString r))"
  using trialDecrypt_first[OF assms, of after]
  by (simp add: decryptPhase_def Let_def split: option.splits)

lemma processMessage_blocked:
  assumes dec: "decodeBase64 E (content msg) = Some decoded"
    and dp: "decryptPhase E secretKey contacts (stringToUint8Array decoded) = (Some d, Some sender)"
    and bl: "isBlocked sender"
    and ns: "\<not> startsWith d (js ''GHOST_SIGNAL:'')"
  shows "processMessage J E secretKey contacts (msg, amb) (w, ids)
           = Inr (w, if d \<noteq> [] \<and> delivery_id msg \<noteq> 0 then ids @ [delivery_id msg] else ids)"
  using dec dp bl ns by (simp add: processMessage_def Let_def)

text \<open>
  C10 (as amended).  Let the content of the item decode, and let \<open>sender\<close> be the first
  contact of the list, entries marked \<open>isSelf\<close> skipped, under whose key the envelope
  opens; let it be blocked.  Then the dispatcher takes this contact as the sender, the
  plaintext \<open>d\<close> it ends with is the opened one when that is not empty, and when \<open>d\<close> is
  not a \<open>GHOST_SIGNAL\<close> control message, processing the item leaves the whole world as
  it is: no item of the device is written, so no history changes, and no file is
  written.  Only the list of processed identifiers grows.
\<close>

theorem blocked_sender_message_dropped:
  assumes dec: "decodeBase64 E (content msg) = Some decoded"
    and fm: "fullMessage = stringToUint8Array decoded"
    and sp: "contacts = before @ sender # after"
    and first: "\<forall>c\<in>set before. isSelf c
                  \<or> openUnder E secretKey (take 24 fullMessage) (drop 24 fullMessage) c = None"
    and ns: "\<not> isSelf sender"
    and op: "openUnder E secretKey (take 24 fullMessage) (drop 24 fullMessage) sender = Some result"
    and bl: "isBlocked sender"
    and dp: "fst (decryptPhase E secretKey contacts fullMessage) = Some d"
    and nsig: "\<not> startsWith d (js ''GHOST_SIGNAL:'')"
  shows "snd (decryptPhase E secretKey contacts fullMessage) = Some sender
       \<and> (uint8ArrayToString result \<noteq> [] \<longrightarrow> d = uint8ArrayToString result)
       \<and> processMessage J E secretKey contacts (msg, amb) (w, ids)
           = Inr (w, if d \<noteq> [] \<and> delivery_id msg \<noteq> 0 then ids @ [delivery_id msg] else ids)"
proof -
  have s: "snd (decryptPhase E secretKey contacts fullMessage) = Some sender"
    and r: "uint8ArrayToString result \<noteq> [] \<longrightarrow>
            fst (decryptPhase E secretKey contacts fullMessage) = Some (uint8ArrayToString result)"
    using decryptPhase_first[OF first ns op, of after] sp by auto
  have p: "decryptPhase E secretKey contacts (stringToUint8Array decoded) = (Some d, Some sender)"
    using s dp fm by (simp add: prod_eq_iff)
  have "processMessage J E secretKey contacts (msg, amb) (w, ids)
           = Inr (w, if d \<noteq> [] \<and> delivery_id msg \<noteq> 0 then ids @ [delivery_id msg] else ids)"
    by (rule processMessage_blocked[OF dec p bl nsig])
  then show ?thesis using s r dp by simp
qed

lemma processMessage_ids:
  assumes "processMessage J E sk contacts (msg, amb) (w, ids) = Inr (w', ids')"
  shows "ids' = ids @ (if opens E sk contacts msg \<and> delivery_id msg \<noteq> 0
                       then [delivery_id msg] else [])"
proof -
  obtain decoded where dec: "decodeBase64 E (content msg) = Some decoded"
    using assms by (cases "decodeBase64 E (content msg)") (auto simp: processMessage_def Let_def)
  obtain dx sx where dp: "decryptPhase E sk contacts (stringToUint8Array decoded) = (dx, sx)"
    by (cases "decryptPhase E sk contacts (stringToUint8Array decoded)") auto
  show ?thesis
  proof (cases dx)
    case None
    then show ?thesis using assms dec dp by (simp add: processMessage_def opens_def Let_def)
  next
    case (Some d)
    show ?thesis
    proof (cases "d = []")
      case True
      then show ?thesis using assms dec dp Some by (simp add: processMessage_def opens_def Let_def)
    next
      case False
      have o: "opens E sk contacts msg" using dec dp Some False by (simp add: opens_def)
      show ?thesis
        using assms dec dp Some False o
        by (auto simp: processMessage_def Let_def split: if_splits option.splits sum.splits prod.splits)
    qed
  qed
qed

lemma pollLoop_ids:
  "pollLoop J E sk contacts messages (w, ids) = Inr (w', ids') \<Longrightarrow>
     ids' = ids @ openedIds E sk contacts messages"
proof (induction messages arbitrary: w ids)
  case Nil
  then show ?case by (simp add: openedIds_def)
next
  case (Cons item rest)
  obtain msg amb where it: "item = (msg, amb)" by (cases item) auto
  obtain w1 ids1 where p: "processMessage J E sk contacts (msg, amb) (w, ids) = Inr (w1, ids1)"
    and l: "pollLoop J E sk contacts rest (w1, ids1) = Inr (w', ids')"
    using Cons.prems it by (auto split: sum.splits)
  have "ids1 = ids @ (if opens E sk contacts msg \<and> delivery_id msg \<noteq> 0
                       then [delivery_id msg] else [])"
    using processMessage_ids[OF p] .
  moreover have "ids' = ids1 @ openedIds E sk contacts rest"
    using Cons.IH[OF l] .
  ultimately show ?case using it by (simp add: openedIds_def)
qed

text \<open>
  C5 (as amended).  When the contact list is read and no exception leaves the loop over
  the received items, the identifiers sent to \<open>/ack\<close> after the loop are exactly the
  non-zero identifiers of the items that opened to a non-empty plaintext, in the order
  received and whatever the processing did with them (stored, dropped as blocked,
  rejected as invalid media, handled as a signal); no request is made when there is
  none.  An item that no key opens is not acknowledged.
\<close>

theorem acknowledges_opened_items:
  assumes rd: "loadContacts J E amb w = Inr (stored, w1)"
    and cs: "contacts = (case stored of Some l \<Rightarrow> l | None \<Rightarrow> [])"
    and lp: "pollLoop J E secretKey contacts messages (w1, []) = Inr (w2, ids)"
  shows "ids = openedIds E secretKey contacts messages
       \<and> snd (checkGlobalMessages J E secretKey amb messages w)
           = (if openedIds E secretKey contacts messages = [] then None
              else Some (openedIds E secretKey contacts messages))"
proof -
  have i: "ids = openedIds E secretKey contacts messages"
    using pollLoop_ids[OF lp] by simp
  show ?thesis
  proof (cases "messages = []")
    case True
    then show ?thesis using i by (simp add: checkGlobalMessages_def openedIds_def)
  next
    case False
    then show ?thesis using rd cs lp i by (simp add: checkGlobalMessages_def Let_def)
  qed
qed

text \<open>
  An exception that leaves the loop (a content that does not decode, a history that
  does not parse, a write that fails) ends the poll in the outer \<open>catch\<close>: the items
  after it are not processed and nothing is acknowledged, not even the items processed
  before it.
\<close>

lemma processMessage_malformed:
  "decodeBase64 E (content msg) = None \<Longrightarrow>
     processMessage J E sk contacts (msg, amb) acc = Inl (fst acc)"
  by (simp add: processMessage_def Let_def)

lemma exception_no_acknowledgment:
  assumes "messages \<noteq> []"
    and "loadContacts J E amb w = Inl w1
         \<or> (\<exists>stored w1 w2. loadContacts J E amb w = Inr (stored, w1)
               \<and> pollLoop J E secretKey (case stored of Some l \<Rightarrow> l | None \<Rightarrow> []) messages (w1, [])
                    = Inl w2)"
  shows "snd (checkGlobalMessages J E secretKey amb messages w) = None"
  using assms by (auto simp: checkGlobalMessages_def Let_def)

lemma parseInt16_AB: "parseInt16 [0x41, 0x42] = Some 171"
  by (simp add: parseInt16_def isStrWhiteSpace_def isLineTerminator_def isHexDigit_def
      hexValue_def hexNumber_def js_def Let_def)

lemma not_lt_AB: "\<not> isLineTerminator 0x41" "\<not> isLineTerminator 0x42"
  by (simp_all add: isLineTerminator_def)

lemma fromHex_hexUpperAB: "fromHex hexUpperAB = Some samplePk"
  by (simp add: fromHex_def hexUpperAB_def samplePk_def js_def not_lt_AB parseInt16_AB
      toUint8_def)

lemma sample_decode_item:
  "decodeBase64 sampleEnv (content (envelopeItem i txt)) = Some (uint8ArrayToString (knownEnvelope txt))"
  using latin1_bytes[of "knownEnvelope txt"] by (simp add: envelopeItem_def sampleEnv_def)

lemma sample_decode_junk:
  "decodeBase64 sampleEnv (content (junkItem i)) = Some [1, 2, 3]"
  by (simp add: junkItem_def sampleEnv_def latin1_def)

lemma sample_openUnder:
  "openUnder sampleEnv sk n (samplePk @ m) blockedContact = Some m"
  "openUnder sampleEnv sk n (samplePk @ m) otherContact = Some m"
  by (simp_all add: openUnder_def blockedContact_def otherContact_def sampleContact_def
      fromHex_hexUpperAB sample_box_open)

lemma knownEnvelope_parts:
  "take 24 (knownEnvelope txt) = sampleNonce"
  "drop 24 (knownEnvelope txt) = samplePk @ stringToUint8Array txt"
  by (simp_all add: knownEnvelope_def sampleNonce_def)

lemma hello_latin1: "uint8ArrayToString (stringToUint8Array (js ''hello'')) = js ''hello''"
  by (simp add: string_of_bytes_of_string js_def)

lemma hello_not_empty: "js ''hello'' \<noteq> []"
  by (simp add: js_def)

lemma hello_not_signal: "\<not> startsWith (js ''hello'') (js ''GHOST_SIGNAL:'')"
  by (simp add: startsWith_def js_def)

lemma sample_not_self: "\<not> isSelf blockedContact" "\<not> isSelf otherContact"
  by (simp_all add: blockedContact_def otherContact_def sampleContact_def)

lemma sample_blocked: "isBlocked blockedContact" "\<not> isBlocked otherContact"
  by (simp_all add: blockedContact_def otherContact_def sampleContact_def)

lemma sample_open_hello:
  "openUnder sampleEnv sampleSk (take 24 (knownEnvelope (js ''hello'')))
      (drop 24 (knownEnvelope (js ''hello''))) blockedContact
     = Some (stringToUint8Array (js ''hello''))"
  by (simp add: knownEnvelope_parts sample_openUnder)

lemma sample_decryptPhase_hello:
  "decryptPhase sampleEnv sampleSk [blockedContact] (knownEnvelope (js ''hello''))
     = (Some (js ''hello''), Some blockedContact)"
  "decryptPhase sampleEnv sampleSk [otherContact, blockedContact] (knownEnvelope (js ''hello''))
     = (Some (js ''hello''), Some otherContact)"
  using hello_not_empty
  by (simp_all add: decryptPhase_def Let_def knownEnvelope_parts sample_openUnder sample_not_self
      hello_latin1)

lemma sample_decryptPhase_junk:
  "decryptPhase sampleEnv sampleSk [blockedContact] (stringToUint8Array [1, 2, 3]) = (None, None)"
  by (simp add: decryptPhase_def Let_def stringToUint8Array_def openUnder_def blockedContact_def
      sampleContact_def fromHex_hexUpperAB sampleEnv_def samplePk_def)

lemma sample_process_junk:
  "processMessage J sampleEnv sampleSk [blockedContact] (junkItem 8, amb) (w, ids) = Inr (w, ids)"
  by (rule processMessage_unopened[OF sample_decode_junk]) (simp add: sample_decryptPhase_junk)

lemma sample_process_blocked:
  "processMessage J sampleEnv sampleSk [blockedContact]
      (envelopeItem 7 (js ''hello''), amb) (w, []) = Inr (w, [7])"
proof -
  have dp: "decryptPhase sampleEnv sampleSk [blockedContact]
         (stringToUint8Array (uint8ArrayToString (knownEnvelope (js ''hello''))))
       = (Some (js ''hello''), Some blockedContact)"
    by (simp add: bytes_of_string_of_bytes sample_decryptPhase_hello)
  show ?thesis
    using processMessage_blocked[where J = J and amb = amb and w = w and ids = "[]",
        OF sample_decode_item[of 7 "js ''hello''"] dp sample_blocked(1) hello_not_signal]
      hello_not_empty
    by (simp add: envelopeItem_def)
qed

theorem blocked_sender_message_dropped_witness:
  "decodeBase64 sampleEnv (content (envelopeItem 7 (js ''hello'')))
       = Some (uint8ArrayToString (knownEnvelope (js ''hello'')))
   \<and> knownEnvelope (js ''hello'')
       = stringToUint8Array (uint8ArrayToString (knownEnvelope (js ''hello'')))
   \<and> [blockedContact] = [] @ blockedContact # []
   \<and> \<not> isSelf blockedContact
   \<and> openUnder sampleEnv sampleSk (take 24 (knownEnvelope (js ''hello'')))
        (drop 24 (knownEnvelope (js ''hello''))) blockedContact
       = Some (stringToUint8Array (js ''hello''))
   \<and> isBlocked blockedContact
   \<and> fst (decryptPhase sampleEnv sampleSk [blockedContact] (knownEnvelope (js ''hello'')))
       = Some (js ''hello'')
   \<and> \<not> startsWith (js ''hello'') (js ''GHOST_SIGNAL:'')
   \<and> snd (decryptPhase sampleEnv sampleSk [blockedContact] (knownEnvelope (js ''hello'')))
       = Some blockedContact
   \<and> processMessage sampleCodec sampleEnv sampleSk [blockedContact]
        (envelopeItem 7 (js ''hello''), sampleAmbient)
        (sampleWorld [CONTACTS_KEY \<mapsto> sampleRecord (js ''[Bob#]'')], [])
       = Inr (sampleWorld [CONTACTS_KEY \<mapsto> sampleRecord (js ''[Bob#]'')], [7])"
proof -
  have fm: "knownEnvelope (js ''hello'')
       = stringToUint8Array (uint8ArrayToString (knownEnvelope (js ''hello'')))"
    by (simp add: bytes_of_string_of_bytes)
  have sp: "[blockedContact] = [] @ blockedContact # []" by simp
  have first: "\<forall>c\<in>set []. isSelf c
        \<or> openUnder sampleEnv sampleSk (take 24 (knownEnvelope (js ''hello'')))
             (drop 24 (knownEnvelope (js ''hello''))) c = None"
    by simp
  have dp: "fst (decryptPhase sampleEnv sampleSk [blockedContact] (knownEnvelope (js ''hello'')))
       = Some (js ''hello'')"
    by (simp add: sample_decryptPhase_hello)
  have i: "delivery_id (envelopeItem 7 (js ''hello'')) = 7" by (simp add: envelopeItem_def)
  note t = blocked_sender_message_dropped [where J = sampleCodec and amb = sampleAmbient
      and w = "sampleWorld [CONTACTS_KEY \<mapsto> sampleRecord (js ''[Bob#]'')]" and ids = "[]",
      OF sample_decode_item[of 7 "js ''hello''"] fm sp first sample_not_self(1)
      sample_open_hello sample_blocked(1) dp hello_not_signal]
  from t hello_not_empty i
  have r: "snd (decryptPhase sampleEnv sampleSk [blockedContact] (knownEnvelope (js ''hello'')))
       = Some blockedContact
   \<and> processMessage sampleCodec sampleEnv sampleSk [blockedContact]
        (envelopeItem 7 (js ''hello''), sampleAmbient)
        (sampleWorld [CONTACTS_KEY \<mapsto> sampleRecord (js ''[Bob#]'')], [])
       = Inr (sampleWorld [CONTACTS_KEY \<mapsto> sampleRecord (js ''[Bob#]'')], [7])"
    by simp
  from sample_decode_item[of 7 "js ''hello''"] fm sp sample_not_self(1) sample_open_hello
    sample_blocked(1) dp hello_not_signal r
  show ?thesis by blast
qed

lemma sample_stored_two:
  "loadContacts sampleCodec sampleEnv amb
      (sampleWorld [CONTACTS_KEY \<mapsto> sampleRecord (js ''[Eve,Bob#]'')])
     = Inr (Some [otherContact, blockedContact],
            sampleWorld [CONTACTS_KEY \<mapsto> sampleRecord (js ''[Eve,Bob#]'')])"
  by (simp add: sample_stored_text sample_parse sample_texts)

lemma sample_no_history:
  "[CONTACTS_KEY \<mapsto> x] (historyKey (cid otherContact)) = None"
  by (simp add: historyKey_def CONTACTS_KEY_def otherContact_def js_def)

lemma sample_loadHistory_none:
  "a (historyKey ident) = None \<Longrightarrow>
     loadHistory J E amb ident (sampleWorld a) = Inr (None, sampleWorld a)"
  by (simp add: loadHistory_def readItem_def secureGet_def sampleWorld_def sampleDevice_def)

lemma sample_append_hello:
  "appendMessage sampleCodec sampleEnv sampleAmbient otherContact (js ''hello'')
      (sampleWorld [CONTACTS_KEY \<mapsto> x])
     = Inr (sampleWorld [CONTACTS_KEY \<mapsto> x,
              historyKey (cid otherContact) \<mapsto> sampleRecord (js ''[hello]'')])"
proof -
  have s: "stringifyHistory sampleCodec [\<lparr>mid = i, mtext = js ''hello'', timestamp = t,
              isMe = False, status = None\<rparr>] = js ''[hello]''" for i t
    by (simp add: sampleCodec_def js_def)
  have h: "loadHistory sampleCodec sampleEnv sampleAmbient (cid otherContact)
             (sampleWorld [CONTACTS_KEY \<mapsto> x])
           = Inr (None, sampleWorld [CONTACTS_KEY \<mapsto> x])"
    using sample_no_history[of x]
    by (rule sample_loadHistory_none[of "[CONTACTS_KEY \<mapsto> x]" "cid otherContact"])
  show ?thesis
    by (simp add: appendMessage_def Let_def h s sample_write)
qed

text \<open>
  The list holds a contact that is not blocked before a blocked one with the same key.
  The envelope opens under the key of the blocked contact and its plaintext is not a
  control message, yet the dispatcher takes the first contact as the sender and stores
  the message in a history.
\<close>

theorem blocked_key_first_match_counterexample:
  "isBlocked blockedContact
   \<and> decodeBase64 sampleEnv (content (envelopeItem 7 (js ''hello'')))
       = Some (uint8ArrayToString (knownEnvelope (js ''hello'')))
   \<and> openUnder sampleEnv sampleSk (take 24 (knownEnvelope (js ''hello'')))
        (drop 24 (knownEnvelope (js ''hello''))) blockedContact
       = Some (stringToUint8Array (js ''hello''))
   \<and> uint8ArrayToString (stringToUint8Array (js ''hello'')) = js ''hello''
   \<and> \<not> startsWith (js ''hello'') (js ''GHOST_SIGNAL:'')
   \<and> loadContacts sampleCodec sampleEnv sampleAmbient
        (sampleWorld [CONTACTS_KEY \<mapsto> sampleRecord (js ''[Eve,Bob#]'')])
       = Inr (Some [otherContact, blockedContact],
              sampleWorld [CONTACTS_KEY \<mapsto> sampleRecord (js ''[Eve,Bob#]'')])
   \<and> asyncStorage (dev (sampleWorld [CONTACTS_KEY \<mapsto> sampleRecord (js ''[Eve,Bob#]'')]))
        (historyKey (cid otherContact)) = None
   \<and> checkGlobalMessages sampleCodec sampleEnv sampleSk sampleAmbient
        [(envelopeItem 7 (js ''hello''), sampleAmbient)]
        (sampleWorld [CONTACTS_KEY \<mapsto> sampleRecord (js ''[Eve,Bob#]'')])
       = (sampleWorld [CONTACTS_KEY \<mapsto> sampleRecord (js ''[Eve,Bob#]''),
                       historyKey (cid otherContact) \<mapsto> sampleRecord (js ''[hello]'')],
          Some [7])"
proof -
  have dp: "decryptPhase sampleEnv sampleSk [otherContact, blockedContact]
         (stringToUint8Array (uint8ArrayToString (knownEnvelope (js ''hello''))))
       = (Some (js ''hello''), Some otherContact)"
    by (simp add: bytes_of_string_of_bytes sample_decryptPhase_hello)
  have p: "processMessage sampleCodec sampleEnv sampleSk [otherContact, blockedContact]
        (envelopeItem 7 (js ''hello''), sampleAmbient)
        (sampleWorld [CONTACTS_KEY \<mapsto> sampleRecord (js ''[Eve,Bob#]'')], [])
       = Inr (sampleWorld [CONTACTS_KEY \<mapsto> sampleRecord (js ''[Eve,Bob#]''),
                       historyKey (cid otherContact) \<mapsto> sampleRecord (js ''[hello]'')], [7])"
  proof -
    have m: "\<not> startsWith (js ''hello'') (js ''GHOST_MEDIA:'')"
      by (simp add: startsWith_def js_def)
    have i: "delivery_id (envelopeItem 7 (js ''hello'')) = 7" by (simp add: envelopeItem_def)
    show ?thesis
      using hello_not_empty hello_not_signal sample_blocked(2) m i
      by (simp add: processMessage_def Let_def sample_decode_item dp sample_append_hello)
  qed
  have c: "checkGlobalMessages sampleCodec sampleEnv sampleSk sampleAmbient
        [(envelopeItem 7 (js ''hello''), sampleAmbient)]
        (sampleWorld [CONTACTS_KEY \<mapsto> sampleRecord (js ''[Eve,Bob#]'')])
       = (sampleWorld [CONTACTS_KEY \<mapsto> sampleRecord (js ''[Eve,Bob#]''),
                       historyKey (cid otherContact) \<mapsto> sampleRecord (js ''[hello]'')],
          Some [7])"
    by (simp add: checkGlobalMessages_def sample_stored_two p)
  have n: "asyncStorage (dev (sampleWorld [CONTACTS_KEY \<mapsto> sampleRecord (js ''[Eve,Bob#]'')]))
        (historyKey (cid otherContact)) = None"
    using sample_no_history[of "sampleRecord (js ''[Eve,Bob#]'')"]
    by (simp only: sampleWorld_def sampleDevice_def world.simps device.simps)
  from sample_blocked(1) sample_decode_item[of 7 "js ''hello''"] sample_open_hello hello_latin1
    hello_not_signal sample_stored_two[of sampleAmbient] n c
  show ?thesis by blast
qed

lemma sample_opens_hello: "opens sampleEnv sampleSk [blockedContact] (envelopeItem 7 (js ''hello''))"
  using hello_not_empty
  by (simp add: opens_def sample_decode_item bytes_of_string_of_bytes sample_decryptPhase_hello)

lemma sample_opens_junk: "\<not> opens sampleEnv sampleSk [blockedContact] (junkItem 8)"
  by (simp add: opens_def sample_decode_junk sample_decryptPhase_junk)

lemma sample_decryptPhase_junk_two:
  "decryptPhase sampleEnv sampleSk [otherContact, blockedContact] (stringToUint8Array [1, 2, 3])
     = (None, None)"
  by (simp add: decryptPhase_def Let_def stringToUint8Array_def openUnder_def blockedContact_def
      otherContact_def sampleContact_def fromHex_hexUpperAB sampleEnv_def samplePk_def)

lemma sample_process_junk_two:
  "processMessage J sampleEnv sampleSk [otherContact, blockedContact] (junkItem 8, amb) (w, ids)
     = Inr (w, ids)"
  by (rule processMessage_unopened[OF sample_decode_junk]) (simp add: sample_decryptPhase_junk_two)

lemma sample_process_stored:
  "processMessage sampleCodec sampleEnv sampleSk [otherContact, blockedContact]
        (envelopeItem 7 (js ''hello''), sampleAmbient)
        (sampleWorld [CONTACTS_KEY \<mapsto> sampleRecord (js ''[Eve,Bob#]'')], [])
       = Inr (sampleWorld [CONTACTS_KEY \<mapsto> sampleRecord (js ''[Eve,Bob#]''),
                       historyKey (cid otherContact) \<mapsto> sampleRecord (js ''[hello]'')], [7])"
proof -
  have dp: "decryptPhase sampleEnv sampleSk [otherContact, blockedContact]
         (stringToUint8Array (uint8ArrayToString (knownEnvelope (js ''hello''))))
       = (Some (js ''hello''), Some otherContact)"
    by (simp add: bytes_of_string_of_bytes sample_decryptPhase_hello)
  have m: "\<not> startsWith (js ''hello'') (js ''GHOST_MEDIA:'')"
    by (simp add: startsWith_def js_def)
  have i: "delivery_id (envelopeItem 7 (js ''hello'')) = 7" by (simp add: envelopeItem_def)
  show ?thesis
    using hello_not_empty hello_not_signal sample_blocked(2) m i
    by (simp add: processMessage_def Let_def sample_decode_item dp sample_append_hello)
qed

lemma sample_opens_two:
  "opens sampleEnv sampleSk [otherContact, blockedContact] (envelopeItem 7 (js ''hello''))"
  "\<not> opens sampleEnv sampleSk [otherContact, blockedContact] (junkItem 8)"
  using hello_not_empty
  by (simp_all add: opens_def sample_decode_item bytes_of_string_of_bytes sample_decryptPhase_hello
      sample_decode_junk sample_decryptPhase_junk_two)

theorem acknowledges_opened_items_witness:
  "loadContacts sampleCodec sampleEnv sampleAmbient
        (sampleWorld [CONTACTS_KEY \<mapsto> sampleRecord (js ''[Bob#]'')])
       = Inr (Some [blockedContact], sampleWorld [CONTACTS_KEY \<mapsto> sampleRecord (js ''[Bob#]'')])
   \<and> pollLoop sampleCodec sampleEnv sampleSk [blockedContact]
        [(envelopeItem 7 (js ''hello''), sampleAmbient), (junkItem 8, sampleAmbient)]
        (sampleWorld [CONTACTS_KEY \<mapsto> sampleRecord (js ''[Bob#]'')], [])
       = Inr (sampleWorld [CONTACTS_KEY \<mapsto> sampleRecord (js ''[Bob#]'')], [7])
   \<and> opens sampleEnv sampleSk [blockedContact] (envelopeItem 7 (js ''hello''))
   \<and> \<not> opens sampleEnv sampleSk [blockedContact] (junkItem 8)
   \<and> openedIds sampleEnv sampleSk [blockedContact]
        [(envelopeItem 7 (js ''hello''), sampleAmbient), (junkItem 8, sampleAmbient)] = [7]
   \<and> snd (checkGlobalMessages sampleCodec sampleEnv sampleSk sampleAmbient
          [(envelopeItem 7 (js ''hello''), sampleAmbient), (junkItem 8, sampleAmbient)]
          (sampleWorld [CONTACTS_KEY \<mapsto> sampleRecord (js ''[Bob#]'')])) = Some [7]
   \<and> loadContacts sampleCodec sampleEnv sampleAmbient
        (sampleWorld [CONTACTS_KEY \<mapsto> sampleRecord (js ''[Eve,Bob#]'')])
       = Inr (Some [otherContact, blockedContact],
              sampleWorld [CONTACTS_KEY \<mapsto> sampleRecord (js ''[Eve,Bob#]'')])
   \<and> pollLoop sampleCodec sampleEnv sampleSk [otherContact, blockedContact]
        [(envelopeItem 7 (js ''hello''), sampleAmbient), (junkItem 8, sampleAmbient)]
        (sampleWorld [CONTACTS_KEY \<mapsto> sampleRecord (js ''[Eve,Bob#]'')], [])
       = Inr (sampleWorld [CONTACTS_KEY \<mapsto> sampleRecord (js ''[Eve,Bob#]''),
                       historyKey (cid otherContact) \<mapsto> sampleRecord (js ''[hello]'')], [7])
   \<and> opens sampleEnv sampleSk [otherContact, blockedContact] (envelopeItem 7 (js ''hello''))
   \<and> \<not> opens sampleEnv sampleSk [otherContact, blockedContact] (junkItem 8)
   \<and> snd (checkGlobalMessages sampleCodec sampleEnv sampleSk sampleAmbient
          [(envelopeItem 7 (js ''hello''), sampleAmbient), (junkItem 8, sampleAmbient)]
          (sampleWorld [CONTACTS_KEY \<mapsto> sampleRecord (js ''[Eve,Bob#]'')])) = Some [7]"
proof -
  let ?W = "sampleWorld [CONTACTS_KEY \<mapsto> sampleRecord (js ''[Bob#]'')]"
  let ?V = "sampleWorld [CONTACTS_KEY \<mapsto> sampleRecord (js ''[Eve,Bob#]'')]"
  have cs: "[blockedContact] = (case Some [blockedContact] of Some l \<Rightarrow> l | None \<Rightarrow> [])"
    by simp
  have cs2: "[otherContact, blockedContact]
      = (case Some [otherContact, blockedContact] of Some l \<Rightarrow> l | None \<Rightarrow> [])"
    by simp
  have lp: "pollLoop sampleCodec sampleEnv sampleSk [blockedContact]
        [(envelopeItem 7 (js ''hello''), sampleAmbient), (junkItem 8, sampleAmbient)] (?W, [])
       = Inr (?W, [7])"
    by (simp add: sample_process_blocked sample_process_junk)
  have lp2: "pollLoop sampleCodec sampleEnv sampleSk [otherContact, blockedContact]
        [(envelopeItem 7 (js ''hello''), sampleAmbient), (junkItem 8, sampleAmbient)] (?V, [])
       = Inr (sampleWorld [CONTACTS_KEY \<mapsto> sampleRecord (js ''[Eve,Bob#]''),
                       historyKey (cid otherContact) \<mapsto> sampleRecord (js ''[hello]'')], [7])"
    by (simp add: sample_process_stored sample_process_junk_two)
  note t = acknowledges_opened_items [where amb = sampleAmbient, OF sample_stored(3) cs lp]
  note t2 = acknowledges_opened_items [where amb = sampleAmbient, OF sample_stored_two cs2 lp2]
  from t have o: "openedIds sampleEnv sampleSk [blockedContact]
        [(envelopeItem 7 (js ''hello''), sampleAmbient), (junkItem 8, sampleAmbient)] = [7]"
    by simp
  from t o have a: "snd (checkGlobalMessages sampleCodec sampleEnv sampleSk sampleAmbient
          [(envelopeItem 7 (js ''hello''), sampleAmbient), (junkItem 8, sampleAmbient)] ?W)
        = Some [7]"
    by simp
  from t2 have o2: "openedIds sampleEnv sampleSk [otherContact, blockedContact]
        [(envelopeItem 7 (js ''hello''), sampleAmbient), (junkItem 8, sampleAmbient)] = [7]"
    by simp
  from t2 o2 have a2: "snd (checkGlobalMessages sampleCodec sampleEnv sampleSk sampleAmbient
          [(envelopeItem 7 (js ''hello''), sampleAmbient), (junkItem 8, sampleAmbient)] ?V)
        = Some [7]"
    by simp
  from sample_stored(3)[of sampleAmbient] lp sample_opens_hello sample_opens_junk o a
    sample_stored_two[of sampleAmbient] lp2 sample_opens_two a2
  show ?thesis by blast
qed

text \<open>
  A batch of one item with identifier 8 that no key opens: the loop ends without an
  exception and no acknowledgment is sent.
\<close>

theorem unopened_item_not_acknowledged_counterexample:
  "delivery_id (junkItem 8) = 8
   \<and> \<not> opens sampleEnv sampleSk [blockedContact] (junkItem 8)
   \<and> loadContacts sampleCodec sampleEnv sampleAmbient
        (sampleWorld [CONTACTS_KEY \<mapsto> sampleRecord (js ''[Bob#]'')])
       = Inr (Some [blockedContact], sampleWorld [CONTACTS_KEY \<mapsto> sampleRecord (js ''[Bob#]'')])
   \<and> checkGlobalMessages sampleCodec sampleEnv sampleSk sampleAmbient [(junkItem 8, sampleAmbient)]
        (sampleWorld [CONTACTS_KEY \<mapsto> sampleRecord (js ''[Bob#]'')])
       = (sampleWorld [CONTACTS_KEY \<mapsto> sampleRecord (js ''[Bob#]'')], None)"
proof -
  have "checkGlobalMessages sampleCodec sampleEnv sampleSk sampleAmbient [(junkItem 8, sampleAmbient)]
        (sampleWorld [CONTACTS_KEY \<mapsto> sampleRecord (js ''[Bob#]'')])
       = (sampleWorld [CONTACTS_KEY \<mapsto> sampleRecord (js ''[Bob#]'')], None)"
    by (simp add: checkGlobalMessages_def sample_stored(3) sample_process_junk)
  then show ?thesis using sample_opens_junk sample_stored(3)[of sampleAmbient]
    by (simp add: junkItem_def)
qed

end
